(* ===== verification/Prelude.thy ===== *)
theory Prelude
  imports Complex_Main "HOL-Library.Word"
begin

text \<open>
  Shared vocabulary of the development: the bytes of an \<open>ImageData\<close> buffer, the
  exceptions the browser APIs raise, JavaScript's out-of-range array read, the decimal
  text of a number as a template literal prints it, RGBA colours as the canvas
  stores them, and the generic lemmas on these that the component theories use.
\<close>

named_theorems color_simps "selector equations of the colour constructors"
named_theorems canvas_simps "equations of the canvas operations, for concrete runs"

type_synonym byte = "8 word"

text \<open>The exceptions of the browser APIs the script calls (a \<open>DOMException\<close> name, or the
  \<open>Error\<close> that \<open>makeCtx\<close> throws when no 2D context is available).\<close>

datatype js_error = SurfaceUnavailable | IndexSizeError | SyntaxError

text \<open>Sequencing of calls that may throw: the first exception propagates.\<close>

definition js_bind :: "js_error + 'a \<Rightarrow> ('a \<Rightarrow> js_error + 'b) \<Rightarrow> js_error + 'b" where
  "js_bind m f = (case m of Inl e \<Rightarrow> Inl e | Inr x \<Rightarrow> f x)"

subsection \<open>JavaScript array reads\<close>

text \<open>\<open>a[i]\<close> on a typed array is \<open>undefined\<close> when \<open>i\<close> is out of range: \<open>None\<close> here.\<close>

definition js_get :: "'a list \<Rightarrow> nat \<Rightarrow> 'a option" where
  "js_get xs i = (if i < length xs then Some (xs ! i) else None)"

subsection \<open>Decimal text of a number\<close>

text \<open>\<open>`${n}`\<close> for a non-negative integer \<open>n\<close> prints its decimal digits.\<close>

definition digit_char :: "nat \<Rightarrow> char" where
  "digit_char d = char_of (48 + d)"

fun nat_str :: "nat \<Rightarrow> string" where
  "nat_str n = (if n < 10 then [digit_char n] else nat_str (n div 10) @ [digit_char (n mod 10)])"

declare nat_str.simps [simp del]

definition is_digit :: "char \<Rightarrow> bool" where
  "is_digit c \<longleftrightarrow> (48::nat) \<le> of_char c \<and> of_char c \<le> (57::nat)"

definition digit_val :: "char \<Rightarrow> nat" where
  "digit_val c = of_char c - 48"

definition digits_val :: "string \<Rightarrow> nat" where
  "digits_val ds = foldl (\<lambda>a c. 10 * a + digit_val c) 0 ds"

subsection \<open>Colours\<close>

text \<open>A CSS colour as the canvas holds it: channels in \<open>[0, 255]\<close>, alpha in \<open>[0, 1]\<close>,
  not premultiplied. JavaScript numbers are modelled as exact reals.\<close>

record color =
  red :: real
  green :: real
  blue :: real
  alpha :: real

definition rgba :: "real \<Rightarrow> real \<Rightarrow> real \<Rightarrow> real \<Rightarrow> color" where
  "rgba r g b a = \<lparr>red = r, green = g, blue = b, alpha = a\<rparr>"

definition transparent_black :: color where
  "transparent_black = rgba 0 0 0 0"

definition color_ok :: "color \<Rightarrow> bool" where
  "color_ok c \<longleftrightarrow> 0 \<le> red c \<and> red c \<le> 255 \<and> 0 \<le> green c \<and> green c \<le> 255 \<and>
     0 \<le> blue c \<and> blue c \<le> 255 \<and> 0 \<le> alpha c \<and> alpha c \<le> 1"

definition grey :: "color \<Rightarrow> bool" where
  "grey c \<longleftrightarrow> red c = green c \<and> green c = blue c"

definition clamp :: "real \<Rightarrow> real \<Rightarrow> real \<Rightarrow> real" where
  "clamp lo hi x = max lo (min hi x)"

text \<open>Linear interpolation, as a gradient interpolates between two stops.\<close>

definition lerp :: "real \<Rightarrow> real \<Rightarrow> real \<Rightarrow> real" where
  "lerp a b w = a + (b - a) * w"

subsection \<open>Bytes\<close>

text \<open>A channel written to a byte buffer: rounded half up and clamped to \<open>[0, 255]\<close>.\<close>

definition to_byte :: "real \<Rightarrow> byte" where
  "to_byte x = word_of_int (max 0 (min 255 (round x)))"

subsection \<open>Lemmas\<close>

lemma js_bind_simps [simp]: "js_bind (Inl e) f = Inl e" "js_bind (Inr x) f = f x"
  by (simp_all add: js_bind_def)

lemma js_bind_Inr_iff: "js_bind m f = Inr y \<longleftrightarrow> (\<exists>x. m = Inr x \<and> f x = Inr y)"
  by (cases m) simp_all

lemma js_get_in [simp]: "i < length xs \<Longrightarrow> js_get xs i = Some (xs ! i)"
  by (simp add: js_get_def)

lemma js_get_out [simp]: "length xs \<le> i \<Longrightarrow> js_get xs i = None"
  by (simp add: js_get_def)

lemma js_get_Some_iff: "js_get xs i = Some v \<longleftrightarrow> i < length xs \<and> xs ! i = v"
  by (auto simp: js_get_def)

lemma digit_char_props [simp]:
  assumes "d < 10"
  shows "is_digit (digit_char d)" and "digit_val (digit_char d) = d"
  using assms by (simp_all add: digit_char_def is_digit_def digit_val_def)

lemma digits_val_snoc [simp]: "digits_val (ds @ [c]) = 10 * digits_val ds + digit_val c"
  by (simp add: digits_val_def)

lemma nat_str_digits: "c \<in> set (nat_str n) \<Longrightarrow> is_digit c"
proof (induction n rule: nat_str.induct)
  case (1 n)
  then show ?case
    by (subst (asm) nat_str.simps) (auto split: if_splits)
qed

lemma nat_str_nonempty [simp]: "nat_str n \<noteq> []"
  by (subst nat_str.simps) simp

lemma digits_val_nat_str [simp]: "digits_val (nat_str n) = n"
proof (induction n rule: nat_str.induct)
  case (1 n)
  show ?case
  proof (cases "n < 10")
    case True
    then show ?thesis by (subst nat_str.simps) (simp add: digits_val_def)
  next
    case False
    with "1.IH" show ?thesis by (subst nat_str.simps) simp
  qed
qed

lemma rgba_sel [simp, color_simps]:
  "red (rgba r g b a) = r" "green (rgba r g b a) = g"
  "blue (rgba r g b a) = b" "alpha (rgba r g b a) = a"
  by (simp_all add: rgba_def)

lemma clamp_bounds: "lo \<le> hi \<Longrightarrow> lo \<le> clamp lo hi x \<and> clamp lo hi x \<le> hi"
  by (auto simp: clamp_def)

lemma clamp_id [simp]: "lo \<le> x \<Longrightarrow> x \<le> hi \<Longrightarrow> clamp lo hi x = x"
  by (simp add: clamp_def)

lemma clamp_mono: "x \<le> y \<Longrightarrow> clamp lo hi x \<le> clamp lo hi y"
  by (auto simp: clamp_def)

lemma lerp_mono_weight: "a \<le> b \<Longrightarrow> w \<le> w' \<Longrightarrow> lerp a b w \<le> lerp a b w'"
  by (simp add: lerp_def mult_left_mono)

lemma lerp_between: "a \<le> b \<Longrightarrow> 0 \<le> w \<Longrightarrow> w \<le> 1 \<Longrightarrow> a \<le> lerp a b w \<and> lerp a b w \<le> b"
proof -
  assume ab: "a \<le> b" and w: "0 \<le> w" "w \<le> 1"
  have "(b - a) * w \<le> (b - a) * 1" using ab w by (intro mult_left_mono) auto
  moreover have "0 \<le> (b - a) * w" using ab w by simp
  ultimately show ?thesis by (simp add: lerp_def)
qed

lemma uint_to_byte: "uint (to_byte x) = max 0 (min 255 (round x))"
  unfolding to_byte_def uint_word_of_int by simp

lemma to_byte_mono: "x \<le> y \<Longrightarrow> to_byte x \<le> to_byte y"
proof -
  assume "x \<le> y"
  then have "round x \<le> round y" by (rule round_mono)
  then have "uint (to_byte x) \<le> uint (to_byte y)" by (simp add: uint_to_byte)
  then show ?thesis by (simp add: word_le_def)
qed

lemma floor_numeral_divide [simp]: "\<lfloor>numeral a / numeral b :: real\<rfloor> = numeral a div numeral b"
  by (metis floor_divide_of_int_eq of_int_numeral)

lemma byte_unsigned_bounds: "0 \<le> (unsigned (w::byte) :: real)" "(unsigned (w::byte) :: real) \<le> 255"
proof -
  show "0 \<le> (unsigned (w::byte) :: real)" by (metis of_nat_0_le_iff of_nat_unat)
  have "unat w \<le> 255" using unsigned_less [of w, where ?'a = nat] by simp
  then have "real (unat w) \<le> real (255::nat)" by (rule of_nat_mono)
  then show "(unsigned w :: real) \<le> 255" by (simp add: of_nat_unat)
qed

lemma clamp_byte [simp]: "clamp 0 255 (unsigned (w::byte) :: real) = unsigned w"
  using byte_unsigned_bounds [of w] by simp

lemma length_concat_map_fixed:
  "(\<And>x. length (f x) = k) \<Longrightarrow> length (concat (map f xs)) = k * length xs"
  by (induction xs) simp_all

lemma row_of_concat_map:
  assumes "\<And>x. length (f x) = k" and "j < n"
  shows "take k (drop (k * j) (concat (map f [0..<n]))) = f j"
  using assms(2)
proof (induction n)
  case 0
  then show ?case by simp
next
  case (Suc n)
  have len: "length (concat (map f [0..<n])) = k * n"
    using length_concat_map_fixed [of f k, OF assms(1)] by simp
  show ?case
  proof (cases "j < n")
    case True
    then have "k * j + k \<le> k * n"
      by (metis add.commute less_eq_Suc_le mult_Suc_right mult_le_mono2)
    with True Suc.IH len show ?thesis by (simp add: take_drop take_append)
  next
    case False
    with Suc.prems have "j = n" by simp
    with len assms(1) show ?thesis by simp
  qed
qed

lemma to_byte_unsigned [simp]: "to_byte (unsigned (w::byte)) = w"
proof -
  have "round (unsigned w :: real) = uint w"
    by (metis of_int_uint round_of_int)
  moreover have "0 \<le> uint w" "uint w \<le> 255" using uint_lt2p [of w] by simp_all
  ultimately show ?thesis by (simp add: to_byte_def)
qed

lemma to_byte_255 [simp]: "to_byte 255 = 255"
  by (simp add: to_byte_def)

end
