(* ===== verification/CssColor.thy ===== *)
theory CssColor
  imports Prelude
begin

text \<open>
  The CSS colour strings the script builds and hands to the canvas: the named colours
  of \<open>colorStops\<close>, the \<open>hsl(...)\<close> text of the mask table's \<open>getColor\<close>
  (script.js line 49) and the \<open>rgba(...)\<close> template of \<open>drawOnCtx\<close> (lines 156-158),
  together with the browser's parser of such strings (an external collaborator, modelled
  from the CSS Color specification for the syntax the script produces: keywords,
  comma-separated \<open>rgb()/rgba()/hsl()/hsla()\<close>, numbers \<open>[-]digits[.digits]\<close>).
  A string the parser rejects is \<open>None\<close>: the canvas then ignores a \<open>strokeStyle\<close>
  assignment and \<open>addColorStop\<close> throws a \<open>SyntaxError\<close>.
\<close>

subsection \<open>Printing: the strings the script builds\<close>

text \<open>\<open>`${x}`\<close> of a JavaScript value read from a typed array: the number's digits, or
  \<open>undefined\<close> for an out-of-range read.\<close>

definition js_byte_text :: "byte option \<Rightarrow> string" where
  "js_byte_text v = (case v of None \<Rightarrow> ''undefined'' | Some b \<Rightarrow> nat_str (unat b))"

text \<open>\<open>`${x}`\<close> of a number: integer part and, when there is one, the terminating decimal
  fraction (at most 20 digits are printed, enough for every value the script formats).\<close>

fun frac_digits :: "nat \<Rightarrow> real \<Rightarrow> string" where
  "frac_digits 0 x = []"
| "frac_digits (Suc n) x =
     (if x = 0 then [] else
      (let y = 10 * x; d = nat \<lfloor>y\<rfloor> in digit_char d # frac_digits n (y - of_int \<lfloor>y\<rfloor>)))"

definition js_num_text :: "real \<Rightarrow> string" where
  "js_num_text x =
     (let a = \<bar>x\<bar>; i = nat \<lfloor>a\<rfloor>; f = a - of_int \<lfloor>a\<rfloor>;
          s = nat_str i @ (if f = 0 then [] else CHR ''.'' # frac_digits 20 f)
      in if x < 0 then CHR ''-'' # s else s)"

text \<open>The template of lines 156-158: a newline and six spaces, \<open>rgba(r,g,b,1)\<close>, a
  newline and four spaces.\<close>

definition stroke_style_text :: "byte option \<Rightarrow> byte option \<Rightarrow> byte option \<Rightarrow> string" where
  "stroke_style_text r g b =
     CHR 0x0A # replicate 6 (CHR '' '') @ ''rgba('' @ js_byte_text r @ '','' @ js_byte_text g @
     '','' @ js_byte_text b @ '','' @ js_num_text 1 @ '')'' @ CHR 0x0A # replicate 4 (CHR '' '')"

subsection \<open>Parsing\<close>

definition css_ws :: "char \<Rightarrow> bool" where
  "css_ws c \<longleftrightarrow> c \<in> set [CHR '' '', CHR 0x09, CHR 0x0A, CHR 0x0C, CHR 0x0D]"

definition trim_ws :: "string \<Rightarrow> string" where
  "trim_ws s = rev (dropWhile css_ws (rev (dropWhile css_ws s)))"

definition ascii_lower :: "char \<Rightarrow> char" where
  "ascii_lower c =
     (let n = (of_char c :: nat) in if 65 \<le> n \<and> n \<le> 90 then char_of (n + 32) else c)"

fun split_on :: "char \<Rightarrow> string \<Rightarrow> string list" where
  "split_on d [] = [[]]"
| "split_on d (c # cs) =
     (let ws = split_on d cs in if c = d then [] # ws else (c # hd ws) # tl ws)"

text \<open>A CSS number: an optional minus sign, digits, and an optional fraction.\<close>

definition unsigned_number :: "string \<Rightarrow> (real \<times> string) option" where
  "unsigned_number s =
     (let ds = takeWhile is_digit s; r = dropWhile is_digit s in
      if ds = [] then None
      else (case r of
              c # r' \<Rightarrow>
                if c = CHR ''.'' then
                  (let fs = takeWhile is_digit r'; r'' = dropWhile is_digit r' in
                   if fs = [] then None
                   else Some (real (digits_val ds) + real (digits_val fs) / 10 ^ length fs, r''))
                else Some (real (digits_val ds), r)
            | [] \<Rightarrow> Some (real (digits_val ds), [])))"

definition css_number :: "string \<Rightarrow> (real \<times> string) option" where
  "css_number s =
     (case s of
        c # r \<Rightarrow> if c = CHR ''-'' then map_option (\<lambda>(v, t). (- v, t)) (unsigned_number r)
                 else unsigned_number s
      | [] \<Rightarrow> None)"

datatype css_arg = Num real | Pct real | Deg real

definition css_arg :: "string \<Rightarrow> css_arg option" where
  "css_arg s =
     (case css_number (trim_ws s) of
        None \<Rightarrow> None
      | Some (v, u) \<Rightarrow>
          if u = [] then Some (Num v)
          else if u = ''%'' then Some (Pct v)
          else if u = ''deg'' then Some (Deg v)
          else None)"

definition rgb_channel :: "css_arg \<Rightarrow> real option" where
  "rgb_channel a = (case a of Num v \<Rightarrow> Some (clamp 0 255 v)
                            | Pct p \<Rightarrow> Some (clamp 0 255 (p * 255 / 100)) | Deg _ \<Rightarrow> None)"

definition alpha_value :: "css_arg \<Rightarrow> real option" where
  "alpha_value a = (case a of Num v \<Rightarrow> Some (clamp 0 1 v)
                            | Pct p \<Rightarrow> Some (clamp 0 1 (p / 100)) | Deg _ \<Rightarrow> None)"

definition hue_value :: "css_arg \<Rightarrow> real option" where
  "hue_value a = (case a of Num v \<Rightarrow> Some v | Deg v \<Rightarrow> Some v | Pct _ \<Rightarrow> None)"

definition pct_value :: "css_arg \<Rightarrow> real option" where
  "pct_value a = (case a of Pct p \<Rightarrow> Some (clamp 0 100 p / 100) | _ \<Rightarrow> None)"

definition rmod :: "real \<Rightarrow> real \<Rightarrow> real" where
  "rmod x m = x - m * of_int \<lfloor>x / m\<rfloor>"

text \<open>HSL to RGB, as the CSS Color specification's reference code computes it.\<close>

definition hsl_channel :: "real \<Rightarrow> real \<Rightarrow> real \<Rightarrow> real \<Rightarrow> real" where
  "hsl_channel h s l n =
     (let k = rmod (n + rmod h 360 / 30) 12; a = s * min l (1 - l)
      in 255 * (l - a * max (-1) (min (min (k - 3) (9 - k)) 1)))"

definition hsl_color :: "real \<Rightarrow> real \<Rightarrow> real \<Rightarrow> real \<Rightarrow> color" where
  "hsl_color h s l a = rgba (hsl_channel h s l 0) (hsl_channel h s l 8) (hsl_channel h s l 4) a"

definition args_of :: "(css_arg \<Rightarrow> real option) list \<Rightarrow> string list \<Rightarrow> real list option" where
  "args_of fs xs =
     (if length fs \<noteq> length xs then None
      else those (map2 (\<lambda>f x. Option.bind (css_arg x) f) fs xs))"

definition rgb_args :: "string list \<Rightarrow> color option" where
  "rgb_args xs =
     (case args_of [rgb_channel, rgb_channel, rgb_channel, alpha_value]
             (if length xs = 3 then xs @ [''1''] else xs) of
        Some [r, g, b, a] \<Rightarrow> Some (rgba r g b a)
      | _ \<Rightarrow> None)"

definition hsl_args :: "string list \<Rightarrow> color option" where
  "hsl_args xs =
     (case args_of [hue_value, pct_value, pct_value, alpha_value]
             (if length xs = 3 then xs @ [''1''] else xs) of
        Some [h, s, l, a] \<Rightarrow> Some (hsl_color h s l a)
      | _ \<Rightarrow> None)"

definition named_colors :: "(string \<times> color) list" where
  "named_colors =
     [(''red'', rgba 255 0 0 1), (''orange'', rgba 255 165 0 1),
      (''white'', rgba 255 255 255 1), (''black'', rgba 0 0 0 1),
      (''transparent'', rgba 0 0 0 0)]"

text \<open>\<open>name(args)\<close>: the function name and its comma-separated arguments.\<close>

definition css_call :: "string \<Rightarrow> (string \<times> string list) option" where
  "css_call t =
     (let f = takeWhile (\<lambda>c. c \<noteq> CHR ''('') t; rest = dropWhile (\<lambda>c. c \<noteq> CHR ''('') t in
      if rest = [] \<or> last rest \<noteq> CHR '')'' \<or> length rest < 2 then None
      else Some (f, split_on (CHR '','') (butlast (tl rest))))"

definition parse_css_color :: "string \<Rightarrow> color option" where
  "parse_css_color s =
     (let t = map ascii_lower (trim_ws s) in
      case map_of named_colors t of
        Some c \<Rightarrow> Some c
      | None \<Rightarrow>
          (case css_call t of
             None \<Rightarrow> None
           | Some (f, args) \<Rightarrow>
               if f = ''rgb'' \<or> f = ''rgba'' then rgb_args args
               else if f = ''hsl'' \<or> f = ''hsla'' then hsl_args args
               else None))"

subsection \<open>Lemmas: the script's strings parse to the colours they spell\<close>

lemma digit_plain:
  assumes "is_digit c"
  shows "\<not> css_ws c" "ascii_lower c = c" "c \<noteq> CHR '',''" "c \<noteq> CHR ''(''" "c \<noteq> CHR '')''"
    "c \<noteq> CHR ''.''" "c \<noteq> CHR ''-''"
  using assms by (auto simp: is_digit_def css_ws_def ascii_lower_def Let_def)

lemma trim_ws_frame:
  assumes "\<forall>c \<in> set ws1. css_ws c" "\<forall>c \<in> set ws2. css_ws c" "core \<noteq> []"
    "\<not> css_ws (hd core)" "\<not> css_ws (last core)"
  shows "trim_ws (ws1 @ core @ ws2) = core"
proof -
  have "dropWhile css_ws (ws1 @ core @ ws2) = core @ ws2"
    using assms by (simp add: dropWhile_append2 dropWhile_eq_self_iff)
  moreover have "dropWhile css_ws (rev ws2 @ rev core) = rev core"
    using assms by (subst dropWhile_append2) (auto simp: dropWhile_eq_self_iff hd_rev)
  ultimately show ?thesis by (simp add: trim_ws_def)
qed

lemma split_on_no_sep: "d \<notin> set xs \<Longrightarrow> split_on d xs = [xs]"
  by (induction xs) (auto simp: Let_def)

lemma split_on_sep: "d \<notin> set xs \<Longrightarrow> split_on d (xs @ d # ys) = xs # split_on d ys"
  by (induction xs) (auto simp: Let_def)

lemma takeWhile_digits:
  "(\<forall>c \<in> set ds. is_digit c) \<Longrightarrow> takeWhile is_digit (ds @ r) = ds @ takeWhile is_digit r"
  "(\<forall>c \<in> set ds. is_digit c) \<Longrightarrow> dropWhile is_digit (ds @ r) = dropWhile is_digit r"
  by (simp_all add: takeWhile_append2 dropWhile_append2)

lemma css_arg_nat_str [simp]: "css_arg (nat_str n) = Some (Num (real n))"
proof -
  have d: "\<forall>c \<in> set (nat_str n). is_digit c" by (auto intro: nat_str_digits)
  have tw: "trim_ws (nat_str n) = nat_str n"
    using trim_ws_frame [of "[]" "[]" "nat_str n"] d digit_plain(1)
    by (simp add: hd_in_set last_in_set)
  have tw1: "takeWhile is_digit (nat_str n) = nat_str n"
    and tw2: "dropWhile is_digit (nat_str n) = []"
    using d by (simp_all add: takeWhile_eq_all_conv)
  have "unsigned_number (nat_str n) = Some (real n, [])"
    unfolding unsigned_number_def Let_def tw1 tw2 by simp
  moreover have "css_number (nat_str n) = unsigned_number (nat_str n)"
    using d by (cases "nat_str n") (auto simp: css_number_def dest: digit_plain(7))
  ultimately have "css_number (nat_str n) = Some (real n, [])" by simp
  then show ?thesis by (simp add: css_arg_def tw)
qed


lemma map_ascii_lower_digits: "\<forall>c \<in> set s. is_digit c \<Longrightarrow> map ascii_lower s = s"
  by (induction s) (auto simp: digit_plain(2))

lemma js_num_text_one [simp]: "js_num_text 1 = ''1''"
  by code_simp

lemma rgba_call_text:
  assumes "\<forall>c \<in> set R. is_digit c" "\<forall>c \<in> set G. is_digit c" "\<forall>c \<in> set B. is_digit c"
  shows "css_call (''rgba('' @ R @ '','' @ G @ '','' @ B @ '','' @ ''1'' @ '')'') =
           Some (''rgba'', [R, G, B, ''1''])"
proof -
  have nc: "CHR ''('' \<notin> set X" "CHR '','' \<notin> set X" if "\<forall>c \<in> set X. is_digit c" for X
    using that digit_plain(3,4) by blast+
  have tw: "takeWhile (\<lambda>c. c \<noteq> CHR ''('') (''rgba('' @ X) = ''rgba''" for X
    by simp
  have dw: "dropWhile (\<lambda>c. c \<noteq> CHR ''('') (''rgba('' @ X) = CHR ''('' # X" for X
    by simp
  show ?thesis
    using nc [OF assms(1)] nc [OF assms(2)] nc [OF assms(3)]
    by (simp add: css_call_def Let_def butlast_append split_on_sep split_on_no_sep)
qed

lemma parse_stroke_style_text:
  "parse_css_color (stroke_style_text (Some r) (Some g) (Some b)) =
     Some (rgba (real (unat r)) (real (unat g)) (real (unat b)) 1)"
proof -
  let ?R = "nat_str (unat r)" and ?G = "nat_str (unat g)" and ?B = "nat_str (unat b)"
  let ?core = "''rgba('' @ ?R @ '','' @ ?G @ '','' @ ?B @ '','' @ ''1'' @ '')''"
  have d: "\<forall>c \<in> set (nat_str n). is_digit c" for n by (auto intro: nat_str_digits)
  have st: "stroke_style_text (Some r) (Some g) (Some b) =
      (CHR 0x0A # replicate 6 (CHR '' '')) @ ?core @ (CHR 0x0A # replicate 4 (CHR '' ''))"
    by (simp add: stroke_style_text_def js_byte_text_def)
  have trim: "trim_ws (stroke_style_text (Some r) (Some g) (Some b)) = ?core"
    unfolding st by (rule trim_ws_frame) (auto simp: css_ws_def)
  have low: "map ascii_lower ?core = ?core"
    using map_ascii_lower_digits [OF d] by (simp add: ascii_lower_def)
  have named: "map_of named_colors ?core = None"
    by (simp add: named_colors_def)
  have one: "css_arg ''1'' = Some (Num 1)"
    by code_simp
  have args: "rgb_args [?R, ?G, ?B, ''1''] = Some (rgba (real (unat r)) (real (unat g)) (real (unat b)) 1)"
    by (simp add: rgb_args_def args_of_def one rgb_channel_def alpha_value_def)
  have call: "css_call ?core = Some (''rgba'', [?R, ?G, ?B, ''1''])"
    by (rule rgba_call_text) (simp_all add: d)
  show ?thesis
    unfolding parse_css_color_def Let_def trim low named call
    by (simp add: args)
qed

lemma css_call_rgba:
  "CHR ''('' \<notin> set X \<Longrightarrow> css_call (''rgba('' @ X @ '')'') = Some (''rgba'', split_on (CHR '','') X)"
  by (simp add: css_call_def Let_def butlast_append)

lemma js_byte_text_plain:
  "map ascii_lower (js_byte_text v) = js_byte_text v"
  "CHR ''('' \<notin> set (js_byte_text v)" "CHR '','' \<notin> set (js_byte_text v)"
proof -
  have d: "\<forall>c \<in> set (nat_str n). is_digit c" for n by (auto intro: nat_str_digits)
  show "map ascii_lower (js_byte_text v) = js_byte_text v"
    using map_ascii_lower_digits [OF d] by (cases v) (simp_all add: js_byte_text_def ascii_lower_def)
  show "CHR ''('' \<notin> set (js_byte_text v)" "CHR '','' \<notin> set (js_byte_text v)"
    using d digit_plain(3,4) by (cases v; fastforce simp: js_byte_text_def)+
qed

lemma rgb_args_undefined: "rgb_args (''undefined'' # xs) = None"
proof -
  have u: "css_arg ''undefined'' = None" by code_simp
  show ?thesis
    by (cases xs rule: remdups_adj.cases)
      (auto simp: rgb_args_def args_of_def u split: option.splits list.splits)
qed

lemma parse_stroke_style_undefined:
  "parse_css_color (stroke_style_text None g b) = None"
proof -
  let ?X = "''undefined,'' @ js_byte_text g @ '','' @ js_byte_text b @ '',1''"
  let ?core = "''rgba('' @ ?X @ '')''"
  have st: "stroke_style_text None g b =
      (CHR 0x0A # replicate 6 (CHR '' '')) @ ?core @ (CHR 0x0A # replicate 4 (CHR '' ''))"
    by (simp add: stroke_style_text_def js_byte_text_def)
  have trim: "trim_ws (stroke_style_text None g b) = ?core"
    unfolding st by (rule trim_ws_frame) (auto simp: css_ws_def)
  have low: "map ascii_lower ?core = ?core"
    by (simp add: js_byte_text_plain(1)) (simp add: ascii_lower_def)
  have named: "map_of named_colors ?core = None"
    by (simp add: named_colors_def)
  have call: "css_call ?core = Some (''rgba'', ''undefined'' # split_on (CHR '','') (js_byte_text g @ '','' @ js_byte_text b @ '',1''))"
  proof -
    have pc: "CHR ''('' \<notin> set ?X"
      using js_byte_text_plain(2) [of g] js_byte_text_plain(2) [of b] by simp
    show ?thesis unfolding css_call_rgba [OF pc] by (simp add: Let_def)
  qed
  show ?thesis
    unfolding parse_css_color_def Let_def trim low named call
    by (simp add: rgb_args_undefined)
qed

lemma frac_digits_digits: "0 \<le> x \<Longrightarrow> x < 1 \<Longrightarrow> c \<in> set (frac_digits n x) \<Longrightarrow> is_digit c"
proof (induction n arbitrary: x)
  case 0
  then show ?case by simp
next
  case (Suc n)
  let ?y = "10 * x"
  have "\<lfloor>?y\<rfloor> < 10" using Suc.prems(2) by (simp add: floor_less_iff)
  then have d: "nat \<lfloor>?y\<rfloor> < 10" by linarith
  have r: "0 \<le> ?y - of_int \<lfloor>?y\<rfloor>" "?y - of_int \<lfloor>?y\<rfloor> < 1" by linarith+
  show ?case
    using Suc.prems(3) d Suc.IH [OF r] by (auto simp: Let_def split: if_splits)
qed

lemma js_num_text_chars:
  "c \<in> set (js_num_text x) \<Longrightarrow> is_digit c \<or> c = CHR ''.'' \<or> c = CHR ''-''"
proof -
  let ?a = "\<bar>x\<bar>"
  have f: "0 \<le> ?a - of_int \<lfloor>?a\<rfloor>" "?a - of_int \<lfloor>?a\<rfloor> < 1" by linarith+
  assume "c \<in> set (js_num_text x)"
  then show ?thesis
    using frac_digits_digits [OF f] nat_str_digits
    by (auto simp: js_num_text_def Let_def split: if_splits)
qed

lemma hsl_args_grey:
  assumes "hsl_args [a1, '' 0%'', a3] = Some col"
  shows "grey col \<and> alpha col = 1"
proof -
  have s: "css_arg '' 0%'' = Some (Pct 0)" and one: "css_arg ''1'' = Some (Num 1)" by code_simp+
  from assms obtain h l where "col = hsl_color h 0 l 1"
    by (auto simp: hsl_args_def args_of_def s one pct_value_def alpha_value_def
        split: option.splits list.splits)
  then show ?thesis by (simp add: hsl_color_def hsl_channel_def grey_def)
qed

lemma css_call_form:
  assumes "CHR ''('' \<notin> set f"
  shows "css_call (f @ CHR ''('' # X @ '')'') = Some (f, split_on (CHR '','') X)"
proof -
  have nf: "\<And>x. x \<in> set f \<Longrightarrow> x \<noteq> CHR ''(''" using assms by auto
  have "takeWhile (\<lambda>c. c \<noteq> CHR ''('') (f @ CHR ''('' # X @ '')'') = f"
    by (simp add: takeWhile_append2 [OF nf])
  moreover have "dropWhile (\<lambda>c. c \<noteq> CHR ''('') (f @ CHR ''('' # X @ '')'') = CHR ''('' # X @ '')''"
    by (simp add: dropWhile_append2 [OF nf])
  ultimately show ?thesis by (simp add: css_call_def Let_def butlast_append)
qed

lemma parse_hsl_grey:
  assumes X: "\<forall>c \<in> set X. is_digit c \<or> c = CHR ''.'' \<or> c = CHR ''-''"
    and p: "parse_css_color (''hsl(0deg, 0%, '' @ X @ ''%)'') = Some col"
  shows "grey col \<and> alpha col = 1"
proof -
  let ?core = "''hsl(0deg, 0%, '' @ X @ ''%)''"
  have trim: "trim_ws ?core = ?core"
    using trim_ws_frame [of "[]" "[]" ?core] by (simp add: css_ws_def)
  have "map ascii_lower X = X"
    using X by (induction X) (auto simp: digit_plain(2), simp_all add: ascii_lower_def)
  then have low: "map ascii_lower ?core = ?core" by (simp add: ascii_lower_def)
  have named: "map_of named_colors ?core = None" by (simp add: named_colors_def)
  have nX: "CHR ''('' \<notin> set X" "CHR '','' \<notin> set X"
    using X digit_plain(3,4) by fastforce+
  have call: "css_call ?core = Some (''hsl'', [''0deg'', '' 0%'', '' '' @ X @ ''%''])"
  proof -
    have "CHR ''('' \<notin> set (''0deg, 0%, '' @ X @ ''%'')" using nX by simp
    then have "css_call (''hsl'' @ CHR ''('' # (''0deg, 0%, '' @ X @ ''%'') @ '')'') =
        Some (''hsl'', split_on (CHR '','') (''0deg, 0%, '' @ X @ ''%''))"
      by (intro css_call_form) simp
    moreover have "split_on (CHR '','') ('' '' @ X @ ''%'') = ['' '' @ X @ ''%'']"
      using nX by (intro split_on_no_sep) simp
    ultimately show ?thesis by (simp add: Let_def)
  qed
  from p have "hsl_args [''0deg'', '' 0%'', '' '' @ X @ ''%''] = Some col"
    unfolding parse_css_color_def Let_def trim low named call by simp
  then show ?thesis by (rule hsl_args_grey)
qed

end
