(* ===== verification/Canvas2D.thy ===== *)
theory Canvas2D
  imports CssColor
begin

text \<open>
  The 2D canvas the script draws on: \<open>makeCtx\<close> (script.js lines 9-23) and the parts
  of the browser's \<open>CanvasRenderingContext2D\<close> it calls (an external collaborator,
  modelled from the HTML canvas specification for exactly those calls). The context is a
  record of its drawing state (line width, styles, joins, caps, the current path, the
  transform's scale) and of its bitmap, kept as the display list of the drawing commands
  issued since the canvas was created. Pixels are computed from the display list:
  clearing and filling rectangles are pixel-exact (integer rectangles, pixel centres),
  gradients are evaluated exactly, and the coverage of a stroked path is the rasteriser's
  (a parameter \<open>cover\<close> of every pixel-level definition), since the script never reads
  stroked pixels back on the CPU.
\<close>

subsection \<open>Data\<close>

type_synonym point = "real \<times> real"

datatype line_join = JoinRound | JoinBevel | JoinMiter

datatype line_cap = CapButt | CapRound | CapSquare

text \<open>A cubic B\'ezier segment: two control points and its end point.\<close>

datatype segment = Bezier point point point

record subpath =
  sp_start :: point
  sp_segs :: "segment list"

type_synonym path = "subpath list"

text \<open>\<open>createRadialGradient(x0, y0, r0, x1, y1, r1)\<close> and its colour stops, in the
  order \<open>addColorStop\<close> added them.\<close>

record gradient =
  g_x0 :: real
  g_y0 :: real
  g_r0 :: real
  g_x1 :: real
  g_y1 :: real
  g_r1 :: real
  g_stops :: "(real \<times> color) list"

datatype paint = Solid color | Grad gradient

text \<open>Drawing commands, in device coordinates: rectangles as \<open>(x, y, w, h)\<close>; a fill
  keeps the transform's scale, so that a gradient is evaluated in the user space it was
  defined in.\<close>

datatype draw_cmd =
    ClearRect "real \<times> real \<times> real \<times> real"
  | FillRect "real \<times> real \<times> real \<times> real" paint real
  | Stroke path real paint real line_join line_cap

record ctx =
  canvas_width :: nat
  canvas_height :: nat
  ctm_scale :: real
  lineWidth :: real
  strokeStyle :: paint
  fillStyle :: paint
  lineJoin :: line_join
  lineCap :: line_cap
  cur_path :: path
  display :: "draw_cmd list"

subsection \<open>\<open>makeCtx\<close> (script.js lines 9-23)\<close>

text \<open>A fresh context has the defaults of the HTML specification: line width 1, black
  stroke and fill, miter joins, butt caps, no path, a transparent bitmap.\<close>

definition black :: color where
  "black = rgba 0 0 0 1"

definition fresh_ctx :: "nat \<Rightarrow> nat \<Rightarrow> ctx" where
  "fresh_ctx w h =
     \<lparr>canvas_width = w, canvas_height = h, ctm_scale = 1, lineWidth = 1,
      strokeStyle = Solid black, fillStyle = Solid black, lineJoin = JoinMiter,
      lineCap = CapButt, cur_path = [], display = []\<rparr>"

text \<open>\<open>canvas.getContext("2d")\<close> is \<open>null\<close> when the browser cannot provide a 2D
  context: the flag \<open>avail\<close>. \<open>ctx.scale(pixelRatio, pixelRatio)\<close> on the identity
  transform makes the scale \<open>pixelRatio\<close>.\<close>

definition makeCtx :: "bool \<Rightarrow> nat \<Rightarrow> nat \<Rightarrow> nat \<Rightarrow> js_error + ctx" where
  "makeCtx avail w h pixelRatio =
     (if \<not> avail then Inl SurfaceUnavailable
      else Inr ((fresh_ctx (w * pixelRatio) (h * pixelRatio))
                  \<lparr>ctm_scale := ctm_scale (fresh_ctx (w * pixelRatio) (h * pixelRatio)) * real pixelRatio\<rparr>))"

subsection \<open>State-changing calls\<close>

definition to_device :: "ctx \<Rightarrow> point \<Rightarrow> point" where
  "to_device c p = (ctm_scale c * fst p, ctm_scale c * snd p)"

definition clearRect :: "real \<Rightarrow> real \<Rightarrow> real \<Rightarrow> real \<Rightarrow> ctx \<Rightarrow> ctx" where
  "clearRect x y w h c =
     (let s = ctm_scale c in c\<lparr>display := display c @ [ClearRect (s * x, s * y, s * w, s * h)]\<rparr>)"

definition fillRect :: "real \<Rightarrow> real \<Rightarrow> real \<Rightarrow> real \<Rightarrow> ctx \<Rightarrow> ctx" where
  "fillRect x y w h c =
     (let s = ctm_scale c in
      c\<lparr>display := display c @ [FillRect (s * x, s * y, s * w, s * h) (fillStyle c) s]\<rparr>)"

definition beginPath :: "ctx \<Rightarrow> ctx" where
  "beginPath c = c\<lparr>cur_path := []\<rparr>"

definition moveTo :: "real \<Rightarrow> real \<Rightarrow> ctx \<Rightarrow> ctx" where
  "moveTo x y c = c\<lparr>cur_path := cur_path c @ [\<lparr>sp_start = to_device c (x, y), sp_segs = []\<rparr>]\<rparr>"

text \<open>\<open>bezierCurveTo\<close> on an empty path first starts a subpath at its first control
  point, as the specification's "ensure there is a subpath" step does.\<close>

definition bezierCurveTo ::
  "real \<Rightarrow> real \<Rightarrow> real \<Rightarrow> real \<Rightarrow> real \<Rightarrow> real \<Rightarrow> ctx \<Rightarrow> ctx" where
  "bezierCurveTo cp1x cp1y cp2x cp2y x y c =
     (let c' = (if cur_path c = [] then moveTo cp1x cp1y c else c);
          seg = Bezier (to_device c (cp1x, cp1y)) (to_device c (cp2x, cp2y)) (to_device c (x, y));
          sp = last (cur_path c')
      in c'\<lparr>cur_path := butlast (cur_path c') @ [sp\<lparr>sp_segs := sp_segs sp @ [seg]\<rparr>]\<rparr>)"

text \<open>\<open>lineWidth\<close>: zero, negative (and non-finite) values are ignored.\<close>

definition set_lineWidth :: "real \<Rightarrow> ctx \<Rightarrow> ctx" where
  "set_lineWidth v c = (if 0 < v then c\<lparr>lineWidth := v\<rparr> else c)"

text \<open>\<open>strokeStyle = s\<close>: a string that does not parse as a colour is ignored.\<close>

definition set_strokeStyle :: "string \<Rightarrow> ctx \<Rightarrow> ctx" where
  "set_strokeStyle s c =
     (case parse_css_color s of None \<Rightarrow> c | Some col \<Rightarrow> c\<lparr>strokeStyle := Solid col\<rparr>)"

definition set_fillStyle_gradient :: "gradient \<Rightarrow> ctx \<Rightarrow> ctx" where
  "set_fillStyle_gradient g c = c\<lparr>fillStyle := Grad g\<rparr>"

definition set_lineJoin :: "string \<Rightarrow> ctx \<Rightarrow> ctx" where
  "set_lineJoin s c =
     (if s = ''round'' then c\<lparr>lineJoin := JoinRound\<rparr>
      else if s = ''bevel'' then c\<lparr>lineJoin := JoinBevel\<rparr>
      else if s = ''miter'' then c\<lparr>lineJoin := JoinMiter\<rparr> else c)"

definition set_lineCap :: "string \<Rightarrow> ctx \<Rightarrow> ctx" where
  "set_lineCap s c =
     (if s = ''round'' then c\<lparr>lineCap := CapRound\<rparr>
      else if s = ''square'' then c\<lparr>lineCap := CapSquare\<rparr>
      else if s = ''butt'' then c\<lparr>lineCap := CapButt\<rparr> else c)"

definition stroke :: "ctx \<Rightarrow> ctx" where
  "stroke c =
     c\<lparr>display := display c @
        [Stroke (cur_path c) (lineWidth c * ctm_scale c) (strokeStyle c) (ctm_scale c)
           (lineJoin c) (lineCap c)]\<rparr>"

subsection \<open>Gradients\<close>

definition createRadialGradient ::
  "real \<Rightarrow> real \<Rightarrow> real \<Rightarrow> real \<Rightarrow> real \<Rightarrow> real \<Rightarrow> js_error + gradient" where
  "createRadialGradient x0 y0 r0 x1 y1 r1 =
     (if r0 < 0 \<or> r1 < 0 then Inl IndexSizeError
      else Inr \<lparr>g_x0 = x0, g_y0 = y0, g_r0 = r0, g_x1 = x1, g_y1 = y1, g_r1 = r1, g_stops = []\<rparr>)"

definition addColorStop :: "real \<Rightarrow> string \<Rightarrow> gradient \<Rightarrow> js_error + gradient" where
  "addColorStop off s g =
     (if off < 0 \<or> 1 < off then Inl IndexSizeError
      else (case parse_css_color s of
              None \<Rightarrow> Inl SyntaxError
            | Some col \<Rightarrow> Inr (g\<lparr>g_stops := g_stops g @ [(off, col)]\<rparr>)))"

text \<open>The offset \<open>\<omega>\<close> of a point: the largest \<open>\<omega>\<close> whose circle
  (centre \<open>c0 + \<omega>(c1 - c0)\<close>, radius \<open>r0 + \<omega>(r1 - r0)\<close>) is positive and passes through
  the point; none when there is no such circle (the point is then not painted). The
  circles' equation is quadratic in \<open>\<omega>\<close> with leading coefficient
  \<open>|c1 - c0|\<^sup>2 - (r1 - r0)\<^sup>2\<close>; the model covers the gradients whose leading
  coefficient is zero (the start circle touches the end circle from inside, as in the
  script's \<open>createRadialGradient(0, 0, 0, 0, height, height)\<close>), where the equation is
  linear and the offset is rational in the point. Gradients with two distinct roots are
  never created by the script and are left out (no offset).\<close>

definition radial_offset :: "gradient \<Rightarrow> point \<Rightarrow> real option" where
  "radial_offset g p =
     (let dx = g_x1 g - g_x0 g; dy = g_y1 g - g_y0 g; dr = g_r1 g - g_r0 g;
          qx = fst p - g_x0 g; qy = snd p - g_y0 g;
          a = dx * dx + dy * dy - dr * dr;
          b = -2 * (qx * dx + qy * dy + g_r0 g * dr);
          cc = qx * qx + qy * qy - g_r0 g * g_r0 g;
          w = - cc / b
      in if dx = 0 \<and> dy = 0 \<and> dr = 0 then None
         else if a = 0 \<and> b \<noteq> 0 \<and> 0 < g_r0 g + w * dr then Some w
         else None)"

definition lerp_color :: "color \<Rightarrow> color \<Rightarrow> real \<Rightarrow> color" where
  "lerp_color c d w =
     rgba (lerp (red c) (red d) w) (lerp (green c) (green d) w) (lerp (blue c) (blue d) w)
          (lerp (alpha c) (alpha d) w)"

text \<open>The colour at an offset: the stops sorted by offset (stably, so that stops at
  one offset keep the order they were added in), the first stop's colour before it, the
  last stop's after it, straight (not premultiplied) interpolation between.\<close>

fun color_at :: "(real \<times> color) list \<Rightarrow> real \<Rightarrow> color" where
  "color_at [] t = transparent_black"
| "color_at [(p, c)] t = c"
| "color_at ((p, c) # (q, d) # rest) t =
     (if t \<le> p then c
      else if t < q then lerp_color c d ((t - p) / (q - p))
      else color_at ((q, d) # rest) t)"

definition gradient_color :: "gradient \<Rightarrow> point \<Rightarrow> color" where
  "gradient_color g p =
     (case radial_offset g p of
        None \<Rightarrow> transparent_black
      | Some w \<Rightarrow> color_at (sort_key fst (g_stops g)) w)"

subsection \<open>Pixels\<close>

text \<open>Source-over compositing of straight-alpha colours.\<close>

definition source_over :: "color \<Rightarrow> color \<Rightarrow> color" where
  "source_over s d =
     (let ao = alpha s + alpha d * (1 - alpha s);
          ch = (\<lambda>cs cd. (cs * alpha s + cd * alpha d * (1 - alpha s)) / ao)
      in if ao = 0 then transparent_black
         else rgba (ch (red s) (red d)) (ch (green s) (green d)) (ch (blue s) (blue d)) ao)"

definition in_rect :: "real \<times> real \<times> real \<times> real \<Rightarrow> point \<Rightarrow> bool" where
  "in_rect r p =
     (case r of (x, y, w, h) \<Rightarrow>
        min x (x + w) \<le> fst p \<and> fst p < max x (x + w) \<and>
        min y (y + h) \<le> snd p \<and> snd p < max y (y + h))"

definition paint_color :: "paint \<Rightarrow> real \<Rightarrow> point \<Rightarrow> color" where
  "paint_color pt s p =
     (case pt of Solid col \<Rightarrow> col | Grad g \<Rightarrow> gradient_color g (fst p / s, snd p / s))"

text \<open>\<open>cover path width join cap p\<close>: whether the rasteriser paints the device point
  \<open>p\<close> when it strokes the path.\<close>

type_synonym coverage = "path \<Rightarrow> real \<Rightarrow> line_join \<Rightarrow> line_cap \<Rightarrow> point \<Rightarrow> bool"

fun apply_cmd :: "coverage \<Rightarrow> point \<Rightarrow> color \<Rightarrow> draw_cmd \<Rightarrow> color" where
  "apply_cmd cover p dst (ClearRect r) = (if in_rect r p then transparent_black else dst)"
| "apply_cmd cover p dst (FillRect r pt s) =
     (if in_rect r p then source_over (paint_color pt s p) dst else dst)"
| "apply_cmd cover p dst (Stroke pa w pt s j cp) =
     (if cover pa w j cp p then source_over (paint_color pt s p) dst else dst)"

definition raster :: "coverage \<Rightarrow> draw_cmd list \<Rightarrow> point \<Rightarrow> color" where
  "raster cover cmds p = foldl (apply_cmd cover p) transparent_black cmds"

definition pixel_of :: "coverage \<Rightarrow> ctx \<Rightarrow> nat \<Rightarrow> nat \<Rightarrow> color" where
  "pixel_of cover c i j =
     (if i < canvas_width c \<and> j < canvas_height c
      then raster cover (display c) (real i + 1/2, real j + 1/2) else transparent_black)"

definition pixel_bytes :: "color \<Rightarrow> byte list" where
  "pixel_bytes col = [to_byte (red col), to_byte (green col), to_byte (blue col), to_byte (255 * alpha col)]"

text \<open>\<open>getImageData(sx, sy, sw, sh)\<close>: the RGBA bytes of the rectangle, row by row;
  an empty rectangle raises \<open>IndexSizeError\<close>.\<close>

definition getImageData :: "coverage \<Rightarrow> nat \<Rightarrow> nat \<Rightarrow> nat \<Rightarrow> nat \<Rightarrow> ctx \<Rightarrow> js_error + byte list" where
  "getImageData cover sx sy sw sh c =
     (if sw = 0 \<or> sh = 0 then Inl IndexSizeError
      else Inr (concat (map (\<lambda>j. concat (map (\<lambda>i. pixel_bytes (pixel_of cover c (sx + i) (sy + j)))
                                              [0..<sw])) [0..<sh])))"

subsection \<open>Lemmas\<close>

lemma pixel_bytes_length [simp]: "length (pixel_bytes c) = 4"
  by (simp add: pixel_bytes_def)

end
