(* ===== verification/Gradient.thy ===== *)
theory Gradient
  imports Canvas2D
begin

text \<open>
  GradientTableBuilder: \<open>getGradientData\<close> (script.js lines 25-37) draws a radial
  gradient into a one-pixel-wide canvas of the given height and reads the column back as
  RGBA bytes; \<open>colorStops\<close> (lines 39-43) and the two tables built from it,
  \<open>gradData\<close> and \<open>gradMaskData\<close> (lines 45-50), the second recolouring every stop
  as the grey \<open>hsl(0deg, 0%, opacity*100%)\<close>.
\<close>

subsection \<open>Definitions\<close>

text \<open>A stop object \<open>{position, color, opacity}\<close>; the field \<open>color\<close> is
  \<open>stop_color\<close> here.\<close>

record color_stop =
  position :: real
  stop_color :: string
  opacity :: real

text \<open>\<open>colorStops.forEach(stop => gradient.addColorStop(stop.position, getColor(stop)))\<close>:
  an exception of \<open>addColorStop\<close> ends the loop.\<close>

fun add_stops :: "(color_stop \<Rightarrow> string) \<Rightarrow> color_stop list \<Rightarrow> gradient \<Rightarrow> js_error + gradient" where
  "add_stops getColor [] g = Inr g"
| "add_stops getColor (s # ss) g =
     js_bind (addColorStop (position s) (getColor s) g) (add_stops getColor ss)"

definition getGradientData ::
  "bool \<Rightarrow> coverage \<Rightarrow> nat \<Rightarrow> color_stop list \<Rightarrow> (color_stop \<Rightarrow> string) \<Rightarrow> js_error + byte list" where
  "getGradientData avail cover height colorStops getColor =
     js_bind (makeCtx avail 1 height 1) (\<lambda>ctx.
     js_bind (createRadialGradient 0 0 0 0 (real height) (real height)) (\<lambda>gradient.
     js_bind (add_stops getColor colorStops gradient) (\<lambda>gradient'.
       getImageData cover 0 0 1 height
         (fillRect 0 0 (real (canvas_width ctx)) (real (canvas_height ctx))
            (set_fillStyle_gradient gradient' ctx)))))"

definition colorStops :: "color_stop list" where
  "colorStops =
     [\<lparr>position = 0, stop_color = ''red'', opacity = 0\<rparr>,
      \<lparr>position = 1/4, stop_color = ''orange'', opacity = 1/2\<rparr>,
      \<lparr>position = 1/2, stop_color = ''white'', opacity = 1\<rparr>]"

definition color_getColor :: "color_stop \<Rightarrow> string" where
  "color_getColor stop = stop_color stop"

definition mask_getColor :: "color_stop \<Rightarrow> string" where
  "mask_getColor stop = ''hsl(0deg, 0%, '' @ js_num_text (opacity stop * 100) @ ''%)''"

definition gradData :: "bool \<Rightarrow> coverage \<Rightarrow> js_error + byte list" where
  "gradData avail cover = getGradientData avail cover 25 colorStops color_getColor"

definition gradMaskData :: "bool \<Rightarrow> coverage \<Rightarrow> js_error + byte list" where
  "gradMaskData avail cover = getGradientData avail cover 25 colorStops mask_getColor"

text \<open>The offset that row \<open>j\<close> of the column samples (pixel centre \<open>(1/2, j + 1/2)\<close>,
  gradient from the point \<open>(0, 0)\<close> to the circle of radius \<open>height\<close> around
  \<open>(0, height)\<close>), and the gradient \<open>getGradientData\<close> creates.\<close>

definition grad_offset :: "nat \<Rightarrow> nat \<Rightarrow> real" where
  "grad_offset h j = ((real j + 1/2)\<^sup>2 + 1/4) / (2 * real h * (real j + 1/2))"

definition column_gradient :: "nat \<Rightarrow> gradient" where
  "column_gradient h = \<lparr>g_x0 = 0, g_y0 = 0, g_r0 = 0, g_x1 = 0, g_y1 = real h, g_r1 = real h, g_stops = []\<rparr>"

text \<open>The bytes of a column of height \<open>h\<close> filled with gradient \<open>g\<close>; the error an
  \<open>addColorStop\<close> call raises for a stop; a rasteriser that covers nothing (the tables
  contain no strokes); the colour and mask stops of \<open>colorStops\<close> as parsed colours.\<close>

definition column_bytes :: "nat \<Rightarrow> gradient \<Rightarrow> byte list" where
  "column_bytes h g =
     concat (map (\<lambda>j. pixel_bytes (source_over (color_at (sort_key fst (g_stops g)) (grad_offset h j))
                                      transparent_black)) [0..<h])"

definition stop_error :: "(color_stop \<Rightarrow> string) \<Rightarrow> color_stop \<Rightarrow> js_error option" where
  "stop_error getColor s =
     (if position s < 0 \<or> 1 < position s then Some IndexSizeError
      else if parse_css_color (getColor s) = None then Some SyntaxError else None)"

definition no_cover :: coverage where
  "no_cover pa w j cp p = False"

definition mask_stops :: "(real \<times> color) list" where
  "mask_stops = [(0, rgba 0 0 0 1), (1/4, rgba (255/2) (255/2) (255/2) 1), (1/2, rgba 255 255 255 1)]"

definition color_stops :: "(real \<times> color) list" where
  "color_stops = [(0, rgba 255 0 0 1), (1/4, rgba 255 165 0 1), (1/2, rgba 255 255 255 1)]"

subsection \<open>The table is the gradient sampled along the column\<close>

lemma add_stops_geometry:
  "add_stops f ss g = Inr g' \<Longrightarrow> g' = g\<lparr>g_stops := g_stops g'\<rparr>"
proof (induction ss arbitrary: g)
  case Nil
  then show ?case by simp
next
  case (Cons s ss)
  then obtain g1 where g1: "addColorStop (position s) (f s) g = Inr g1"
    and rest: "add_stops f ss g1 = Inr g'"
    by (auto simp: js_bind_Inr_iff)
  from g1 have "g1 = g\<lparr>g_stops := g_stops g1\<rparr>"
    by (auto simp: addColorStop_def split: if_splits option.splits)
  with Cons.IH [OF rest] show ?case by (metis gradient.update_convs(7) gradient.surjective)
qed

lemma grad_offset_pos: "0 < h \<Longrightarrow> 0 < grad_offset h j"
  unfolding grad_offset_def by (intro divide_pos_pos) (auto intro: add_nonneg_pos)

lemma radial_offset_column:
  assumes "0 < h"
  shows "radial_offset ((column_gradient h)\<lparr>g_stops := st\<rparr>) (1/2, real j + 1/2) = Some (grad_offset h j)"
proof -
  let ?s = "real j + 1/2"
  have s: "0 < ?s" by simp
  have w: "- (1/2 * (1/2) + ?s * ?s - 0 * 0) / (-2 * (1/2 * 0 + ?s * real h + 0 * real h)) = grad_offset h j"
    unfolding grad_offset_def mult_minus_left minus_divide_divide
    by (simp add: power2_eq_square algebra_simps)
  have e1: "(1/4 + ?s * ?s) / (2 * (?s * real h)) = grad_offset h j"
    by (simp add: grad_offset_def power2_eq_square algebra_simps)
  have e2: "0 < (1/4 + ?s * ?s) / (2 * real j + 1)"
    by (intro divide_pos_pos) (auto intro: add_pos_nonneg)
  show ?thesis
    using assms s e1 e2
    by (simp add: radial_offset_def column_gradient_def Let_def)
qed

lemma getGradientData_Inr:
  assumes "0 < h" and stops: "add_stops getColor stops (column_gradient h) = Inr g"
  shows "getGradientData True cover h stops getColor =
    Inr (concat (map (\<lambda>j. pixel_bytes (source_over (color_at (sort_key fst (g_stops g)) (grad_offset h j))
                                        transparent_black)) [0..<h]))"
proof -
  have g: "g = (column_gradient h)\<lparr>g_stops := g_stops g\<rparr>"
    using add_stops_geometry [OF stops] by simp
  have grad: "createRadialGradient 0 0 0 0 (real h) (real h) = Inr (column_gradient h)"
    by (simp add: createRadialGradient_def column_gradient_def)
  have px: "pixel_of cover (fillRect 0 0 1 (real h) (set_fillStyle_gradient g c)) 0 j =
      source_over (color_at (sort_key fst (g_stops g)) (grad_offset h j)) transparent_black"
    if "j < h" "canvas_width c = 1" "canvas_height c = h" "ctm_scale c = 1" "display c = []" for j c
  proof -
    have "radial_offset g (1/2, real j + 1/2) = Some (grad_offset h j)"
      using radial_offset_column [OF assms(1)] g by metis
    then show ?thesis using that
      by (simp add: pixel_of_def raster_def fillRect_def set_fillStyle_gradient_def
          in_rect_def paint_color_def gradient_color_def)
  qed
  have mk: "makeCtx True 1 h 1 = Inr (fresh_ctx 1 h)"
    by (simp add: makeCtx_def fresh_ctx_def)
  have dims: "canvas_width (fresh_ctx w h) = w" "canvas_height (fresh_ctx w h) = h"
    "ctm_scale (fresh_ctx w h) = 1" "display (fresh_ctx w h) = []" for w
    by (simp_all add: fresh_ctx_def)
  let ?c = "fillRect 0 0 1 (real h) (set_fillStyle_gradient g (fresh_ctx 1 h))"
  have col: "map (\<lambda>j. concat (map (\<lambda>i. pixel_bytes (pixel_of cover ?c (0 + i) (0 + j))) [0..<1])) [0..<h] =
      map (\<lambda>j. pixel_bytes (source_over (color_at (sort_key fst (g_stops g)) (grad_offset h j))
                                        transparent_black)) [0..<h]"
    by (rule map_cong) (simp_all add: px dims)
  have "getGradientData True cover h stops getColor = getImageData cover 0 0 1 h ?c"
    unfolding getGradientData_def mk grad by (simp add: stops dims)
  also have "\<dots> = Inr (concat (map (\<lambda>j. concat (map (\<lambda>i. pixel_bytes (pixel_of cover ?c (0 + i) (0 + j))) [0..<1])) [0..<h]))"
    using assms(1) by (simp only: getImageData_def) simp
  finally show ?thesis by (simp only: col)
qed

subsection \<open>Properties of the tables\<close>

lemma getGradientData_eq:
  "getGradientData avail cover h stops getColor =
     (if \<not> avail then Inl SurfaceUnavailable
      else (case add_stops getColor stops (column_gradient h) of
              Inl e \<Rightarrow> Inl e
            | Inr g \<Rightarrow> if h = 0 then Inl IndexSizeError else Inr (column_bytes h g)))"
proof (cases "avail")
  case False
  then show ?thesis by (simp add: getGradientData_def makeCtx_def)
next
  case True
  have grad: "createRadialGradient 0 0 0 0 (real h) (real h) = Inr (column_gradient h)"
    by (simp add: createRadialGradient_def column_gradient_def)
  show ?thesis
  proof (cases "add_stops getColor stops (column_gradient h)")
    case (Inl e)
    with True show ?thesis by (simp add: getGradientData_def makeCtx_def grad)
  next
    case (Inr g)
    show ?thesis
    proof (cases "h = 0")
      case True
      have grad0: "createRadialGradient 0 0 0 0 0 0 = Inr (column_gradient 0)"
        by (simp add: createRadialGradient_def column_gradient_def)
      with \<open>avail\<close> Inr True show ?thesis
        by (simp add: getGradientData_def makeCtx_def getImageData_def)
    next
      case False
      with \<open>avail\<close> Inr getGradientData_Inr [of h getColor stops g cover] show ?thesis
        by (simp add: column_bytes_def)
    qed
  qed
qed

lemma add_stops_Inr:
  "add_stops f ss g = Inr g' \<Longrightarrow>
     \<exists>cols. g' = g\<lparr>g_stops := g_stops g @ cols\<rparr> \<and>
            list_all2 (\<lambda>s x. fst x = position s \<and> parse_css_color (f s) = Some (snd x)) ss cols"
proof (induction ss arbitrary: g)
  case Nil
  then show ?case by simp
next
  case (Cons s ss)
  then obtain g1 where g1: "addColorStop (position s) (f s) g = Inr g1"
    and rest: "add_stops f ss g1 = Inr g'"
    by (auto simp: js_bind_Inr_iff)
  from g1 obtain c where c: "parse_css_color (f s) = Some c"
    and g1eq: "g1 = g\<lparr>g_stops := g_stops g @ [(position s, c)]\<rparr>"
    by (auto simp: addColorStop_def split: if_splits option.splits)
  from Cons.IH [OF rest] obtain cols where "g' = g1\<lparr>g_stops := g_stops g1 @ cols\<rparr>"
    and "list_all2 (\<lambda>s x. fst x = position s \<and> parse_css_color (f s) = Some (snd x)) ss cols"
    by blast
  with c g1eq show ?case
    by (intro exI [of _ "(position s, c) # cols"]) simp
qed

text \<open>C3: The forEach of addColorStop calls either adds every stop, in order, with its parsed colour, or stops at the first stop whose offset is outside [0, 1] (IndexSizeError) or whose colour does not parse (SyntaxError).\<close>

theorem add_stops_result:
  "add_stops getColor ss g =
     (case find (\<lambda>s. stop_error getColor s \<noteq> None) ss of
        None \<Rightarrow> Inr (g\<lparr>g_stops := g_stops g @
                       map (\<lambda>s. (position s, the (parse_css_color (getColor s)))) ss\<rparr>)
      | Some s \<Rightarrow> Inl (the (stop_error getColor s)))"
proof (induction ss arbitrary: g)
  case Nil
  then show ?case by simp
next
  case (Cons s ss)
  show ?case
  proof (cases "stop_error getColor s")
    case None
    then obtain c where "parse_css_color (getColor s) = Some c"
      and "\<not> position s < 0" "\<not> 1 < position s"
      by (auto simp: stop_error_def split: if_splits)
    with None Cons.IH show ?thesis
      by (simp add: addColorStop_def split: option.split)
  next
    case (Some e)
    then show ?thesis
      by (auto simp: stop_error_def addColorStop_def split: if_splits option.splits)
  qed
qed

lemma nth_of_take_drop_4:
  "take 4 (drop k d) = [a, b, c, e] \<Longrightarrow> k + 4 \<le> length d \<Longrightarrow>
     d ! k = a \<and> d ! (k + 1) = b \<and> d ! (k + 2) = c \<and> d ! (k + 3) = e"
proof -
  assume t: "take 4 (drop k d) = [a, b, c, e]" and l: "k + 4 \<le> length d"
  have "d ! (k + i) = take 4 (drop k d) ! i" if "i < 4" for i
    using that l by simp
  from this [of 0] this [of 1] this [of 2] this [of 3] t show ?thesis by simp
qed

lemma color_at_grey: "\<forall>x \<in> set st. grey (snd x) \<Longrightarrow> grey (color_at st t)"
  by (induction st t rule: color_at.induct)
     (auto simp: grey_def lerp_color_def transparent_black_def)

lemma color_at_opaque: "st \<noteq> [] \<Longrightarrow> \<forall>x \<in> set st. alpha (snd x) = 1 \<Longrightarrow> alpha (color_at st t) = 1"
  by (induction st t rule: color_at.induct) (auto simp: lerp_color_def lerp_def)

lemma source_over_transparent: "source_over c transparent_black = (if alpha c = 0 then transparent_black else c)"
  by (simp add: source_over_def transparent_black_def rgba_def)

lemma mask_getColor_grey: "parse_css_color (mask_getColor s) = Some c \<Longrightarrow> grey c \<and> alpha c = 1"
  unfolding mask_getColor_def
  by (rule parse_hsl_grey) (auto dest: js_num_text_chars)

lemma column_bytes_row:
  "j < h \<Longrightarrow> take 4 (drop (4 * j) (column_bytes h g)) =
     pixel_bytes (source_over (color_at (sort_key fst (g_stops g)) (grad_offset h j)) transparent_black)"
  unfolding column_bytes_def by (rule row_of_concat_map) simp_all

lemma column_bytes_length [simp]: "length (column_bytes h g) = 4 * h"
  by (simp add: column_bytes_def length_concat_map_fixed)

lemma add_stops_color:
  "add_stops color_getColor colorStops (column_gradient 25) = Inr ((column_gradient 25)\<lparr>g_stops := color_stops\<rparr>)"
  by code_simp

lemma color_row_1:
  "take 4 (drop 4 (column_bytes 25 ((column_gradient 25)\<lparr>g_stops := color_stops\<rparr>))) = [255, 22, 0, 255]"
proof -
  have "pixel_bytes (source_over (color_at (sort_key fst color_stops) (grad_offset 25 1)) transparent_black) = [255, 22, 0, 255]"
    by code_simp
  then show ?thesis using column_bytes_row [of 1 25 "(column_gradient 25)\<lparr>g_stops := color_stops\<rparr>"] by simp
qed

lemma gradData_color:
  "gradData avail cover =
     (if avail then Inr (column_bytes 25 ((column_gradient 25)\<lparr>g_stops := color_stops\<rparr>)) else Inl SurfaceUnavailable)"
  by (simp add: gradData_def getGradientData_eq add_stops_color)

lemma add_stops_mask:
  "add_stops mask_getColor colorStops (column_gradient 25) = Inr ((column_gradient 25)\<lparr>g_stops := mask_stops\<rparr>)"
  by code_simp

lemma gradMaskData_mask:
  "gradMaskData avail cover =
     (if avail then Inr (column_bytes 25 ((column_gradient 25)\<lparr>g_stops := mask_stops\<rparr>)) else Inl SurfaceUnavailable)"
  by (simp add: gradMaskData_def getGradientData_eq add_stops_mask)

text \<open>C1: Each row of a table built by getGradientData holds the RGBA bytes of the gradient colour at the offset the row samples: row j of a column of height h samples the offset ((j+1/2)^2+1/4)/(2h(j+1/2)).\<close>

theorem gradient_table_rows:
  assumes "getGradientData avail cover h stops getColor = Inr d"
    and "add_stops getColor stops (column_gradient h) = Inr g" and "j < h"
  shows "take 4 (drop (4 * j) d) =
    pixel_bytes (source_over (color_at (sort_key fst (g_stops g)) (grad_offset h j)) transparent_black)"
proof -
  from assms(1,2) have "d = column_bytes h g"
    by (simp add: getGradientData_eq split: if_splits)
  with assms(3) show ?thesis by (simp add: column_bytes_row)
qed

theorem gradMaskData_row_12:
  "gradMaskData True no_cover = Inr (column_bytes 25 ((column_gradient 25)\<lparr>g_stops := mask_stops\<rparr>)) \<and>
   take 4 (drop 48 (column_bytes 25 ((column_gradient 25)\<lparr>g_stops := mask_stops\<rparr>))) = [128, 128, 128, 255]"
proof -
  let ?d = "column_bytes 25 ((column_gradient 25)\<lparr>g_stops := mask_stops\<rparr>)"
  have tab: "gradMaskData True no_cover = Inr ?d"
    by (simp add: gradMaskData_def getGradientData_eq add_stops_mask)
  have px: "pixel_bytes (source_over (color_at (sort_key fst mask_stops) (grad_offset 25 12)) transparent_black)
      = [128, 128, 128, 255]"
    by code_simp
  from gradient_table_rows [OF tab [unfolded gradMaskData_def] add_stops_mask, of 12] px tab
  show ?thesis by simp
qed

theorem add_stops_result_witness:
  "add_stops mask_getColor (colorStops @ [\<lparr>position = 2, stop_color = ''red'', opacity = 0\<rparr>]) (column_gradient 25)
     = Inl IndexSizeError"
proof -
  have "find (\<lambda>s. stop_error mask_getColor s \<noteq> None)
          (colorStops @ [\<lparr>position = 2, stop_color = ''red'', opacity = 0\<rparr>])
        = Some \<lparr>position = 2, stop_color = ''red'', opacity = 0\<rparr>"
    by code_simp
  then show ?thesis by (simp add: add_stops_result stop_error_def)
qed

text \<open>C2: getGradientData fails with SurfaceUnavailable when no 2D context is available, propagates the first addColorStop exception, and fails with IndexSizeError (from getImageData) for a table of height 0.\<close>

theorem getGradientData_errors:
  "getGradientData False cover1 h1 stops1 getColor1 = Inl SurfaceUnavailable \<and>
   (add_stops getColor2 stops2 (column_gradient h2) = Inl e \<longrightarrow>
      getGradientData True cover2 h2 stops2 getColor2 = Inl e) \<and>
   (add_stops getColor3 stops3 (column_gradient 0) = Inr g \<longrightarrow>
      getGradientData True cover3 0 stops3 getColor3 = Inl IndexSizeError)"
  by (simp add: getGradientData_eq)

theorem getGradientData_errors_witness:
  "getGradientData False no_cover 25 colorStops mask_getColor = Inl SurfaceUnavailable \<and>
   getGradientData True no_cover 25 [\<lparr>position = 2, stop_color = ''red'', opacity = 0\<rparr>] color_getColor
     = Inl IndexSizeError \<and>
   getGradientData True no_cover 0 colorStops mask_getColor = Inl IndexSizeError"
proof -
  have e: "add_stops color_getColor [\<lparr>position = 2, stop_color = ''red'', opacity = 0\<rparr>] (column_gradient 25)
      = Inl IndexSizeError"
    by (simp add: addColorStop_def)
  have ok: "add_stops mask_getColor colorStops (column_gradient 0) = Inr ((column_gradient 0)\<lparr>g_stops := mask_stops\<rparr>)"
    by code_simp
  show ?thesis
    using getGradientData_errors [of no_cover 25 colorStops mask_getColor color_getColor
        "[\<lparr>position = 2, stop_color = ''red'', opacity = 0\<rparr>]" 25 IndexSizeError no_cover
        mask_getColor colorStops "(column_gradient 0)\<lparr>g_stops := mask_stops\<rparr>" no_cover] e ok
    by simp
qed

text \<open>C4: A table built by getGradientData has exactly four bytes per row: 4 * height bytes.\<close>

theorem getGradientData_length:
  "getGradientData avail cover h stops getColor = Inr d \<Longrightarrow> length d = 4 * h"
  by (auto simp: getGradientData_eq split: if_splits sum.splits)

theorem getGradientData_length_witness:
  "gradMaskData True no_cover = Inr (column_bytes 25 ((column_gradient 25)\<lparr>g_stops := mask_stops\<rparr>)) \<and>
   length (column_bytes 25 ((column_gradient 25)\<lparr>g_stops := mask_stops\<rparr>)) = 100"
proof -
  have tab: "gradMaskData True no_cover = Inr (column_bytes 25 ((column_gradient 25)\<lparr>g_stops := mask_stops\<rparr>))"
    by (simp add: gradMaskData_def getGradientData_eq add_stops_mask)
  show ?thesis using getGradientData_length [OF tab [unfolded gradMaskData_def]] tab by simp
qed

lemma getGradientData_InrD:
  "getGradientData avail cover h stops getColor = Inr d \<Longrightarrow>
     avail \<and> 0 < h \<and> (\<exists>g. add_stops getColor stops (column_gradient h) = Inr g \<and> d = column_bytes h g)"
  by (auto simp: getGradientData_eq split: if_splits sum.splits)

lemma mask_stops_grey:
  assumes all: "list_all2 (\<lambda>s x. fst x = position s \<and> parse_css_color (mask_getColor s) = Some (snd x)) stops cols"
  shows "\<forall>x \<in> set cols. grey (snd x) \<and> alpha (snd x) = 1"
proof
  fix x assume "x \<in> set cols"
  then obtain i where i: "i < length cols" "x = cols ! i" by (auto simp: in_set_conv_nth)
  with all have "parse_css_color (mask_getColor (stops ! i)) = Some (snd x)"
    by (simp add: list_all2_conv_all_nth)
  then show "grey (snd x) \<and> alpha (snd x) = 1" by (rule mask_getColor_grey)
qed

lemma color_at_grey_opaque:
  assumes "\<forall>x \<in> set cols. grey (snd x) \<and> alpha (snd x) = 1" and "cols \<noteq> []"
  shows "grey (color_at (sort_key fst cols) t) \<and> alpha (color_at (sort_key fst cols) t) = 1"
proof -
  have "sort_key fst cols \<noteq> []" using assms(2) by (metis length_0_conv length_sort)
  with assms(1) show ?thesis by (intro conjI color_at_grey color_at_opaque) simp_all
qed

lemma column_bytes_row_opaque:
  assumes "j < h" and "alpha (color_at (sort_key fst (g_stops g)) (grad_offset h j)) = 1"
  shows "take 4 (drop (4 * j) (column_bytes h g)) =
    (let c = color_at (sort_key fst (g_stops g)) (grad_offset h j) in
     [to_byte (red c), to_byte (green c), to_byte (blue c), 255])"
proof -
  have b255: "to_byte 255 = 255" by (simp add: to_byte_def)
  show ?thesis
    using assms by (simp add: column_bytes_row source_over_transparent pixel_bytes_def b255 Let_def)
qed

text \<open>C5: Every row of a mask table (stops recoloured by the hsl mask getter) has equal red, green and blue bytes and an opaque alpha byte: opacity is encoded as luminance.\<close>

theorem mask_table_grey:
  assumes "getGradientData avail cover h stops mask_getColor = Inr d" and "stops \<noteq> []" and "j < h"
  shows "d ! (4 * j) = d ! (4 * j + 1) \<and> d ! (4 * j + 1) = d ! (4 * j + 2) \<and> d ! (4 * j + 3) = 255"
proof -
  from getGradientData_InrD [OF assms(1)] obtain g
    where g: "add_stops mask_getColor stops (column_gradient h) = Inr g" and d: "d = column_bytes h g"
    by blast
  from add_stops_Inr [OF g] obtain cols where gs: "g_stops g = cols"
    and all: "list_all2 (\<lambda>s x. fst x = position s \<and> parse_css_color (mask_getColor s) = Some (snd x)) stops cols"
    by (auto simp: column_gradient_def)
  have "cols \<noteq> []" using all assms(2) list_all2_lengthD by fastforce
  with mask_stops_grey [OF all]
  have c: "grey (color_at (sort_key fst cols) (grad_offset h j)) \<and> alpha (color_at (sort_key fst cols) (grad_offset h j)) = 1"
    by (rule color_at_grey_opaque)
  have len: "4 * j + 4 \<le> length d" using assms(3) by (simp add: d)
  from c column_bytes_row_opaque [OF assms(3), of g] have
    "take 4 (drop (4 * j) d) = (let c = color_at (sort_key fst cols) (grad_offset h j) in
       [to_byte (red c), to_byte (green c), to_byte (blue c), 255])"
    by (simp add: d gs)
  from nth_of_take_drop_4 [OF this [unfolded Let_def] len] c show ?thesis
    by (simp add: grey_def)
qed

theorem mask_table_grey_witness:
  "gradMaskData True no_cover = Inr (column_bytes 25 ((column_gradient 25)\<lparr>g_stops := mask_stops\<rparr>)) \<and>
   (let d = column_bytes 25 ((column_gradient 25)\<lparr>g_stops := mask_stops\<rparr>) in
      d ! 48 = d ! 49 \<and> d ! 49 = d ! 50 \<and> d ! 51 = 255)"
proof -
  have tab: "gradMaskData True no_cover = Inr (column_bytes 25 ((column_gradient 25)\<lparr>g_stops := mask_stops\<rparr>))"
    by (simp add: gradMaskData_def getGradientData_eq add_stops_mask)
  have ne: "colorStops \<noteq> []" by (simp add: colorStops_def)
  show ?thesis using mask_table_grey [OF tab [unfolded gradMaskData_def] ne, of 12] tab by simp
qed

lemma grad_offset_le_half:
  assumes "j < h" shows "grad_offset h j \<le> 1/2"
proof -
  let ?s = "real j + 1/2"
  have h: "?s + 1/2 \<le> real h" using assms by linarith
  have "1/2 * (1/2) \<le> ?s * (real h - ?s)"
    using h by (intro mult_mono) auto
  then have "?s\<^sup>2 + 1/4 \<le> 1/2 * (2 * real h * ?s)"
    by (simp add: power2_eq_square algebra_simps)
  moreover have "0 < 2 * real h * ?s" using assms by simp
  ultimately show ?thesis
    unfolding grad_offset_def by (simp add: divide_le_eq)
qed

text \<open>C6: The pixel centres of the one-pixel column all lie at gradient offsets in (0, 1/2]: the table samples only the first half of the radial gradient, so a stop beyond offset 1/2 never reaches it.\<close>

theorem column_offsets_first_half:
  assumes "0 < h" and "j < h"
  shows "\<exists>w. radial_offset (column_gradient h) (1/2, real j + 1/2) = Some w \<and> 0 < w \<and> w \<le> 1/2"
proof -
  have "radial_offset ((column_gradient h)\<lparr>g_stops := []\<rparr>) (1/2, real j + 1/2) = Some (grad_offset h j)"
    by (rule radial_offset_column [OF assms(1)])
  moreover have "(column_gradient h)\<lparr>g_stops := []\<rparr> = column_gradient h"
    by (simp add: column_gradient_def)
  ultimately show ?thesis
    using grad_offset_pos [OF assms(1)] grad_offset_le_half [OF assms(2)] by auto
qed

theorem column_offsets_first_half_witness:
  "\<exists>w. radial_offset (column_gradient 25) (1/2, real (24::nat) + 1/2) = Some w \<and> 0 < w \<and> w \<le> 1/2"
  by (rule column_offsets_first_half) simp_all

end
