(* ===== verification/CurveLayer.thy ===== *)
theory CurveLayer
  imports Gradient
begin

text \<open>
  CurveLayerRenderer: \<open>drawOnCtx\<close> (script.js lines 122-162) clears a canvas, builds one
  path of five cubic B\'ezier segments around \<open>(innerWidth / 2, cy)\<close> whose control
  points move with the phase \<open>e\<close>, and strokes it 25 times with widths \<open>2l\<close> for
  \<open>l = 25, 24, \<dots>, 1\<close>, each pass coloured by row \<open>l\<close> of a gradient table read with
  \<open>data.data[l * 4 + k]\<close>. The model runs on the canvas of \<open>Canvas2D\<close>: the state is
  the context record, each canvas call is a function on it.
\<close>

subsection \<open>Definitions\<close>

text \<open>One iteration of the loop of lines 131-147: the segment for index \<open>i\<close>.\<close>

definition bezier_step :: "real \<Rightarrow> real \<Rightarrow> real \<Rightarrow> ctx \<Rightarrow> nat \<Rightarrow> ctx" where
  "bezier_step cx cy e c i =
     (let i = real i in
      bezierCurveTo
        (cx + cos (i * 20 + e + i * 50) * (100 + i * 10 + e))
        (cy + sin (i * 20 + e + i * 50) * (100 + i * 10 + e))
        (cx + cos (i * 30 + e * 2) * (200 + i * 40 + i))
        (cy + sin (i * 30 + e * 2) * (200 + i * 40 + i))
        (cx + cos (i * 10) * (300 + i * 10))
        (cy + sin (i * 10) * (300 + i * 10)) c)"

text \<open>The colour text of pass \<open>l\<close> (lines 152-158): bytes \<open>4l\<close>, \<open>4l+1\<close>, \<open>4l+2\<close> of the
  table, each \<open>undefined\<close> when it is past the end.\<close>

definition pass_text :: "byte list \<Rightarrow> nat \<Rightarrow> string" where
  "pass_text data l = stroke_style_text (js_get data (l * 4)) (js_get data (l * 4 + 1)) (js_get data (l * 4 + 2))"

text \<open>One pass of the loop of lines 149-161.\<close>

definition stroke_pass :: "byte list \<Rightarrow> ctx \<Rightarrow> nat \<Rightarrow> ctx" where
  "stroke_pass data c l = stroke (set_strokeStyle (pass_text data l) (set_lineWidth (real l * 2) c))"

text \<open>\<open>for (let l = L; l > 0; l -= step)\<close> with \<open>step = 1\<close>: passes \<open>L, L-1, \<dots>, 1\<close>.\<close>

fun stroke_passes :: "byte list \<Rightarrow> nat \<Rightarrow> ctx \<Rightarrow> ctx" where
  "stroke_passes data 0 c = c"
| "stroke_passes data (Suc l) c = stroke_passes data l (stroke_pass data c (Suc l))"

text \<open>The same loop as the code writes it, \<open>for (let l = L; l > 0; l -= step)\<close> with the
  decrement \<open>step\<close> of line 126 as a parameter: a loop that may not end, so \<open>None\<close> is
  "never returns". \<open>drawOnCtx\<close> uses \<open>stroke_passes\<close>, which C27 shows to be this loop
  with \<open>step = 1\<close>.\<close>

partial_function (option) stroke_loop :: "byte list \<Rightarrow> int \<Rightarrow> int \<Rightarrow> ctx \<Rightarrow> ctx option" where
  "stroke_loop data step l c =
     (if 0 < l then stroke_loop data step (l - step) (stroke_pass data c (nat l)) else Some c)"

definition drawOnCtx :: "real \<Rightarrow> ctx \<Rightarrow> byte list \<Rightarrow> real \<Rightarrow> real \<Rightarrow> ctx" where
  "drawOnCtx innerWidth c data e cy =
     (let c1 = clearRect 0 0 (real (canvas_width c)) (real (canvas_height c)) c;
          cx = innerWidth / 2;
          c2 = moveTo cx cy (beginPath c1);
          c3 = foldl (bezier_step cx cy e) c2 [0..<5]
      in stroke_passes data 25 c3)"

text \<open>Derived notions used by the lemmas: the path \<open>drawOnCtx\<close> builds, the colour a
  table row spells with full opacity, and the style after one pass.\<close>

definition rosette_segment :: "real \<Rightarrow> real \<Rightarrow> real \<Rightarrow> real \<Rightarrow> nat \<Rightarrow> segment" where
  "rosette_segment s cx cy e i =
     (let i = real i in
      Bezier (s * (cx + cos (i * 20 + e + i * 50) * (100 + i * 10 + e)),
              s * (cy + sin (i * 20 + e + i * 50) * (100 + i * 10 + e)))
             (s * (cx + cos (i * 30 + e * 2) * (200 + i * 40 + i)),
              s * (cy + sin (i * 30 + e * 2) * (200 + i * 40 + i)))
             (s * (cx + cos (i * 10) * (300 + i * 10)), s * (cy + sin (i * 10) * (300 + i * 10))))"

definition rosette_path :: "real \<Rightarrow> real \<Rightarrow> real \<Rightarrow> real \<Rightarrow> path" where
  "rosette_path s cx cy e =
     [\<lparr>sp_start = (s * cx, s * cy), sp_segs = map (rosette_segment s cx cy e) [0..<5]\<rparr>]"

text \<open>The Euclidean distance of two points of the plane.\<close>

definition pt_dist :: "point \<Rightarrow> point \<Rightarrow> real" where
  "pt_dist p q = sqrt ((fst p - fst q)\<^sup>2 + (snd p - snd q)\<^sup>2)"

definition row_color :: "byte list \<Rightarrow> nat \<Rightarrow> color" where
  "row_color data l =
     rgba (real (unat (data ! (l * 4)))) (real (unat (data ! (l * 4 + 1))))
          (real (unat (data ! (l * 4 + 2)))) 1"

definition next_style :: "byte list \<Rightarrow> nat \<Rightarrow> paint \<Rightarrow> paint" where
  "next_style data l st = (case parse_css_color (pass_text data l) of None \<Rightarrow> st | Some col \<Rightarrow> Solid col)"

text \<open>The strokes passes \<open>l, \<dots>, 1\<close> append, from the style in force before them.\<close>

fun pass_strokes :: "byte list \<Rightarrow> path \<Rightarrow> real \<Rightarrow> line_join \<Rightarrow> line_cap \<Rightarrow> nat \<Rightarrow> paint \<Rightarrow> draw_cmd list" where
  "pass_strokes data p s j cp 0 st = []"
| "pass_strokes data p s j cp (Suc l) st =
     (let st' = next_style data (Suc l) st in
      Stroke p (real (Suc l) * 2 * s) st' s j cp # pass_strokes data p s j cp l st')"

fun last_style :: "byte list \<Rightarrow> nat \<Rightarrow> paint \<Rightarrow> paint" where
  "last_style data 0 st = st"
| "last_style data (Suc l) st = last_style data l (next_style data (Suc l) st)"

text \<open>The width of a stroke command.\<close>

fun stroke_width :: "draw_cmd \<Rightarrow> real" where
  "stroke_width (Stroke p w st s j cp) = w"
| "stroke_width _ = 0"

subsection \<open>The effect of drawOnCtx on the context\<close>

lemma stroke_pass_eq:
  "stroke_pass data c l =
     c\<lparr>lineWidth := (if 0 < real l * 2 then real l * 2 else lineWidth c),
       strokeStyle := next_style data l (strokeStyle c),
       display := display c @ [Stroke (cur_path c) ((if 0 < real l * 2 then real l * 2 else lineWidth c) * ctm_scale c)
                                 (next_style data l (strokeStyle c)) (ctm_scale c) (lineJoin c) (lineCap c)]\<rparr>"
  by (simp add: stroke_pass_def stroke_def set_strokeStyle_def set_lineWidth_def next_style_def
      split: option.split)

lemma stroke_passes_eq:
  "stroke_passes data l c =
     c\<lparr>lineWidth := (if l = 0 then lineWidth c else 2),
       strokeStyle := last_style data l (strokeStyle c),
       display := display c @ pass_strokes data (cur_path c) (ctm_scale c) (lineJoin c) (lineCap c) l (strokeStyle c)\<rparr>"
proof (induction l arbitrary: c)
  case 0
  then show ?case by simp
next
  case (Suc l)
  show ?case
    by (simp add: Suc.IH stroke_pass_eq Let_def)
qed

lemma bezier_step_eq:
  assumes "cur_path c = [sp]"
  shows "bezier_step cx cy e c i =
     c\<lparr>cur_path := [sp\<lparr>sp_segs := sp_segs sp @ [rosette_segment (ctm_scale c) cx cy e i]\<rparr>]\<rparr>"
  using assms
  by (simp add: bezier_step_def bezierCurveTo_def rosette_segment_def to_device_def Let_def)

lemma rosette_fold:
  assumes "cur_path c = [\<lparr>sp_start = p, sp_segs = []\<rparr>]"
  shows "foldl (bezier_step cx cy e) c [0..<n] =
     c\<lparr>cur_path := [\<lparr>sp_start = p, sp_segs = map (rosette_segment (ctm_scale c) cx cy e) [0..<n]\<rparr>]\<rparr>"
proof (induction n)
  case 0
  with assms show ?case by simp
next
  case (Suc n)
  then show ?case by (simp add: bezier_step_eq)
qed

lemma drawOnCtx_eq:
  "drawOnCtx innerWidth c data e cy =
     (let s = ctm_scale c; P = rosette_path s (innerWidth / 2) cy e in
      c\<lparr>cur_path := P, lineWidth := 2, strokeStyle := last_style data 25 (strokeStyle c),
        display := display c @ ClearRect (0, 0, s * real (canvas_width c), s * real (canvas_height c)) #
                   pass_strokes data P s (lineJoin c) (lineCap c) 25 (strokeStyle c)\<rparr>)"
proof -
  let ?s = "ctm_scale c" and ?cx = "innerWidth / 2"
  let ?c2 = "moveTo ?cx cy (beginPath (clearRect 0 0 (real (canvas_width c)) (real (canvas_height c)) c))"
  have c2: "cur_path ?c2 = [\<lparr>sp_start = (?s * ?cx, ?s * cy), sp_segs = []\<rparr>]"
    by (simp add: moveTo_def beginPath_def clearRect_def to_device_def Let_def)
  have "foldl (bezier_step ?cx cy e) ?c2 [0..<5] = ?c2\<lparr>cur_path := rosette_path ?s ?cx cy e\<rparr>"
    using rosette_fold [OF c2, of ?cx cy e 5]
    by (simp add: rosette_path_def moveTo_def beginPath_def clearRect_def Let_def)
  then show ?thesis
    by (simp add: drawOnCtx_def stroke_passes_eq Let_def moveTo_def beginPath_def clearRect_def)
qed

lemma next_style_in_range:
  "l * 4 + 2 < length data \<Longrightarrow> next_style data l st = Solid (row_color data l)"
  by (simp add: next_style_def pass_text_def parse_stroke_style_text row_color_def)

lemma next_style_past_end:
  "length data \<le> l * 4 \<Longrightarrow> next_style data l st = st"
  by (simp add: next_style_def pass_text_def parse_stroke_style_undefined)

lemma pass_strokes_in_range:
  "l * 4 + 2 < length data \<Longrightarrow>
     pass_strokes data p s j cp l st =
       map (\<lambda>k. Stroke p (real k * 2 * s) (Solid (row_color data k)) s j cp) (rev [1..<Suc l])"
proof (induction l arbitrary: st)
  case 0
  then show ?case by simp
next
  case (Suc l)
  then have "l * 4 + 2 < length data" by simp
  with Suc show ?case by (simp add: next_style_in_range Let_def)
qed

lemma last_style_in_range:
  "l * 4 + 2 < length data \<Longrightarrow> last_style data l st = (if l = 0 then st else Solid (row_color data 1))"
proof (induction l arbitrary: st)
  case 0
  then show ?case by simp
next
  case (Suc l)
  then have "l * 4 + 2 < length data" by simp
  with Suc show ?case by (cases l) (simp_all add: next_style_in_range)
qed

subsection \<open>The strokes drawOnCtx issues\<close>

lemma pass_strokes_widths:
  "map stroke_width (pass_strokes data p s j cp l st) = map (\<lambda>k. real k * 2 * s) (rev [1..<Suc l])"
  by (induction l arbitrary: st) (simp_all add: Let_def)

lemma pass_strokes_100:
  assumes "length data = 100"
  shows "pass_strokes data P s j cp 25 st =
           Stroke P (50 * s) st s j cp #
           map (\<lambda>k. Stroke P (real k * 2 * s) (Solid (row_color data k)) s j cp) (rev [1..<25])"
proof -
  have past: "next_style data 25 st = st" using assms by (simp add: next_style_past_end)
  have inr: "24 * 4 + 2 < length data" using assms by simp
  show ?thesis
    using pass_strokes.simps(2) [of data P s j cp 24 st]
    by (simp add: past Let_def pass_strokes_in_range [OF inr] del: upt_Suc)
qed

lemma last_style_100:
  assumes "length data = 100"
  shows "last_style data 25 st = Solid (row_color data 1)"
proof -
  have past: "next_style data 25 st = st" using assms by (simp add: next_style_past_end)
  have inr: "24 * 4 + 2 < length data" using assms by simp
  show ?thesis
    using last_style.simps(2) [of data 24 st] by (simp add: past last_style_in_range [OF inr])
qed

lemma color_table_row_1:
  "row_color (column_bytes 25 ((column_gradient 25)\<lparr>g_stops := color_stops\<rparr>)) 1 = rgba 255 22 0 1"
proof -
  let ?d = "column_bytes 25 ((column_gradient 25)\<lparr>g_stops := color_stops\<rparr>)"
  have "?d ! 4 = 255 \<and> ?d ! 5 = 22 \<and> ?d ! 6 = 0"
    using nth_of_take_drop_4 [OF color_row_1] by simp
  then show ?thesis by (simp add: row_color_def)
qed

lemma color_table_row_Suc_0 [simp]:
  "row_color (column_bytes 25 ((column_gradient 25)\<lparr>g_stops := color_stops\<rparr>)) (Suc 0) = rgba 255 22 0 1"
  using color_table_row_1 by simp

lemma color_table_length [simp]:
  "length (column_bytes 25 ((column_gradient 25)\<lparr>g_stops := color_stops\<rparr>)) = 100"
  by simp

text \<open>C7: With the 100-byte table getGradientData builds (25 rows), drawOnCtx clears the canvas and
  strokes the rosette 25 times with widths 50, 48, ..., 2; pass l = 25 reads bytes 100-102, past the
  end of the table, so the colour text contains "undefined", the strokeStyle assignment is ignored,
  and the widest stroke keeps the style in force before the call; passes 24 ... 1 use rows 24 ... 1,
  and the context is left with row 1's colour as its strokeStyle.\<close>

theorem drawOnCtx_strokes_100:
  assumes "length data = 100"
  shows "drop (length (display c)) (display (drawOnCtx innerWidth c data e cy)) =
      (let s = ctm_scale c; P = rosette_path s (innerWidth / 2) cy e in
       ClearRect (0, 0, s * real (canvas_width c), s * real (canvas_height c)) #
       Stroke P (50 * s) (strokeStyle c) s (lineJoin c) (lineCap c) #
       map (\<lambda>k. Stroke P (real k * 2 * s) (Solid (row_color data k)) s (lineJoin c) (lineCap c)) (rev [1..<25]))
    \<and> strokeStyle (drawOnCtx innerWidth c data e cy) = Solid (row_color data 1)"
  by (simp add: drawOnCtx_eq Let_def pass_strokes_100 [OF assms] last_style_100 [OF assms] del: upt_Suc)

theorem drawOnCtx_strokes_100_witness:
  "length (column_bytes 25 ((column_gradient 25)\<lparr>g_stops := color_stops\<rparr>)) = 100 \<and>
   strokeStyle (drawOnCtx 800 (fresh_ctx 800 600) (column_bytes 25 ((column_gradient 25)\<lparr>g_stops := color_stops\<rparr>)) 0 300)
     = Solid (rgba 255 22 0 1) \<and>
   drop 1 (take 2 (display (drawOnCtx 800 (fresh_ctx 800 600) (column_bytes 25 ((column_gradient 25)\<lparr>g_stops := color_stops\<rparr>)) 0 300)))
     = [Stroke (rosette_path 1 400 300 0) 50 (Solid black) 1 JoinMiter CapButt]"
  using drawOnCtx_strokes_100 [of "column_bytes 25 ((column_gradient 25)\<lparr>g_stops := color_stops\<rparr>)"
      "fresh_ctx 800 600" 800 0 300]
  by (simp add: fresh_ctx_def Let_def del: upt_Suc)

text \<open>C8: The strokes of drawOnCtx after the clear have widths 50, 48, ..., 2 (times the context
  scale), widest first, so every narrower pass is drawn over the wider ones.\<close>

theorem drawOnCtx_widths_descending:
  "map stroke_width (drop (Suc (length (display c))) (display (drawOnCtx innerWidth c data e cy))) =
     map (\<lambda>k. real k * 2 * ctm_scale c) (rev [1..<26])"
  by (simp add: drawOnCtx_eq Let_def pass_strokes_widths del: upt_Suc)

text \<open>C9: With a table of at least 26 rows (so that bytes 100-102 exist), every pass l = 25 ... 1
  strokes with row l's colour, fully opaque.\<close>

theorem drawOnCtx_strokes_long_table:
  assumes "25 * 4 + 2 < length data"
  shows "drop (length (display c)) (display (drawOnCtx innerWidth c data e cy)) =
      (let s = ctm_scale c; P = rosette_path s (innerWidth / 2) cy e in
       ClearRect (0, 0, s * real (canvas_width c), s * real (canvas_height c)) #
       map (\<lambda>k. Stroke P (real k * 2 * s) (Solid (row_color data k)) s (lineJoin c) (lineCap c)) (rev [1..<26]))"
  by (simp add: drawOnCtx_eq Let_def pass_strokes_in_range [OF assms] del: upt_Suc)

theorem drawOnCtx_strokes_long_table_witness:
  "25 * 4 + 2 < length (replicate 104 (7::byte)) \<and>
   drop 0 (display (drawOnCtx 800 (fresh_ctx 800 600) (replicate 104 7) 0 300)) =
     ClearRect (0, 0, 800, 600) #
     map (\<lambda>k. Stroke (rosette_path 1 400 300 0) (real k * 2) (Solid (row_color (replicate 104 7) k)) 1 JoinMiter CapButt)
       (rev [1..<26])"
  using drawOnCtx_strokes_long_table [of "replicate 104 (7::byte)" "fresh_ctx 800 600" 800 0 300]
  by (simp add: fresh_ctx_def Let_def del: upt_Suc)

text \<open>C10: drawOnCtx starts a new path (beginPath) and sets lineWidth before every stroke, so its
  result does not depend on the path or line width the context held before the call.\<close>

theorem drawOnCtx_ignores_path_and_width:
  "drawOnCtx innerWidth (c\<lparr>cur_path := p, lineWidth := w\<rparr>) data e cy = drawOnCtx innerWidth c data e cy"
  by (simp add: drawOnCtx_eq Let_def)

text \<open>C11: drawOnCtx changes only the path, line width, stroke style and display list of the
  context: its size, transform, line join, line cap and fill style are left as they were.\<close>

theorem drawOnCtx_frame:
  "canvas_width (drawOnCtx innerWidth c data e cy) = canvas_width c \<and>
   canvas_height (drawOnCtx innerWidth c data e cy) = canvas_height c \<and>
   ctm_scale (drawOnCtx innerWidth c data e cy) = ctm_scale c \<and>
   lineJoin (drawOnCtx innerWidth c data e cy) = lineJoin c \<and>
   lineCap (drawOnCtx innerWidth c data e cy) = lineCap c \<and>
   fillStyle (drawOnCtx innerWidth c data e cy) = fillStyle c"
  by (simp add: drawOnCtx_eq Let_def)

text \<open>C12: drawOnCtx is not idempotent across frames: with a 100-byte table, a second call on the
  context the first one returned appends different strokes whenever the style before the first
  call differs from row 1's colour, because the widest pass inherits the style the previous call
  left behind.\<close>

theorem drawOnCtx_repeat_differs:
  assumes "length data = 100" and "strokeStyle c \<noteq> Solid (row_color data 1)"
  shows "drop (length (display c)) (display (drawOnCtx innerWidth c data e cy)) \<noteq>
         (let c1 = drawOnCtx innerWidth c data e cy in
            drop (length (display c1)) (display (drawOnCtx innerWidth c1 data e cy)))"
proof -
  let ?c1 = "drawOnCtx innerWidth c data e cy"
  have "strokeStyle ?c1 = Solid (row_color data 1)"
    by (simp add: drawOnCtx_eq Let_def last_style_100 [OF assms(1)])
  with assms show ?thesis
    by (simp add: drawOnCtx_eq Let_def pass_strokes_100 [OF assms(1)] del: upt_Suc)
qed

theorem drawOnCtx_repeat_differs_witness:
  "drop 0 (display (drawOnCtx 800 (fresh_ctx 800 600)
      (column_bytes 25 ((column_gradient 25)\<lparr>g_stops := color_stops\<rparr>)) 0 300)) \<noteq>
   (let c1 = drawOnCtx 800 (fresh_ctx 800 600) (column_bytes 25 ((column_gradient 25)\<lparr>g_stops := color_stops\<rparr>)) 0 300 in
      drop (length (display c1)) (display (drawOnCtx 800 c1
        (column_bytes 25 ((column_gradient 25)\<lparr>g_stops := color_stops\<rparr>)) 0 300)))"
  using drawOnCtx_repeat_differs [of "column_bytes 25 ((column_gradient 25)\<lparr>g_stops := color_stops\<rparr>)"
      "fresh_ctx 800 600" 800 0 300]
  by (simp add: fresh_ctx_def black_def rgba_def)

lemma uncovered_strokes:
  "(\<And>k. k \<in> set ks \<Longrightarrow> \<not> cover P (w k) j cp p) \<Longrightarrow>
     foldl (apply_cmd cover p) d (map (\<lambda>k. Stroke P (w k) (st k) s j cp) ks) = d"
  by (induction ks arbitrary: d) simp_all

text \<open>C24: Spec property 5 fails: with the 100-byte table, at a canvas point covered by the widest
  stroke (width 50) and by none of the narrower ones, drawOnCtx leaves the colour of the style in
  force before the call (black on a fresh canvas), not a table colour, because pass 25 reads past
  the table.\<close>
theorem drawOnCtx_outer_edge:
  assumes "length data = 100"
    and "in_rect (0, 0, ctm_scale c * real (canvas_width c), ctm_scale c * real (canvas_height c)) p"
    and "cover (rosette_path (ctm_scale c) (innerWidth / 2) cy e) (50 * ctm_scale c) (lineJoin c) (lineCap c) p"
    and "\<forall>k \<in> {1..<25}. \<not> cover (rosette_path (ctm_scale c) (innerWidth / 2) cy e) (real k * 2 * ctm_scale c) (lineJoin c) (lineCap c) p"
  shows "raster cover (display (drawOnCtx innerWidth c data e cy)) p =
           source_over (paint_color (strokeStyle c) (ctm_scale c) p) transparent_black"
proof -
  have "\<And>k. k \<in> set (rev [1..<25]) \<Longrightarrow>
          \<not> cover (rosette_path (ctm_scale c) (innerWidth / 2) cy e) (real k * 2 * ctm_scale c) (lineJoin c) (lineCap c) p"
    using assms(4) by simp
  note un = uncovered_strokes [of "rev [1..<25]" cover "rosette_path (ctm_scale c) (innerWidth / 2) cy e"
      "\<lambda>k. real k * 2 * ctm_scale c", OF this,
      of "source_over (paint_color (strokeStyle c) (ctm_scale c) p) transparent_black"
         "\<lambda>k. Solid (row_color data k)" "ctm_scale c"]
  show ?thesis
    using assms(2,3) un
    by (simp add: raster_def drawOnCtx_eq Let_def pass_strokes_100 [OF assms(1)] del: upt_Suc)
qed

theorem drawOnCtx_outer_edge_witness:
  "raster (\<lambda>pa w j cp q. 49 < w) (display (drawOnCtx 800 (fresh_ctx 800 600)
      (column_bytes 25 ((column_gradient 25)\<lparr>g_stops := color_stops\<rparr>)) 0 300)) (400, 300) = black"
proof -
  have "raster (\<lambda>pa w j cp q. 49 < w) (display (drawOnCtx 800 (fresh_ctx 800 600)
      (column_bytes 25 ((column_gradient 25)\<lparr>g_stops := color_stops\<rparr>)) 0 300)) (400, 300) =
        source_over (paint_color (Solid black) 1 (400, 300)) transparent_black"
    using drawOnCtx_outer_edge [of "column_bytes 25 ((column_gradient 25)\<lparr>g_stops := color_stops\<rparr>)" "fresh_ctx 800 600"
        "(400, 300)" "\<lambda>pa w j cp q. 49 < w" 800 300 0]
    by (simp add: fresh_ctx_def in_rect_def)
  then show ?thesis by (simp add: paint_color_def source_over_transparent black_def)
qed

text \<open>C25: The colour text of every pass that reads inside the table is a round trip of the row: it
  parses, and the colour it names, drawn onto a cleared canvas and read back as bytes, is the row's
  red, green and blue bytes with alpha 255.\<close>
theorem pass_color_roundtrip:
  assumes "l * 4 + 2 < length data"
  shows "\<exists>col. parse_css_color (pass_text data l) = Some col \<and>
           pixel_bytes (source_over col transparent_black) = [data ! (l * 4), data ! (l * 4 + 1), data ! (l * 4 + 2), 255]"
  using assms by (simp add: pass_text_def parse_stroke_style_text source_over_transparent pixel_bytes_def)

theorem pass_color_roundtrip_witness:
  "\<exists>col. parse_css_color (pass_text (column_bytes 25 ((column_gradient 25)\<lparr>g_stops := color_stops\<rparr>)) 1) = Some col \<and>
     pixel_bytes (source_over col transparent_black) =
       [column_bytes 25 ((column_gradient 25)\<lparr>g_stops := color_stops\<rparr>) ! 4,
        column_bytes 25 ((column_gradient 25)\<lparr>g_stops := color_stops\<rparr>) ! 5,
        column_bytes 25 ((column_gradient 25)\<lparr>g_stops := color_stops\<rparr>) ! 6, 255]"
  using pass_color_roundtrip [of 1 "column_bytes 25 ((column_gradient 25)\<lparr>g_stops := color_stops\<rparr>)"] by simp

subsection \<open>The loop with its decrement\<close>

lemma stroke_loop_stops: "l \<le> 0 \<Longrightarrow> stroke_loop data step l c = Some c"
  by (simp add: stroke_loop.simps)

lemma stroke_loop_returns: "0 < step \<Longrightarrow> \<exists>c'. stroke_loop data step l c = Some c'"
proof (induction "nat l" arbitrary: l c rule: less_induct)
  case less
  show ?case
  proof (cases "0 < l")
    case True
    then have "nat (l - step) < nat l" using less.prems by simp
    then obtain c' where "stroke_loop data step (l - step) (stroke_pass data c (nat l)) = Some c'"
      using less.hyps less.prems by blast
    with True show ?thesis by (subst stroke_loop.simps) simp
  next
    case False
    then show ?thesis by (simp add: stroke_loop_stops)
  qed
qed

lemma stroke_loop_diverges:
  assumes "step \<le> 0" "0 < l"
  shows "stroke_loop data step l c = None"
proof (rule ccontr)
  assume "stroke_loop data step l c \<noteq> None"
  then obtain r where ret: "stroke_loop data step l c = Some r" by blast
  have "\<not> (step \<le> 0 \<and> 0 < l)"
  proof (rule stroke_loop.raw_induct [where P = "\<lambda>data step l c r. \<not> (step \<le> 0 \<and> 0 < l)", OF _ ret])
    fix f data step l c r
    assume IH: "\<And>data step l c r. f data step l c = Some r \<Longrightarrow> \<not> (step \<le> 0 \<and> 0 < l)"
      and eq: "(if 0 < l then f data step (l - step) (stroke_pass data c (nat l)) else Some c) = Some r"
    show "\<not> (step \<le> 0 \<and> 0 < l)"
    proof
      assume s: "step \<le> 0 \<and> 0 < l"
      with eq have "f data step (l - step) (stroke_pass data c (nat l)) = Some r" by simp
      then have "\<not> (step \<le> 0 \<and> 0 < l - step)" by (rule IH)
      with s show False by simp
    qed
  qed
  with assms show False by simp
qed

text \<open>C26: The stroke loop returns exactly when its decrement is positive or it starts at
  l <= 0: with step = 1 (line 126) it always ends, and with a step of 0 or less it would never
  return.\<close>

theorem stroke_loop_terminates_iff:
  "(\<exists>c'. stroke_loop data step l c = Some c') \<longleftrightarrow> 0 < step \<or> l \<le> 0"
  using stroke_loop_returns stroke_loop_diverges stroke_loop_stops by (metis not_le option.distinct(1))

text \<open>C27: With the decrement step = 1 of line 126, the loop of lines 149-161 started at L returns
  exactly the context of the structural recursion stroke_passes: passes L, L - 1, ..., 1.\<close>

theorem stroke_loop_step_1:
  "stroke_loop data 1 (int L) c = Some (stroke_passes data L c)"
proof (induction L arbitrary: c)
  case 0
  then show ?case by (simp add: stroke_loop_stops)
next
  case (Suc L)
  have "stroke_loop data 1 (int (Suc L)) c = stroke_loop data 1 (int L) (stroke_pass data c (Suc L))"
  proof -
    have "nat (int (Suc L)) = Suc L" "int (Suc L) - 1 = int L" by simp_all
    then show ?thesis by (subst stroke_loop.simps) simp
  qed
  then show ?case using Suc.IH by simp
qed


subsection \<open>The geometry of the path\<close>

lemma pt_dist_polar:
  "pt_dist (s * (cx + cos a * r), s * (cy + sin a * r)) (s * cx, s * cy) = \<bar>s\<bar> * \<bar>r\<bar>"
proof -
  have dx: "s * (cx + cos a * r) - s * cx = (s * r) * cos a"
    and dy: "s * (cy + sin a * r) - s * cy = (s * r) * sin a"
    by (simp_all add: algebra_simps)
  have "((s * r) * cos a)\<^sup>2 + ((s * r) * sin a)\<^sup>2 = (s * r)\<^sup>2 * ((cos a)\<^sup>2 + (sin a)\<^sup>2)"
    by (simp only: power_mult_distrib distrib_left)
  also have "\<dots> = (s * r)\<^sup>2" by simp
  finally have sq: "((s * r) * cos a)\<^sup>2 + ((s * r) * sin a)\<^sup>2 = (s * r)\<^sup>2" .
  show ?thesis by (simp only: pt_dist_def fst_conv snd_conv dx dy sq real_sqrt_abs abs_mult)
qed

lemma rosette_segment_radii:
  "\<exists>p1 p2 p3. rosette_segment s cx cy e i = Bezier p1 p2 p3 \<and>
     pt_dist p1 (s * cx, s * cy) = \<bar>s\<bar> * \<bar>100 + real i * 10 + e\<bar> \<and>
     pt_dist p2 (s * cx, s * cy) = \<bar>s\<bar> * (200 + real i * 40 + real i) \<and>
     pt_dist p3 (s * cx, s * cy) = \<bar>s\<bar> * (300 + real i * 10)"
  by (simp add: rosette_segment_def Let_def pt_dist_polar)

lemma drawOnCtx_path:
  "cur_path (drawOnCtx w c data e cy) = rosette_path (ctm_scale c) (w / 2) cy e"
  by (simp add: drawOnCtx_eq Let_def)

text \<open>C34: The points of the path drawOnCtx builds, measured from its start (cx, cy) in device
  units: in segment i the endpoint lies at distance 300 + 10i and the second control point at
  200 + 41i, whatever the phase, while the first control point lies at distance
  |100 + 10i + e|, which grows with the phase e = now/1000 + strand: the bulges of the rosette
  drift outward by one unit per second of the page's life, without bound.\<close>

theorem rosette_radii:
  assumes "i < 5"
  shows "\<exists>p1 p2 p3. sp_segs (hd (cur_path (drawOnCtx w c data e cy))) ! i = Bezier p1 p2 p3 \<and>
     pt_dist p1 (sp_start (hd (cur_path (drawOnCtx w c data e cy)))) = \<bar>ctm_scale c\<bar> * \<bar>100 + real i * 10 + e\<bar> \<and>
     pt_dist p2 (sp_start (hd (cur_path (drawOnCtx w c data e cy)))) = \<bar>ctm_scale c\<bar> * (200 + real i * 40 + real i) \<and>
     pt_dist p3 (sp_start (hd (cur_path (drawOnCtx w c data e cy)))) = \<bar>ctm_scale c\<bar> * (300 + real i * 10)"
  using assms rosette_segment_radii [of "ctm_scale c" "w / 2" cy e i]
  by (simp add: drawOnCtx_path rosette_path_def)

theorem rosette_radii_witness:
  "\<exists>p1 p2 p3. sp_segs (hd (cur_path (drawOnCtx 800 (fresh_ctx 800 600) [] 1000 300))) ! 0 = Bezier p1 p2 p3 \<and>
     pt_dist p1 (sp_start (hd (cur_path (drawOnCtx 800 (fresh_ctx 800 600) [] 1000 300)))) = 1100 \<and>
     pt_dist p2 (sp_start (hd (cur_path (drawOnCtx 800 (fresh_ctx 800 600) [] 1000 300)))) = 200 \<and>
     pt_dist p3 (sp_start (hd (cur_path (drawOnCtx 800 (fresh_ctx 800 600) [] 1000 300)))) = 300"
  using rosette_radii [of 0 800 "fresh_ctx 800 600" "[]" 1000 300] by (simp add: fresh_ctx_def)

text \<open>C35: The animation never repeats: for any two distinct phases e, e' >= 0 (the clock and
  the strand offset are never negative) drawOnCtx builds different paths, so no period of the
  phase, 2 pi included, gives back a drawing already shown.\<close>

theorem rosette_never_repeats:
  assumes "ctm_scale c \<noteq> 0" "0 \<le> e" "0 \<le> e'" "e \<noteq> e'"
  shows "cur_path (drawOnCtx w c data e cy) \<noteq> cur_path (drawOnCtx w c data e' cy)"
proof
  assume eq: "cur_path (drawOnCtx w c data e cy) = cur_path (drawOnCtx w c data e' cy)"
  let ?s = "ctm_scale c" and ?o = "(ctm_scale c * (w / 2), ctm_scale c * cy)"
  have "rosette_segment ?s (w / 2) cy e 0 = rosette_segment ?s (w / 2) cy e' 0"
    using eq by (simp add: drawOnCtx_path rosette_path_def)
  moreover obtain p1 p2 p3 where "rosette_segment ?s (w / 2) cy e 0 = Bezier p1 p2 p3" "pt_dist p1 ?o = \<bar>?s\<bar> * \<bar>100 + e\<bar>"
    using rosette_segment_radii [of ?s "w / 2" cy e 0] by auto
  moreover obtain q1 q2 q3 where "rosette_segment ?s (w / 2) cy e' 0 = Bezier q1 q2 q3" "pt_dist q1 ?o = \<bar>?s\<bar> * \<bar>100 + e'\<bar>"
    using rosette_segment_radii [of ?s "w / 2" cy e' 0] by auto
  ultimately have "\<bar>?s\<bar> * \<bar>100 + e\<bar> = \<bar>?s\<bar> * \<bar>100 + e'\<bar>" by simp
  then show False using assms by simp
qed

theorem rosette_never_repeats_witness:
  "cur_path (drawOnCtx 800 (fresh_ctx 800 600) [] 0 300) \<noteq> cur_path (drawOnCtx 800 (fresh_ctx 800 600) [] (2 * pi) 300)"
  using rosette_never_repeats [of "fresh_ctx 800 600" 0 "2 * pi" 800 "[]" 300] by (simp add: fresh_ctx_def)

end
