(* ===== verification/Compositor.thy ===== *)
theory Compositor
  imports Canvas2D
begin

text \<open>
  LayerCompositor: the regl command \<open>drawLine\<close> (script.js lines 52-109) and the GPU state it
  acts on. A draw runs the vertex shader on the six positions of the quad, rasterises the two
  triangles they form, runs the fragment shader at each covered pixel centre, applies the
  depth test (regl's default: \<open>less\<close>, writes enabled) and blends with the function of
  lines 97-105. Textures are uploaded from a canvas (\<open>regl.texture(ctx)\<close>,
  \<open>subimage(ctx)\<close>) as the canvas's unpremultiplied RGBA bytes, top row first (regl's
  default \<open>flipY: false\<close>), and sampled with regl's defaults (nearest, clamp to edge).
  The framebuffer holds colours with channels in \<open>[0, 1]\<close> and a depth per pixel;
  pixel \<open>(px, py)\<close> is in GL window coordinates, \<open>py\<close> counted from the bottom.
\<close>

subsection \<open>Definitions\<close>

text \<open>A GLSL \<open>vec4\<close> colour, channels normalised to \<open>[0, 1]\<close>.\<close>

record vec4 =
  vr :: real
  vg :: real
  vb :: real
  va :: real

text \<open>The blend factors regl accepts by name, for the names the script uses and their
  counterparts.\<close>

datatype blend_factor = BF_Zero | BF_One | BF_SrcAlpha | BF_OneMinusSrcAlpha | BF_DstAlpha | BF_OneMinusDstAlpha

definition regl_blend_factor :: "string \<Rightarrow> blend_factor option" where
  "regl_blend_factor s =
     (if s = ''zero'' \<or> s = ''0'' then Some BF_Zero
      else if s = ''one'' \<or> s = ''1'' then Some BF_One
      else if s = ''src alpha'' then Some BF_SrcAlpha
      else if s = ''one minus src alpha'' then Some BF_OneMinusSrcAlpha
      else if s = ''dst alpha'' then Some BF_DstAlpha
      else if s = ''one minus dst alpha'' then Some BF_OneMinusDstAlpha
      else None)"

record blend_state =
  blend_enable :: bool
  srcRGB :: blend_factor
  srcAlpha :: blend_factor
  dstRGB :: blend_factor
  dstAlpha :: blend_factor

text \<open>\<open>blend: {enable: true, func: {...}}\<close> of lines 97-105.\<close>

definition drawLine_blend :: blend_state where
  "drawLine_blend =
     \<lparr>blend_enable = True,
      srcRGB = the (regl_blend_factor ''src alpha''), srcAlpha = the (regl_blend_factor ''src alpha''),
      dstRGB = the (regl_blend_factor ''one minus src alpha''),
      dstAlpha = the (regl_blend_factor ''one minus src alpha'')\<rparr>"

fun factor_val :: "blend_factor \<Rightarrow> vec4 \<Rightarrow> vec4 \<Rightarrow> real" where
  "factor_val BF_Zero s d = 0"
| "factor_val BF_One s d = 1"
| "factor_val BF_SrcAlpha s d = va s"
| "factor_val BF_OneMinusSrcAlpha s d = 1 - va s"
| "factor_val BF_DstAlpha s d = va d"
| "factor_val BF_OneMinusDstAlpha s d = 1 - va d"

text \<open>\<open>FUNC_ADD\<close> blending into a fixed-point colour buffer: the result is clamped to
  \<open>[0, 1]\<close>. With blending disabled the fragment colour is written (clamped).\<close>

definition blend :: "blend_state \<Rightarrow> vec4 \<Rightarrow> vec4 \<Rightarrow> vec4" where
  "blend b s d =
     (if blend_enable b then
        (let fs = factor_val (srcRGB b) s d; fd = factor_val (dstRGB b) s d;
             gs = factor_val (srcAlpha b) s d; gd = factor_val (dstAlpha b) s d in
         \<lparr>vr = clamp 0 1 (vr s * fs + vr d * fd), vg = clamp 0 1 (vg s * fs + vg d * fd),
          vb = clamp 0 1 (vb s * fs + vb d * fd), va = clamp 0 1 (va s * gs + va d * gd)\<rparr>)
      else \<lparr>vr = clamp 0 1 (vr s), vg = clamp 0 1 (vg s), vb = clamp 0 1 (vb s), va = clamp 0 1 (va s)\<rparr>)"

text \<open>The vertex shader of lines 53-64: \<open>uv = 0.5 * (1.0 - position)\<close> and
  \<open>gl_Position = vec4(position, 0, 1)\<close>; the fragment's window depth is
  \<open>(z_ndc + 1) / 2\<close> with the default depth range \<open>[0, 1]\<close>.\<close>

definition vert_uv :: "real \<times> real \<Rightarrow> real \<times> real" where
  "vert_uv p = (0.5 * (1 - fst p), 0.5 * (1 - snd p))"

definition vert_depth :: "real \<times> real \<Rightarrow> real" where
  "vert_depth p = (0 + 1) / 2"

text \<open>\<open>attributes.position\<close> of lines 83-90, drawn with \<open>count: 6\<close> as triangles.\<close>

definition quad_positions :: "(real \<times> real) list" where
  "quad_positions = [(-1, -1), (1, -1), (1, 1), (-1, -1), (1, 1), (-1, 1)]"

fun triangles_of :: "'a list \<Rightarrow> ('a \<times> 'a \<times> 'a) list" where
  "triangles_of (a # b # c # rest) = (a, b, c) # triangles_of rest"
| "triangles_of _ = []"

definition edge_fn :: "real \<times> real \<Rightarrow> real \<times> real \<Rightarrow> real \<times> real \<Rightarrow> real" where
  "edge_fn a b p = (fst b - fst a) * (snd p - snd a) - (snd b - snd a) * (fst p - fst a)"

definition in_triangle :: "(real \<times> real) \<times> (real \<times> real) \<times> (real \<times> real) \<Rightarrow> real \<times> real \<Rightarrow> bool" where
  "in_triangle t p =
     (case t of (a, b, c) \<Rightarrow>
        (0 \<le> edge_fn a b p \<and> 0 \<le> edge_fn b c p \<and> 0 \<le> edge_fn c a p) \<or>
        (edge_fn a b p \<le> 0 \<and> edge_fn b c p \<le> 0 \<and> edge_fn c a p \<le> 0))"

text \<open>Barycentric interpolation of a varying over a triangle, as the rasteriser does for
  \<open>uv\<close> (perspective correction is the identity here: every \<open>w\<close> is 1).\<close>

definition interp :: "(real \<times> real) \<times> (real \<times> real) \<times> (real \<times> real) \<Rightarrow>
                      ((real \<times> real) \<Rightarrow> real \<times> real) \<Rightarrow> real \<times> real \<Rightarrow> real \<times> real" where
  "interp t f p =
     (case t of (a, b, c) \<Rightarrow>
        let ar = edge_fn a b c; la = edge_fn b c p / ar; lb = edge_fn c a p / ar; lc = edge_fn a b p / ar
        in (la * fst (f a) + lb * fst (f b) + lc * fst (f c), la * snd (f a) + lb * snd (f b) + lc * snd (f c)))"

text \<open>The centre of window pixel \<open>(px, py)\<close> of a \<open>W \<times> H\<close> viewport in normalised device
  coordinates.\<close>

definition ndc_of :: "nat \<Rightarrow> nat \<Rightarrow> nat \<Rightarrow> nat \<Rightarrow> real \<times> real" where
  "ndc_of W H px py = (2 * (real px + 1/2) / real W - 1, 2 * (real py + 1/2) / real H - 1)"

text \<open>A texture: its size and the RGBA bytes of texel \<open>(i, j)\<close>, row \<open>j = 0\<close> first uploaded.\<close>

record texture =
  tex_w :: nat
  tex_h :: nat
  texel :: "nat \<Rightarrow> nat \<Rightarrow> byte list"

text \<open>\<open>regl.texture(ctx)\<close> and \<open>tex.subimage(ctx)\<close>: the canvas's pixels as the browser
  reads them back, unpremultiplied, top row first.\<close>

definition upload :: "coverage \<Rightarrow> ctx \<Rightarrow> texture" where
  "upload cover c =
     \<lparr>tex_w = canvas_width c, tex_h = canvas_height c, texel = (\<lambda>i j. pixel_bytes (pixel_of cover c i j))\<rparr>"

text \<open>\<open>texture2D\<close> with nearest filtering and clamp-to-edge wrapping.\<close>

definition tex_index :: "nat \<Rightarrow> real \<Rightarrow> nat" where
  "tex_index n u = min (n - 1) (nat \<lfloor>u * real n\<rfloor>)"

definition texel_vec :: "texture \<Rightarrow> nat \<Rightarrow> nat \<Rightarrow> vec4" where
  "texel_vec t i j =
     (let bs = texel t i j; ch = (\<lambda>k. real (unat (bs ! k)) / 255)
      in \<lparr>vr = ch 0, vg = ch 1, vb = ch 2, va = ch 3\<rparr>)"

definition texture2D :: "texture \<Rightarrow> real \<times> real \<Rightarrow> vec4" where
  "texture2D t uv = texel_vec t (tex_index (tex_w t) (fst uv)) (tex_index (tex_h t) (snd uv))"

text \<open>The fragment shader of lines 66-80.\<close>

definition frag :: "texture \<Rightarrow> texture \<Rightarrow> real \<times> real \<Rightarrow> vec4" where
  "frag tex mtex uv =
     (let t = texture2D tex uv in \<lparr>vr = vr t, vg = vg t, vb = vb t, va = vr (texture2D mtex uv)\<rparr>)"

record framebuffer =
  fb_w :: nat
  fb_h :: nat
  fb_color :: "nat \<Rightarrow> nat \<Rightarrow> vec4"
  fb_depth :: "nat \<Rightarrow> nat \<Rightarrow> real"

text \<open>The triangle of the quad that produces the fragment at a pixel centre, if any (a centre
  on the shared diagonal is produced once, by the first triangle, as the rasteriser's
  tie-breaking rule guarantees one fragment per pixel).\<close>

definition covering :: "(real \<times> real) \<Rightarrow> ((real \<times> real) \<times> (real \<times> real) \<times> (real \<times> real)) option" where
  "covering p = find (\<lambda>t. in_triangle t p) (triangles_of quad_positions)"

text \<open>One fragment of \<open>drawLine\<close>: interpolated \<open>uv\<close>, fragment colour, depth test \<open>less\<close>.\<close>

definition fragment_at :: "texture \<Rightarrow> texture \<Rightarrow> framebuffer \<Rightarrow> nat \<Rightarrow> nat \<Rightarrow> (vec4 \<times> real) option" where
  "fragment_at tex mtex fb px py =
     (if px < fb_w fb \<and> py < fb_h fb then
        (let p = ndc_of (fb_w fb) (fb_h fb) px py in
         case covering p of
           None \<Rightarrow> None
         | Some t \<Rightarrow> (let z = vert_depth p in
                       if z < fb_depth fb px py then Some (frag tex mtex (interp t vert_uv p), z) else None))
      else None)"

text \<open>\<open>drawLine({texture, maskTexture})\<close>: every fragment that passes the depth test is blended
  into the colour buffer and writes its depth.\<close>

definition drawLine :: "texture \<Rightarrow> texture \<Rightarrow> framebuffer \<Rightarrow> framebuffer" where
  "drawLine tex mtex fb =
     fb\<lparr>fb_color := (\<lambda>px py. case fragment_at tex mtex fb px py of
                                None \<Rightarrow> fb_color fb px py
                              | Some (s, z) \<Rightarrow> blend drawLine_blend s (fb_color fb px py)),
        fb_depth := (\<lambda>px py. case fragment_at tex mtex fb px py of
                                None \<Rightarrow> fb_depth fb px py
                              | Some (s, z) \<Rightarrow> z)\<rparr>"

text \<open>\<open>regl.clear({color: [r, g, b, a]})\<close> and \<open>regl.clear({depth: d})\<close>.\<close>

definition clear_color :: "vec4 \<Rightarrow> framebuffer \<Rightarrow> framebuffer" where
  "clear_color c fb = fb\<lparr>fb_color := (\<lambda>px py. c)\<rparr>"

definition clear_depth :: "real \<Rightarrow> framebuffer \<Rightarrow> framebuffer" where
  "clear_depth d fb = fb\<lparr>fb_depth := (\<lambda>px py. d)\<rparr>"

definition opaque_black :: vec4 where
  "opaque_black = \<lparr>vr = 0, vg = 0, vb = 0, va = 1\<rparr>"

text \<open>Derived notions: colours within \<open>[0, 1]\<close>, the source-over formula the blend
  state computes, well-formed textures, a texture of one colour, and the colour the fragment
  shader produces from texel \<open>(i, j)\<close> of the two textures.\<close>

definition layer_pixel :: "texture \<Rightarrow> texture \<Rightarrow> nat \<Rightarrow> nat \<Rightarrow> vec4" where
  "layer_pixel tex mtex i j =
     \<lparr>vr = vr (texel_vec tex i j), vg = vg (texel_vec tex i j), vb = vb (texel_vec tex i j), va = vr (texel_vec mtex i j)\<rparr>"

text \<open>The texel column (or row) of an \<open>n\<close>-texel texture that the quad samples at window
  column \<open>p\<close> of an \<open>N\<close>-pixel viewport: \<open>texture2D\<close> at the interpolated \<open>uv\<close>.\<close>

definition mirror_index :: "nat \<Rightarrow> nat \<Rightarrow> nat \<Rightarrow> nat" where
  "mirror_index n N p = tex_index n (1/2 * (1 - (2 * (real p + 1/2) / real N - 1)))"

definition vec_ok :: "vec4 \<Rightarrow> bool" where
  "vec_ok v \<longleftrightarrow> 0 \<le> vr v \<and> vr v \<le> 1 \<and> 0 \<le> vg v \<and> vg v \<le> 1 \<and> 0 \<le> vb v \<and> vb v \<le> 1 \<and> 0 \<le> va v \<and> va v \<le> 1"

definition over :: "vec4 \<Rightarrow> vec4 \<Rightarrow> vec4" where
  "over s d = \<lparr>vr = vr s * va s + vr d * (1 - va s), vg = vg s * va s + vg d * (1 - va s),
               vb = vb s * va s + vb d * (1 - va s), va = va s * va s + va d * (1 - va s)\<rparr>"

definition tex_ok :: "texture \<Rightarrow> bool" where
  "tex_ok t \<longleftrightarrow> (\<forall>i < tex_w t. \<forall>j < tex_h t. length (texel t i j) = 4)"

definition solid_tex :: "nat \<Rightarrow> nat \<Rightarrow> byte list \<Rightarrow> texture" where
  "solid_tex W H bs = \<lparr>tex_w = W, tex_h = H, texel = (\<lambda>i j. bs)\<rparr>"

subsection \<open>Rasterisation of the quad\<close>

lemma quad_triangles: "triangles_of quad_positions = [((-1,-1),(1,-1),(1,1)), ((-1,-1),(1,1),(-1,1))]"
  by (simp add: quad_positions_def)

lemma covering_quad:
  assumes "\<bar>x\<bar> \<le> 1" "\<bar>y\<bar> \<le> 1"
  shows "covering (x, y) = Some (if y \<le> x then ((-1,-1),(1,-1),(1,1)) else ((-1,-1),(1,1),(-1,1)))"
proof -
  have "in_triangle ((-1,-1),(1,-1),(1,1)) (x, y) \<longleftrightarrow> y \<le> x"
    using assms by (simp add: in_triangle_def edge_fn_def) arith
  moreover have "\<not> y \<le> x \<Longrightarrow> in_triangle ((-1,-1),(1,1),(-1,1)) (x, y)"
    using assms by (simp add: in_triangle_def edge_fn_def) arith
  ultimately show ?thesis by (simp add: covering_def quad_triangles)
qed

lemma bary_sum: "edge_fn b c p + edge_fn c a p + edge_fn a b p = edge_fn a b c"
  by (simp add: edge_fn_def algebra_simps)

lemma bary_fst: "edge_fn b c p * fst a + edge_fn c a p * fst b + edge_fn a b p * fst c = edge_fn a b c * fst p"
  by (simp add: edge_fn_def algebra_simps)

lemma bary_snd: "edge_fn b c p * snd a + edge_fn c a p * snd b + edge_fn a b p * snd c = edge_fn a b c * snd p"
  by (simp add: edge_fn_def algebra_simps)

lemma interp_affine:
  assumes "edge_fn a b c \<noteq> 0"
  shows "interp (a, b, c) (\<lambda>q. (k1 * fst q + k2 * snd q + k3, k4 * fst q + k5 * snd q + k6)) p =
           (k1 * fst p + k2 * snd p + k3, k4 * fst p + k5 * snd p + k6)"
proof -
  let ?A = "edge_fn a b c" and ?la = "edge_fn b c p" and ?lb = "edge_fn c a p" and ?lc = "edge_fn a b p"
  have e: "?la * (k * fst a + k' * snd a + k'') + ?lb * (k * fst b + k' * snd b + k'') + ?lc * (k * fst c + k' * snd c + k'')
          = k * (?la * fst a + ?lb * fst b + ?lc * fst c) + k' * (?la * snd a + ?lb * snd b + ?lc * snd c) + k'' * (?la + ?lb + ?lc)"
    for k k' k'' by (simp add: algebra_simps)
  have "?la / ?A * (k * fst a + k' * snd a + k'') + ?lb / ?A * (k * fst b + k' * snd b + k'') + ?lc / ?A * (k * fst c + k' * snd c + k'')
        = k * fst p + k' * snd p + k''" for k k' k''
  proof -
    have "?la / ?A * (k * fst a + k' * snd a + k'') + ?lb / ?A * (k * fst b + k' * snd b + k'') + ?lc / ?A * (k * fst c + k' * snd c + k'')
        = (?la * (k * fst a + k' * snd a + k'') + ?lb * (k * fst b + k' * snd b + k'') + ?lc * (k * fst c + k' * snd c + k'')) / ?A"
      by (simp add: add_divide_distrib)
    also have "\<dots> = (k * fst p + k' * snd p + k'') * ?A / ?A"
      unfolding e bary_fst bary_snd bary_sum by (simp add: algebra_simps)
    finally show ?thesis using assms by simp
  qed
  then show ?thesis by (simp add: interp_def Let_def)
qed

lemma interp_vert_uv: "edge_fn a b c \<noteq> 0 \<Longrightarrow> interp (a, b, c) vert_uv p = vert_uv p"
proof -
  assume nz: "edge_fn a b c \<noteq> 0"
  have v: "vert_uv = (\<lambda>q. ((-1/2) * fst q + 0 * snd q + 1/2, 0 * fst q + (-1/2) * snd q + 1/2))"
    by (rule ext) (simp add: vert_uv_def field_simps)
  show ?thesis unfolding v by (rule interp_affine [OF nz])
qed

lemma ndc_bound: "px < W \<Longrightarrow> \<bar>2 * (real px + 1/2) / real W - 1\<bar> \<le> 1"
proof -
  assume "px < W"
  then have "0 < real W" "2 * (real px + 1/2) \<le> 2 * real W" by simp_all
  then show ?thesis by (simp add: abs_le_iff divide_le_eq le_divide_eq)
qed

lemma tex_index_mirror:
  assumes "px < W"
  shows "tex_index W (1/2 * (1 - (2 * (real px + 1/2) / real W - 1))) = W - 1 - px"
proof -
  have W: "0 < real W" using assms by simp
  have "1/2 * (1 - (2 * (real px + 1/2) / real W - 1)) * real W = real (W - 1 - px) + 1/2"
    using assms W by (simp add: field_simps of_nat_diff)
  then have "\<lfloor>1/2 * (1 - (2 * (real px + 1/2) / real W - 1)) * real W\<rfloor> = int (W - 1 - px)"
    by (simp add: floor_eq_iff)
  then show ?thesis by (simp add: tex_index_def)
qed

lemma quad_edges: "edge_fn (-1,-1) (1,-1) (1,1) \<noteq> 0" "edge_fn (-1,-1) (1,1) (-1,1) \<noteq> 0"
  by (simp_all add: edge_fn_def)

lemma covering_ndc:
  assumes "px < W" "py < H"
  obtains a b c where "covering (ndc_of W H px py) = Some (a, b, c)" "edge_fn a b c \<noteq> 0"
proof -
  let ?x = "2 * (real px + 1/2) / real W - 1" and ?y = "2 * (real py + 1/2) / real H - 1"
  have "covering (?x, ?y) = Some (if ?y \<le> ?x then ((-1,-1),(1,-1),(1,1)) else ((-1,-1),(1,1),(-1,1)))"
    using covering_quad ndc_bound [OF assms(1)] ndc_bound [OF assms(2)] by blast
  then show ?thesis using that quad_edges by (simp add: ndc_of_def split: if_splits)
qed

lemma fragment_at_eq:
  assumes "px < fb_w fb" "py < fb_h fb"
  shows "fragment_at tex mtex fb px py =
    (if 1/2 < fb_depth fb px py then Some (frag tex mtex (vert_uv (ndc_of (fb_w fb) (fb_h fb) px py)), 1/2) else None)"
proof -
  obtain a b c where cov: "covering (ndc_of (fb_w fb) (fb_h fb) px py) = Some (a, b, c)" and nz: "edge_fn a b c \<noteq> 0"
    using covering_ndc [OF assms] by blast
  show ?thesis using assms by (simp add: fragment_at_def cov interp_vert_uv [OF nz] vert_depth_def Let_def)
qed

lemma uv_index:
  assumes "px < W" "py < H"
  shows "tex_index W (fst (vert_uv (ndc_of W H px py))) = W - 1 - px \<and>
         tex_index H (snd (vert_uv (ndc_of W H px py))) = H - 1 - py"
  using tex_index_mirror [OF assms(1)] tex_index_mirror [OF assms(2)]
  by (simp add: vert_uv_def ndc_of_def)

lemma frag_mirror:
  assumes "tex_w tex = W" "tex_h tex = H" "tex_w mtex = W" "tex_h mtex = H" "px < W" "py < H"
  shows "frag tex mtex (vert_uv (ndc_of W H px py)) = layer_pixel tex mtex (W - 1 - px) (H - 1 - py)"
  using assms uv_index [OF assms(5,6)] by (simp add: frag_def texture2D_def layer_pixel_def Let_def)

lemma drawLine_pixel:
  assumes "tex_w tex = fb_w fb" "tex_h tex = fb_h fb" "tex_w mtex = fb_w fb" "tex_h mtex = fb_h fb"
    and "px < fb_w fb" "py < fb_h fb"
  shows "fb_color (drawLine tex mtex fb) px py =
           (if 1/2 < fb_depth fb px py
            then blend drawLine_blend (layer_pixel tex mtex (fb_w fb - 1 - px) (fb_h fb - 1 - py)) (fb_color fb px py)
            else fb_color fb px py) \<and>
         fb_depth (drawLine tex mtex fb) px py = min (1/2) (fb_depth fb px py)"
  using assms by (simp add: drawLine_def fragment_at_eq frag_mirror)

lemma uv_mirror_index:
  "tex_index n (fst (vert_uv (ndc_of W H px py))) = mirror_index n W px \<and>
   tex_index m (snd (vert_uv (ndc_of W H px py))) = mirror_index m H py"
  by (simp add: vert_uv_def ndc_of_def mirror_index_def)

lemma mirror_index_same: "p < N \<Longrightarrow> mirror_index N N p = N - 1 - p"
  unfolding mirror_index_def by (rule tex_index_mirror)

lemma mirror_index_scaled:
  assumes "0 < k" "p < k * n"
  shows "mirror_index n (k * n) p = n - 1 - p div k"
proof -
  have n: "0 < n" using assms by (cases n) simp_all
  have q: "p div k < n" using assms by (simp add: div_less_iff_less_mult mult.commute)
  have "p = k * (p div k) + p mod k" by simp
  then have pk: "real p = real k * real (p div k) + real (p mod k)"
    by (metis of_nat_add of_nat_mult)
  have r: "real (p mod k) + 1/2 < real k" "0 \<le> real (p mod k)"
  proof -
    have "p mod k < k" using assms(1) by simp
    then have "real (p mod k) + 1 \<le> real k" by linarith
    then show "real (p mod k) + 1/2 < real k" by simp
  qed simp
  have e: "1/2 * (1 - (2 * (real p + 1/2) / real (k * n) - 1)) * real n =
           real n - real (p div k) - (real (p mod k) + 1/2) / real k"
    using assms(1) n unfolding pk by (simp add: field_simps)
  have lo: "0 < (real (p mod k) + 1/2) / real k" "(real (p mod k) + 1/2) / real k < 1"
    using r assms(1) by (simp_all add: divide_less_eq)
  have "\<lfloor>1/2 * (1 - (2 * (real p + 1/2) / real (k * n) - 1)) * real n\<rfloor> = int (n - 1 - p div k)"
    unfolding e using lo q by (simp add: floor_eq_iff of_nat_diff)
  then show ?thesis using q by (simp add: mirror_index_def tex_index_def)
qed

lemma mirror_index_lt: "0 < n \<Longrightarrow> mirror_index n N p < n"
  by (simp add: mirror_index_def tex_index_def)

lemma frag_sample:
  assumes "tex_w mtex = tex_w tex" "tex_h mtex = tex_h tex"
  shows "frag tex mtex (vert_uv (ndc_of W H px py)) =
           layer_pixel tex mtex (mirror_index (tex_w tex) W px) (mirror_index (tex_h tex) H py)"
  using assms uv_mirror_index [of "tex_w tex" W H px py "tex_h tex"]
  by (simp add: frag_def texture2D_def layer_pixel_def Let_def)

lemma drawLine_sample:
  assumes "tex_w mtex = tex_w tex" "tex_h mtex = tex_h tex" "px < fb_w fb" "py < fb_h fb"
  shows "fb_color (drawLine tex mtex fb) px py =
           (if 1/2 < fb_depth fb px py
            then blend drawLine_blend
                   (layer_pixel tex mtex (mirror_index (tex_w tex) (fb_w fb) px) (mirror_index (tex_h tex) (fb_h fb) py))
                   (fb_color fb px py)
            else fb_color fb px py) \<and>
         fb_depth (drawLine tex mtex fb) px py = min (1/2) (fb_depth fb px py)"
  using assms by (simp add: drawLine_def fragment_at_eq frag_sample)

lemma mix_unit:
  fixes x y a :: real
  assumes "0 \<le> x" "x \<le> 1" "0 \<le> y" "y \<le> 1" "0 \<le> a" "a \<le> 1"
  shows "0 \<le> x * a + y * (1 - a) \<and> x * a + y * (1 - a) \<le> 1"
proof -
  have "x * a \<le> a" using mult_left_le [of x a] assms by (simp add: mult.commute)
  moreover have "y * (1 - a) \<le> 1 - a" using mult_left_le [of y "1 - a"] assms by (simp add: mult.commute)
  ultimately show ?thesis using assms by simp
qed

lemma blend_drawLine_over:
  assumes "vec_ok s" "vec_ok d"
  shows "blend drawLine_blend s d = over s d"
proof -
  have "clamp 0 1 (x * va s + y * (1 - va s)) = x * va s + y * (1 - va s)"
    if "0 \<le> x" "x \<le> 1" "0 \<le> y" "y \<le> 1" for x y
    using mix_unit [OF that, of "va s"] assms(1) by (simp add: vec_ok_def)
  then show ?thesis using assms
    by (simp add: blend_def drawLine_blend_def regl_blend_factor_def over_def vec_ok_def Let_def)
qed

lemma texel_vec_ok: "length (texel t i j) = 4 \<Longrightarrow> vec_ok (texel_vec t i j)"
  by (simp add: texel_vec_def vec_ok_def byte_unsigned_bounds Let_def)

lemma drawLine_size [simp]: "fb_w (drawLine tex mtex fb) = fb_w fb" "fb_h (drawLine tex mtex fb) = fb_h fb"
  by (simp_all add: drawLine_def)

lemma drawLine_depth_le:
  assumes "px < fb_w fb" "py < fb_h fb"
  shows "fb_depth (drawLine tex mtex fb) px py \<le> 1/2"
  using assms by (simp add: drawLine_def fragment_at_eq)

lemma drawLine_no_fragment: "(\<And>px py. fragment_at tex mtex fb px py = None) \<Longrightarrow> drawLine tex mtex fb = fb"
  by (simp add: drawLine_def)

lemma upload_ok: "tex_ok (upload cover c)"
  by (simp add: tex_ok_def upload_def)

lemma layer_pixel_ok:
  assumes "tex_ok tex" "tex_ok mtex" "i < tex_w tex" "j < tex_h tex" "i < tex_w mtex" "j < tex_h mtex"
  shows "vec_ok (layer_pixel tex mtex i j)"
proof -
  have "vec_ok (texel_vec tex i j)" "vec_ok (texel_vec mtex i j)"
    using assms by (simp_all add: tex_ok_def texel_vec_ok)
  then show ?thesis by (simp add: layer_pixel_def vec_ok_def)
qed

lemma drawLine_cleared:
  assumes "tex_ok tex" "tex_ok mtex" "vec_ok bg"
    and "tex_w tex = fb_w fb" "tex_h tex = fb_h fb" "tex_w mtex = fb_w fb" "tex_h mtex = fb_h fb"
    and "px < fb_w fb" "py < fb_h fb"
  shows "fb_color (drawLine tex mtex (clear_depth 1 (clear_color bg fb))) px py =
           over (layer_pixel tex mtex (fb_w fb - 1 - px) (fb_h fb - 1 - py)) bg"
proof -
  have ok: "vec_ok (layer_pixel tex mtex (fb_w fb - Suc px) (fb_h fb - Suc py))"
    using assms by (intro layer_pixel_ok) auto
  show ?thesis
    using drawLine_pixel [of tex "clear_depth 1 (clear_color bg fb)" mtex px py] assms
    by (simp add: clear_depth_def clear_color_def blend_drawLine_over [OF ok assms(3)])
qed

lemma drawLine_cleared_sample:
  assumes "tex_ok tex" "tex_ok mtex" "vec_ok bg" "tex_w mtex = tex_w tex" "tex_h mtex = tex_h tex"
    and "0 < tex_w tex" "0 < tex_h tex" "px < fb_w fb" "py < fb_h fb"
  shows "fb_color (drawLine tex mtex (clear_depth 1 (clear_color bg fb))) px py =
           over (layer_pixel tex mtex (mirror_index (tex_w tex) (fb_w fb) px) (mirror_index (tex_h tex) (fb_h fb) py)) bg"
proof -
  have ok: "vec_ok (layer_pixel tex mtex (mirror_index (tex_w tex) (fb_w fb) px) (mirror_index (tex_h tex) (fb_h fb) py))"
    using assms mirror_index_lt by (intro layer_pixel_ok) auto
  show ?thesis
    using drawLine_sample [of mtex tex px "clear_depth 1 (clear_color bg fb)" py] assms
    by (simp add: clear_depth_def clear_color_def blend_drawLine_over [OF ok assms(3)])
qed

lemma solid_tex_ok: "length bs = 4 \<Longrightarrow> tex_ok (solid_tex W H bs)"
  by (simp add: tex_ok_def solid_tex_def)

lemma opaque_black_ok: "vec_ok opaque_black"
  by (simp add: vec_ok_def opaque_black_def)

lemma solid_tex_sel [simp]:
  "tex_w (solid_tex W H bs) = W" "tex_h (solid_tex W H bs) = H" "texel (solid_tex W H bs) i j = bs"
  by (simp_all add: solid_tex_def)

lemma opaque_black_sel [simp]: "vr opaque_black = 0" "vg opaque_black = 0" "vb opaque_black = 0" "va opaque_black = 1"
  by (simp_all add: opaque_black_def)

lemmas red_over_black_facts = solid_tex_ok opaque_black_ok over_def layer_pixel_def texel_vec_def

subsection \<open>What drawLine draws\<close>

text \<open>C13: On a framebuffer whose colour was cleared to a colour in [0, 1] and whose depth was cleared
  to 1, drawLine writes at every viewport pixel the source-over composite of the fragment colour
  (RGB of the colour texture, alpha from the red channel of the mask texture) on the background:
  rgb = src * a + dst * (1 - a), alpha = a * a + dst_alpha * (1 - a).\<close>

theorem drawLine_composite:
  assumes "tex_ok tex" "tex_ok mtex" "vec_ok bg"
    and "tex_w tex = fb_w fb" "tex_h tex = fb_h fb" "tex_w mtex = fb_w fb" "tex_h mtex = fb_h fb"
    and "px < fb_w fb" "py < fb_h fb"
  shows "fb_color (drawLine tex mtex (clear_depth 1 (clear_color bg fb))) px py =
           (let s = layer_pixel tex mtex (fb_w fb - 1 - px) (fb_h fb - 1 - py) in
            \<lparr>vr = vr s * va s + vr bg * (1 - va s), vg = vg s * va s + vg bg * (1 - va s),
             vb = vb s * va s + vb bg * (1 - va s), va = va s * va s + va bg * (1 - va s)\<rparr>)"
  using drawLine_cleared [OF assms] by (simp add: over_def Let_def)

theorem drawLine_composite_witness:
  "fb_color (drawLine (solid_tex 2 2 [255, 0, 0, 255]) (solid_tex 2 2 [128, 128, 128, 255])
     (clear_depth 1 (clear_color opaque_black \<lparr>fb_w = 2, fb_h = 2, fb_color = (\<lambda>i j. opaque_black), fb_depth = (\<lambda>i j. 0)\<rparr>))) 0 1
   = \<lparr>vr = 128 / 255, vg = 0, vb = 0, va = 1 - 128 / 255 + (128 / 255) * (128 / 255)\<rparr>"
  using drawLine_composite [of "solid_tex 2 2 [255, 0, 0, 255]" "solid_tex 2 2 [128, 128, 128, 255]" opaque_black
      "\<lparr>fb_w = 2, fb_h = 2, fb_color = (\<lambda>i j. opaque_black), fb_depth = (\<lambda>i j. 0)\<rparr>" 0 1]
  by (simp add: red_over_black_facts Let_def)

text \<open>C14: drawLine writes depth 0.5 at every pixel it draws and tests with less, so a second drawLine
  with no depth clear in between draws nothing at all: the clear of lines 197-199 is what lets each
  strand be composited.\<close>

theorem drawLine_again: "drawLine tex2 mtex2 (drawLine tex mtex fb) = drawLine tex mtex fb"
proof (rule drawLine_no_fragment)
  fix px py
  show "fragment_at tex2 mtex2 (drawLine tex mtex fb) px py = None"
  proof (cases "px < fb_w fb \<and> py < fb_h fb")
    case True
    then show ?thesis using drawLine_depth_le [of px fb py tex mtex]
      by (simp add: fragment_at_eq)
  next
    case False
    then show ?thesis by (auto simp: fragment_at_def)
  qed
qed

text \<open>C15: Blending the alpha channel with the same factors as RGB lowers the framebuffer's alpha:
  over an opaque background, a fragment of alpha a leaves alpha 1 - a + a * a, which is below 1
  whenever 0 < a < 1, so the composited canvas is translucent where strands are.\<close>

theorem drawLine_alpha_below_one:
  assumes "tex_ok tex" "tex_ok mtex" "vec_ok bg" "va bg = 1"
    and "tex_w tex = fb_w fb" "tex_h tex = fb_h fb" "tex_w mtex = fb_w fb" "tex_h mtex = fb_h fb"
    and "px < fb_w fb" "py < fb_h fb"
    and "0 < va (layer_pixel tex mtex (fb_w fb - 1 - px) (fb_h fb - 1 - py))"
    and "va (layer_pixel tex mtex (fb_w fb - 1 - px) (fb_h fb - 1 - py)) < 1"
  shows "va (fb_color (drawLine tex mtex (clear_depth 1 (clear_color bg fb))) px py) < 1"
proof -
  let ?a = "va (layer_pixel tex mtex (fb_w fb - 1 - px) (fb_h fb - 1 - py))"
  have "?a * ?a < ?a" using assms(11,12) by (simp add: mult_less_cancel_left1)
  then show ?thesis using drawLine_cleared [OF assms(1-3,5-10)] assms(4) by (simp add: over_def)
qed

theorem drawLine_alpha_below_one_witness:
  "va (fb_color (drawLine (solid_tex 2 2 [255, 0, 0, 255]) (solid_tex 2 2 [128, 128, 128, 255])
     (clear_depth 1 (clear_color opaque_black \<lparr>fb_w = 2, fb_h = 2, fb_color = (\<lambda>i j. opaque_black), fb_depth = (\<lambda>i j. 0)\<rparr>))) 0 1) < 1"
  using drawLine_alpha_below_one [of "solid_tex 2 2 [255, 0, 0, 255]" "solid_tex 2 2 [128, 128, 128, 255]" opaque_black
      "\<lparr>fb_w = 2, fb_h = 2, fb_color = (\<lambda>i j. opaque_black), fb_depth = (\<lambda>i j. 0)\<rparr>" 0 1]
  by (simp add: red_over_black_facts)

text \<open>C16: The six positions of the quad, taken as two triangles, cover the centre of every pixel of
  the viewport: drawLine produces a fragment at every pixel, whatever the viewport size.\<close>

theorem quad_covers_viewport:
  "px < W \<Longrightarrow> py < H \<Longrightarrow> covering (ndc_of W H px py) \<noteq> None"
  using covering_ndc [of px W py H] by fastforce

theorem quad_covers_viewport_witness: "covering (ndc_of 640 480 639 0) \<noteq> None"
  using quad_covers_viewport [of 639 640 0 480] by simp

text \<open>C28: With regl's pixel ratio k (a drawing buffer k times the canvas in each dimension, as
  for devicePixelRatio 2), the quad magnifies the layer by k with nearest sampling: window pixel
  (px, py) shows texel (n - 1 - px div k, m - 1 - py div k), each canvas pixel filling a k-by-k
  block of the mirrored image.\<close>

theorem drawLine_scaled:
  assumes "tex_ok tex" "tex_ok mtex" "vec_ok bg"
    and "tex_w tex = n" "tex_h tex = m" "tex_w mtex = n" "tex_h mtex = m"
    and "fb_w fb = k * n" "fb_h fb = k * m" "0 < k" "px < k * n" "py < k * m"
  shows "fb_color (drawLine tex mtex (clear_depth 1 (clear_color bg fb))) px py =
           over (layer_pixel tex mtex (n - 1 - px div k) (m - 1 - py div k)) bg"
proof -
  have "0 < n" "0 < m" using assms(11,12) by (auto intro: gr0I)
  then show ?thesis
    using drawLine_cleared_sample [of tex mtex bg px fb py] assms
      mirror_index_scaled [OF assms(10,11)] mirror_index_scaled [OF assms(10,12)]
    by simp
qed

theorem drawLine_scaled_witness:
  "fb_color (drawLine (solid_tex 1 1 [255, 0, 0, 255]) (solid_tex 1 1 [128, 128, 128, 255])
     (clear_depth 1 (clear_color opaque_black \<lparr>fb_w = 2, fb_h = 2, fb_color = (\<lambda>i j. opaque_black), fb_depth = (\<lambda>i j. 0)\<rparr>))) 1 1
   = over (layer_pixel (solid_tex 1 1 [255, 0, 0, 255]) (solid_tex 1 1 [128, 128, 128, 255]) 0 0) opaque_black"
  using drawLine_scaled [of "solid_tex 1 1 [255, 0, 0, 255]" "solid_tex 1 1 [128, 128, 128, 255]" opaque_black 1 1
      "\<lparr>fb_w = 2, fb_h = 2, fb_color = (\<lambda>i j. opaque_black), fb_depth = (\<lambda>i j. 0)\<rparr>" 2 1 1]
  by (simp add: solid_tex_ok opaque_black_ok)

end
