(* ===== verification/FrameDriver.thy ===== *)
theory FrameDriver
  imports CurveLayer Compositor
begin

text \<open>
  FrameDriver: the top level of script.js. regl's drawing buffer is created with the
  container's size times \<open>min(2, devicePixelRatio)\<close> (lines 1-4, \<open>createREGL_fb\<close>). The tables \<open>gradData\<close> and \<open>gradMaskData\<close> are
  built once (lines 45-50); the two canvases are created and given round joins and caps (lines
  111-120); three pairs of textures are created from them (lines 164-172); then every frame
  (lines 174-201) clears the colour buffer to opaque black and, for each strand \<open>i = 0, 1, 2\<close>,
  reads the clock, redraws both canvases with phase \<open>now / 1000 + i\<close>, uploads them into
  strand \<open>i\<close>'s textures, draws the quad and clears the depth buffer. The state is the record
  \<open>gl_app\<close>; the frame's inputs (window size, clock readings) are the record \<open>frame_env\<close>;
  the relation \<open>reach\<close> holds of the states of any run of setup, frames and buffer resizes.
\<close>

subsection \<open>Definitions\<close>

text \<open>\<open>const count = 3\<close> (line 164).\<close>

definition strand_count :: nat where
  "strand_count = 3"

record gl_app =
  a_ctx :: ctx
  a_maskCtx :: ctx
  a_textures :: "(texture \<times> texture) list"
  a_fb :: framebuffer

text \<open>What a frame reads from the browser: the window size and the value of
  \<open>performance.now()\<close> at strand \<open>i\<close> (the clock is read inside the loop, line 180).\<close>

record frame_env =
  fe_width :: nat
  fe_height :: nat
  fe_now :: "nat \<Rightarrow> real"

text \<open>The WebGL drawing buffer as the context creates it: transparent black, depth 1.\<close>

definition initial_fb :: "nat \<Rightarrow> nat \<Rightarrow> framebuffer" where
  "initial_fb W H =
     \<lparr>fb_w = W, fb_h = H, fb_color = (\<lambda>px py. \<lparr>vr = 0, vg = 0, vb = 0, va = 0\<rparr>), fb_depth = (\<lambda>px py. 1)\<rparr>"

text \<open>Lines 1-4: \<open>createREGL({container, pixelRatio: Math.min(2, window.devicePixelRatio)})\<close>.
  regl sizes its canvas to the container's size times the pixel ratio (\<open>canvas.width =
  pixelRatio * w\<close>, which the canvas truncates to an integer) and does so again whenever the
  container is resized; the drawing buffer is then a fresh one.\<close>

definition regl_pixel_ratio :: "real \<Rightarrow> real" where
  "regl_pixel_ratio dpr = min 2 dpr"

definition createREGL_fb :: "real \<Rightarrow> real \<Rightarrow> real \<Rightarrow> framebuffer" where
  "createREGL_fb dpr cw ch =
     initial_fb (nat \<lfloor>regl_pixel_ratio dpr * cw\<rfloor>) (nat \<lfloor>regl_pixel_ratio dpr * ch\<rfloor>)"

text \<open>\<open>tex.subimage(ctx)\<close>: the canvas's pixels replace the texels they cover.\<close>

definition subimage :: "coverage \<Rightarrow> ctx \<Rightarrow> texture \<Rightarrow> texture" where
  "subimage cover c t =
     t\<lparr>texel := (\<lambda>i j. if i < canvas_width c \<and> j < canvas_height c
                        then pixel_bytes (pixel_of cover c i j) else texel t i j)\<rparr>"

text \<open>Lines 164-172: \<open>count\<close> pairs of textures, each created from the two canvases.\<close>

definition make_textures :: "coverage \<Rightarrow> ctx \<Rightarrow> ctx \<Rightarrow> (texture \<times> texture) list" where
  "make_textures cover c m = map (\<lambda>i. (upload cover c, upload cover m)) [0..<strand_count]"

text \<open>Lines 111-120: both canvases (\<open>makeCtx(window.innerWidth, window.innerHeight)\<close>,
  pixel ratio 1) with round joins and caps, then the texture pairs of lines 164-172. The
  textures of lines 113-114 are never used and are not kept. The framebuffer \<open>fb0\<close> is the
  one regl draws into.\<close>

definition setup_gl :: "coverage \<Rightarrow> bool \<Rightarrow> nat \<Rightarrow> nat \<Rightarrow> framebuffer \<Rightarrow> js_error + gl_app" where
  "setup_gl cover avail W H fb0 =
     js_bind (makeCtx avail W H 1) (\<lambda>c.
     js_bind (makeCtx avail W H 1) (\<lambda>m.
       (let c' = set_lineCap ''round'' (set_lineJoin ''round'' c);
            m' = set_lineCap ''round'' (set_lineJoin ''round'' m)
        in Inr \<lparr>a_ctx = c', a_maskCtx = m',
                a_textures = make_textures cover c' m',
                a_fb = fb0\<rparr>)))"

text \<open>One iteration of the strand loop (lines 180-199).\<close>

definition strand_step :: "coverage \<Rightarrow> byte list \<Rightarrow> byte list \<Rightarrow> frame_env \<Rightarrow> gl_app \<Rightarrow> nat \<Rightarrow> gl_app" where
  "strand_step cover gd gmd env s i =
     (let time = fe_now env i / 1000; e = time + real i;
          base = fst (a_textures s ! i); mask = snd (a_textures s ! i);
          cy = real (fe_height env) / 2;
          c' = drawOnCtx (real (fe_width env)) (a_ctx s) gd e cy;
          m' = drawOnCtx (real (fe_width env)) (a_maskCtx s) gmd e cy;
          base' = subimage cover c' base; mask' = subimage cover m' mask
      in s\<lparr>a_ctx := c', a_maskCtx := m', a_textures := (a_textures s)[i := (base', mask')],
           a_fb := clear_depth 1 (drawLine base' mask' (a_fb s))\<rparr>)"

text \<open>The frame callback (lines 174-201).\<close>

definition frame :: "coverage \<Rightarrow> byte list \<Rightarrow> byte list \<Rightarrow> frame_env \<Rightarrow> gl_app \<Rightarrow> gl_app" where
  "frame cover gd gmd env s =
     foldl (strand_step cover gd gmd env) (s\<lparr>a_fb := clear_color opaque_black (a_fb s)\<rparr>) [0..<strand_count]"

text \<open>The whole script up to the first frame: both tables, then the setup.\<close>

definition boot :: "coverage \<Rightarrow> bool \<Rightarrow> nat \<Rightarrow> nat \<Rightarrow> framebuffer \<Rightarrow> js_error + byte list \<times> byte list \<times> gl_app" where
  "boot cover avail W H fb0 =
     js_bind (gradData avail cover) (\<lambda>gd.
     js_bind (gradMaskData avail cover) (\<lambda>gmd.
     js_bind (setup_gl cover avail W H fb0) (\<lambda>s. Inr (gd, gmd, s))))"

text \<open>The states the program reaches: the setup's in a window of positive size, with regl's buffer
  for some device pixel ratio and container size, then any number of frames, each with its own
  window size and clock readings, and any number of resizes of regl's buffer (the canvases of
  \<open>makeCtx\<close> keep their size).\<close>

inductive reach :: "coverage \<Rightarrow> byte list \<Rightarrow> byte list \<Rightarrow> gl_app \<Rightarrow> bool" for cover gd gmd where
  reach_init: "0 < W \<Longrightarrow> 0 < H \<Longrightarrow> setup_gl cover True W H (createREGL_fb dpr cw ch) = Inr s \<Longrightarrow>
                 reach cover gd gmd s"
| reach_frame: "reach cover gd gmd s \<Longrightarrow> reach cover gd gmd (frame cover gd gmd env s)"
| reach_resize: "reach cover gd gmd s \<Longrightarrow> reach cover gd gmd (s\<lparr>a_fb := createREGL_fb dpr cw ch\<rparr>)"

text \<open>Well-formed state: every texture holds 4-byte texels and has the size of the canvas it is
  uploaded from, and the two canvases have the same positive size.\<close>

definition textures_fit :: "gl_app \<Rightarrow> bool" where
  "textures_fit s \<longleftrightarrow>
     length (a_textures s) = strand_count \<and>
     (\<forall>tm \<in> set (a_textures s).
        tex_ok (fst tm) \<and> tex_ok (snd tm) \<and>
        tex_w (fst tm) = canvas_width (a_ctx s) \<and> tex_h (fst tm) = canvas_height (a_ctx s) \<and>
        tex_w (snd tm) = canvas_width (a_maskCtx s) \<and> tex_h (snd tm) = canvas_height (a_maskCtx s))"

definition canvases_agree :: "gl_app \<Rightarrow> bool" where
  "canvases_agree s \<longleftrightarrow>
     canvas_width (a_maskCtx s) = canvas_width (a_ctx s) \<and> canvas_height (a_maskCtx s) = canvas_height (a_ctx s) \<and>
     0 < canvas_width (a_ctx s) \<and> 0 < canvas_height (a_ctx s)"

definition depth_cleared :: "framebuffer \<Rightarrow> bool" where
  "depth_cleared fb \<longleftrightarrow> (\<forall>px < fb_w fb. \<forall>py < fb_h fb. fb_depth fb px py = 1)"

text \<open>The layer one strand adds at a pixel that samples texel \<open>(i, j)\<close>.\<close>

definition layer_at :: "nat \<Rightarrow> nat \<Rightarrow> vec4 \<Rightarrow> texture \<times> texture \<Rightarrow> vec4" where
  "layer_at i j acc tm = over (layer_pixel (fst tm) (snd tm) i j) acc"

text \<open>The abstract contract of spec 4.3-4.4: the strands' layers composited with source-over, in
  index order, on the background: \<open>over(L1, over(L0, bg))\<close>.\<close>

definition composite_strands :: "vec4 \<Rightarrow> vec4 list \<Rightarrow> vec4" where
  "composite_strands bg layers = foldl (\<lambda>acc l. over l acc) bg layers"

text \<open>The colour (or mask) canvas as the redraw for strand \<open>k\<close> of a frame leaves it: the
  redraws of strands \<open>0, ..., k\<close> with their phases, from the canvas the frame starts with.\<close>

definition strand_canvas :: "byte list \<Rightarrow> frame_env \<Rightarrow> ctx \<Rightarrow> nat \<Rightarrow> ctx" where
  "strand_canvas data env c k =
     foldl (\<lambda>c i. drawOnCtx (real (fe_width env)) c data (fe_now env i / 1000 + real i) (real (fe_height env) / 2))
       c [0..<Suc k]"

subsection \<open>Lemmas\<close>

lemma drawOnCtx_keeps [simp]:
  "canvas_width (drawOnCtx w c data e cy) = canvas_width c"
  "canvas_height (drawOnCtx w c data e cy) = canvas_height c"
  "lineJoin (drawOnCtx w c data e cy) = lineJoin c"
  "lineCap (drawOnCtx w c data e cy) = lineCap c"
  by (simp_all add: drawOnCtx_eq Let_def)

lemma subimage_sel [simp]:
  "tex_w (subimage cover c t) = tex_w t" "tex_h (subimage cover c t) = tex_h t"
  by (simp_all add: subimage_def)

lemma subimage_ok: "tex_ok t \<Longrightarrow> tex_ok (subimage cover c t)"
  by (simp add: tex_ok_def subimage_def)

lemma clear_sel [simp]:
  "fb_w (clear_depth d fb) = fb_w fb" "fb_h (clear_depth d fb) = fb_h fb"
  "fb_w (clear_color col fb) = fb_w fb" "fb_h (clear_color col fb) = fb_h fb"
  "fb_depth (clear_depth d fb) px py = d" "fb_color (clear_depth d fb) = fb_color fb"
  "fb_color (clear_color col fb) px py = col" "fb_depth (clear_color col fb) = fb_depth fb"
  by (simp_all add: clear_depth_def clear_color_def)

lemma strand_step_sel:
  "canvas_width (a_ctx (strand_step cover gd gmd env s i)) = canvas_width (a_ctx s)"
  "canvas_height (a_ctx (strand_step cover gd gmd env s i)) = canvas_height (a_ctx s)"
  "canvas_width (a_maskCtx (strand_step cover gd gmd env s i)) = canvas_width (a_maskCtx s)"
  "canvas_height (a_maskCtx (strand_step cover gd gmd env s i)) = canvas_height (a_maskCtx s)"
  "fb_w (a_fb (strand_step cover gd gmd env s i)) = fb_w (a_fb s)"
  "fb_h (a_fb (strand_step cover gd gmd env s i)) = fb_h (a_fb s)"
  "length (a_textures (strand_step cover gd gmd env s i)) = length (a_textures s)"
  "fb_depth (a_fb (strand_step cover gd gmd env s i)) px py = 1"
  by (simp_all add: strand_step_def Let_def)

lemma strand_step_textures:
  "i < length (a_textures s) \<Longrightarrow> a_textures (strand_step cover gd gmd env s i) =
     (a_textures s)[i := (subimage cover (drawOnCtx (real (fe_width env)) (a_ctx s) gd (fe_now env i / 1000 + real i) (real (fe_height env) / 2))
                            (fst (a_textures s ! i)),
                          subimage cover (drawOnCtx (real (fe_width env)) (a_maskCtx s) gmd (fe_now env i / 1000 + real i) (real (fe_height env) / 2))
                            (snd (a_textures s ! i)))]"
  by (simp add: strand_step_def Let_def)

lemma strand_step_fit:
  assumes "textures_fit s" "canvases_agree s" "i < strand_count"
  shows "textures_fit (strand_step cover gd gmd env s i) \<and> canvases_agree (strand_step cover gd gmd env s i)"
proof -
  have i: "i < length (a_textures s)" using assms by (simp add: textures_fit_def)
  have "a_textures s ! i \<in> set (a_textures s)" using i by simp
  then show ?thesis using assms(1,2)
    by (auto simp: textures_fit_def canvases_agree_def strand_step_sel strand_step_textures [OF i] subimage_ok
        dest!: set_update_subset_insert [THEN subsetD])
qed

lemma over_ok: "vec_ok s \<Longrightarrow> vec_ok d \<Longrightarrow> vec_ok (over s d)"
  using mix_unit by (simp add: vec_ok_def over_def)

lemma fit_nth:
  assumes "textures_fit s" "canvases_agree s" "i < strand_count"
  shows "tex_ok (fst (a_textures s ! i)) \<and> tex_ok (snd (a_textures s ! i)) \<and>
    tex_w (fst (a_textures s ! i)) = canvas_width (a_ctx s) \<and> tex_h (fst (a_textures s ! i)) = canvas_height (a_ctx s) \<and>
    tex_w (snd (a_textures s ! i)) = canvas_width (a_ctx s) \<and> tex_h (snd (a_textures s ! i)) = canvas_height (a_ctx s) \<and>
    0 < canvas_width (a_ctx s) \<and> 0 < canvas_height (a_ctx s)"
proof -
  have "a_textures s ! i \<in> set (a_textures s)" using assms by (simp add: textures_fit_def)
  then show ?thesis using assms by (auto simp: textures_fit_def canvases_agree_def)
qed

text \<open>The texel column and row strand layers are sampled at, for window pixel \<open>(px, py)\<close>.\<close>

lemma layer_ok:
  assumes "textures_fit s" "canvases_agree s" "i < strand_count" "vec_ok acc"
  shows "vec_ok (layer_at (mirror_index (canvas_width (a_ctx s)) W px) (mirror_index (canvas_height (a_ctx s)) H py)
                   acc (a_textures s ! i))"
proof -
  note t = fit_nth [OF assms(1-3)]
  have "vec_ok (layer_pixel (fst (a_textures s ! i)) (snd (a_textures s ! i))
          (mirror_index (canvas_width (a_ctx s)) W px) (mirror_index (canvas_height (a_ctx s)) H py))"
    using t mirror_index_lt by (intro layer_pixel_ok) auto
  then show ?thesis using assms(4) over_ok by (simp add: layer_at_def)
qed

lemma strand_step_pixel:
  assumes fit: "textures_fit s" "canvases_agree s" and i: "i < strand_count"
    and px: "px < fb_w (a_fb s)" "py < fb_h (a_fb s)"
    and d: "fb_depth (a_fb s) px py = 1" and ok: "vec_ok (fb_color (a_fb s) px py)"
  shows "fb_color (a_fb (strand_step cover gd gmd env s i)) px py =
           layer_at (mirror_index (canvas_width (a_ctx s)) (fb_w (a_fb s)) px)
                    (mirror_index (canvas_height (a_ctx s)) (fb_h (a_fb s)) py)
                    (fb_color (a_fb s) px py) (a_textures (strand_step cover gd gmd env s i) ! i)"
proof -
  let ?s' = "strand_step cover gd gmd env s i"
  have fit': "textures_fit ?s'" "canvases_agree ?s'" using strand_step_fit [OF fit i] by auto
  have cw: "canvas_width (a_ctx ?s') = canvas_width (a_ctx s)" "canvas_height (a_ctx ?s') = canvas_height (a_ctx s)"
    by (simp_all add: strand_step_sel)
  have li: "i < length (a_textures s)" using fit i by (simp add: textures_fit_def)
  note t' = fit_nth [OF fit' i, unfolded cw]
  let ?t = "a_textures ?s' ! i"
  let ?i = "mirror_index (canvas_width (a_ctx s)) (fb_w (a_fb s)) px"
    and ?j = "mirror_index (canvas_height (a_ctx s)) (fb_h (a_fb s)) py"
  have lok: "vec_ok (layer_pixel (fst ?t) (snd ?t) ?i ?j)"
    using t' mirror_index_lt by (intro layer_pixel_ok) auto
  have "fb_color (a_fb ?s') px py = fb_color (drawLine (fst ?t) (snd ?t) (a_fb s)) px py"
    by (simp add: strand_step_def Let_def li)
  also have "\<dots> = blend drawLine_blend (layer_pixel (fst ?t) (snd ?t) ?i ?j) (fb_color (a_fb s) px py)"
    using drawLine_sample [of "snd ?t" "fst ?t" px "a_fb s" py] t' px d by simp
  also have "\<dots> = layer_at ?i ?j (fb_color (a_fb s) px py) ?t"
    using blend_drawLine_over [OF lok ok] by (simp add: layer_at_def)
  finally show ?thesis .
qed

lemma take_Suc_update: "k < length xs \<Longrightarrow> take (Suc k) (xs[k := v]) = take k xs @ [v]"
  by (simp add: take_Suc_conv_app_nth)

lemma strand_steps_fit:
  assumes "textures_fit s" "canvases_agree s" "k \<le> strand_count"
  shows "textures_fit (foldl (strand_step cover gd gmd env) s [0..<k]) \<and>
         canvases_agree (foldl (strand_step cover gd gmd env) s [0..<k]) \<and>
         canvas_width (a_ctx (foldl (strand_step cover gd gmd env) s [0..<k])) = canvas_width (a_ctx s) \<and>
         canvas_height (a_ctx (foldl (strand_step cover gd gmd env) s [0..<k])) = canvas_height (a_ctx s) \<and>
         fb_w (a_fb (foldl (strand_step cover gd gmd env) s [0..<k])) = fb_w (a_fb s) \<and>
         fb_h (a_fb (foldl (strand_step cover gd gmd env) s [0..<k])) = fb_h (a_fb s)"
  using assms(3)
proof (induction k)
  case 0
  then show ?case using assms(1,2) by simp
next
  case (Suc k)
  then have "k < strand_count" by simp
  with Suc show ?case using strand_step_fit by (simp add: strand_step_sel)
qed

lemma strand_loop:
  assumes fit: "textures_fit s" "canvases_agree s"
    and px: "px < fb_w (a_fb s)" "py < fb_h (a_fb s)"
    and d: "fb_depth (a_fb s) px py = 1" and ok: "vec_ok (fb_color (a_fb s) px py)"
    and k: "k \<le> strand_count"
  shows "fb_depth (a_fb (foldl (strand_step cover gd gmd env) s [0..<k])) px py = 1 \<and>
         vec_ok (fb_color (a_fb (foldl (strand_step cover gd gmd env) s [0..<k])) px py) \<and>
         fb_color (a_fb (foldl (strand_step cover gd gmd env) s [0..<k])) px py =
           foldl (layer_at (mirror_index (canvas_width (a_ctx s)) (fb_w (a_fb s)) px)
                           (mirror_index (canvas_height (a_ctx s)) (fb_h (a_fb s)) py))
             (fb_color (a_fb s) px py) (take k (a_textures (foldl (strand_step cover gd gmd env) s [0..<k])))"
  using k
proof (induction k)
  case 0
  then show ?case using d ok by simp
next
  case (Suc k)
  let ?sk = "foldl (strand_step cover gd gmd env) s [0..<k]"
  let ?s' = "strand_step cover gd gmd env ?sk k"
  let ?L = "layer_at (mirror_index (canvas_width (a_ctx s)) (fb_w (a_fb s)) px)
                     (mirror_index (canvas_height (a_ctx s)) (fb_h (a_fb s)) py)"
  have kc: "k < strand_count" using Suc.prems by simp
  have F: "textures_fit ?sk" "canvases_agree ?sk" "canvas_width (a_ctx ?sk) = canvas_width (a_ctx s)"
    "canvas_height (a_ctx ?sk) = canvas_height (a_ctx s)" "fb_w (a_fb ?sk) = fb_w (a_fb s)" "fb_h (a_fb ?sk) = fb_h (a_fb s)"
    using strand_steps_fit [OF fit, of k cover gd gmd env] kc by auto
  have IH: "fb_depth (a_fb ?sk) px py = 1" "vec_ok (fb_color (a_fb ?sk) px py)"
    "fb_color (a_fb ?sk) px py = foldl ?L (fb_color (a_fb s) px py) (take k (a_textures ?sk))"
    using Suc kc by auto
  have lk: "k < length (a_textures ?sk)" using F(1) kc by (simp add: textures_fit_def)
  have fit': "textures_fit ?s'" "canvases_agree ?s'" using strand_step_fit [OF F(1,2) kc] by auto
  have cw': "canvas_width (a_ctx ?s') = canvas_width (a_ctx s)" "canvas_height (a_ctx ?s') = canvas_height (a_ctx s)"
    using F(3,4) by (simp_all add: strand_step_sel)
  have pix: "fb_color (a_fb ?s') px py = ?L (fb_color (a_fb ?sk) px py) (a_textures ?s' ! k)"
    using strand_step_pixel [OF F(1,2) kc] px IH(1,2) F(3-6) by simp
  have tk: "take (Suc k) (a_textures ?s') = take k (a_textures ?sk) @ [a_textures ?s' ! k]"
    using lk by (simp add: strand_step_def Let_def take_Suc_update)
  have s': "foldl (strand_step cover gd gmd env) s [0..<Suc k] = ?s'" by simp
  have "fb_color (a_fb ?s') px py = foldl ?L (fb_color (a_fb s) px py) (take (Suc k) (a_textures ?s'))"
    unfolding pix tk IH(3) by simp
  moreover have "vec_ok (fb_color (a_fb ?s') px py)"
    unfolding pix using layer_ok [OF fit' kc IH(2)] cw' by simp
  ultimately show ?case unfolding s' by (simp add: strand_step_sel)
qed

lemma frame_start:
  assumes "textures_fit s" "canvases_agree s"
  shows "textures_fit (s\<lparr>a_fb := fb\<rparr>) \<and> canvases_agree (s\<lparr>a_fb := fb\<rparr>)"
  using assms by (simp add: textures_fit_def canvases_agree_def)

lemma frame_split:
  "frame cover gd gmd env s =
     strand_step cover gd gmd env (foldl (strand_step cover gd gmd env) (s\<lparr>a_fb := clear_color opaque_black (a_fb s)\<rparr>) [0..<2]) 2"
proof -
  have "[0..<strand_count] = [0..<2] @ [2]" by (simp add: strand_count_def eval_nat_numeral)
  then show ?thesis by (simp add: frame_def del: upt_Suc)
qed

lemma frame_props:
  assumes fit: "textures_fit s" "canvases_agree s" and d: "depth_cleared (a_fb s)"
  shows "textures_fit (frame cover gd gmd env s) \<and> canvases_agree (frame cover gd gmd env s) \<and>
         canvas_width (a_ctx (frame cover gd gmd env s)) = canvas_width (a_ctx s) \<and>
         canvas_height (a_ctx (frame cover gd gmd env s)) = canvas_height (a_ctx s) \<and>
         fb_w (a_fb (frame cover gd gmd env s)) = fb_w (a_fb s) \<and> fb_h (a_fb (frame cover gd gmd env s)) = fb_h (a_fb s) \<and>
         depth_cleared (a_fb (frame cover gd gmd env s)) \<and>
         (\<forall>px < fb_w (a_fb s). \<forall>py < fb_h (a_fb s).
            fb_color (a_fb (frame cover gd gmd env s)) px py =
              foldl (layer_at (mirror_index (canvas_width (a_ctx s)) (fb_w (a_fb s)) px)
                              (mirror_index (canvas_height (a_ctx s)) (fb_h (a_fb s)) py))
                opaque_black (a_textures (frame cover gd gmd env s)))"
proof -
  let ?s0 = "s\<lparr>a_fb := clear_color opaque_black (a_fb s)\<rparr>"
  have f0: "textures_fit ?s0" "canvases_agree ?s0" using frame_start [OF fit] by auto
  have fr: "frame cover gd gmd env s = foldl (strand_step cover gd gmd env) ?s0 [0..<strand_count]"
    by (simp add: frame_def)
  have F: "textures_fit (frame cover gd gmd env s) \<and> canvases_agree (frame cover gd gmd env s) \<and>
     canvas_width (a_ctx (frame cover gd gmd env s)) = canvas_width (a_ctx s) \<and>
     canvas_height (a_ctx (frame cover gd gmd env s)) = canvas_height (a_ctx s) \<and>
     fb_w (a_fb (frame cover gd gmd env s)) = fb_w (a_fb s) \<and> fb_h (a_fb (frame cover gd gmd env s)) = fb_h (a_fb s)"
    using strand_steps_fit [OF f0, of strand_count cover gd gmd env] unfolding fr by simp
  then have len: "length (a_textures (frame cover gd gmd env s)) = strand_count" by (simp add: textures_fit_def)
  have col: "fb_color (a_fb (frame cover gd gmd env s)) px py =
              foldl (layer_at (mirror_index (canvas_width (a_ctx s)) (fb_w (a_fb s)) px)
                              (mirror_index (canvas_height (a_ctx s)) (fb_h (a_fb s)) py))
                opaque_black (a_textures (frame cover gd gmd env s))"
    if "px < fb_w (a_fb s)" "py < fb_h (a_fb s)" for px py
  proof -
    have "fb_depth (a_fb ?s0) px py = 1" using d that by (simp add: depth_cleared_def)
    moreover have "vec_ok (fb_color (a_fb ?s0) px py)" by (simp add: opaque_black_ok)
    ultimately show ?thesis
      using strand_loop [OF f0, of px py strand_count cover gd gmd env] that len unfolding fr by simp
  qed
  have "depth_cleared (a_fb (frame cover gd gmd env s))"
    by (simp add: depth_cleared_def frame_split strand_step_sel)
  then show ?thesis using F col by blast
qed

lemma upload_size [simp]: "tex_w (upload cover c) = canvas_width c" "tex_h (upload cover c) = canvas_height c"
  by (simp_all add: upload_def)

lemma setup_gl_props:
  assumes "setup_gl cover avail W H fb0 = Inr s"
  shows "textures_fit s \<and> canvas_width (a_ctx s) = W \<and> canvas_height (a_ctx s) = H \<and>
         canvas_width (a_maskCtx s) = W \<and> canvas_height (a_maskCtx s) = H \<and> a_fb s = fb0 \<and>
         strokeStyle (a_ctx s) = Solid black \<and> strokeStyle (a_maskCtx s) = Solid black \<and>
         lineJoin (a_ctx s) = JoinRound \<and> lineCap (a_ctx s) = CapRound \<and>
         lineJoin (a_maskCtx s) = JoinRound \<and> lineCap (a_maskCtx s) = CapRound"
  using assms
  by (auto simp: setup_gl_def makeCtx_def fresh_ctx_def set_lineJoin_def set_lineCap_def textures_fit_def
      strand_count_def upload_ok Let_def make_textures_def split: if_splits)

lemma strand_steps_ctx:
  "a_ctx (foldl (strand_step cover gd gmd env) s xs) =
     foldl (\<lambda>c i. drawOnCtx (real (fe_width env)) c gd (fe_now env i / 1000 + real i) (real (fe_height env) / 2)) (a_ctx s) xs \<and>
   a_maskCtx (foldl (strand_step cover gd gmd env) s xs) =
     foldl (\<lambda>c i. drawOnCtx (real (fe_width env)) c gmd (fe_now env i / 1000 + real i) (real (fe_height env) / 2)) (a_maskCtx s) xs"
  by (induction xs arbitrary: s rule: rev_induct) (simp_all add: strand_step_def Let_def)

lemma frame_ctx:
  "a_ctx (frame cover gd gmd env s) =
     foldl (\<lambda>c i. drawOnCtx (real (fe_width env)) c gd (fe_now env i / 1000 + real i) (real (fe_height env) / 2)) (a_ctx s) [0..<strand_count] \<and>
   a_maskCtx (frame cover gd gmd env s) =
     foldl (\<lambda>c i. drawOnCtx (real (fe_width env)) c gmd (fe_now env i / 1000 + real i) (real (fe_height env) / 2)) (a_maskCtx s) [0..<strand_count]"
  using strand_steps_ctx [of cover gd gmd env "s\<lparr>a_fb := clear_color opaque_black (a_fb s)\<rparr>" "[0..<strand_count]"]
  by (simp add: frame_def)

lemma drawOnCtxs_keep:
  "lineJoin (foldl (\<lambda>c i. drawOnCtx w c d (e i) y) c xs) = lineJoin c \<and>
   lineCap (foldl (\<lambda>c i. drawOnCtx w c d (e i) y) c xs) = lineCap c"
  by (induction xs arbitrary: c) simp_all

lemma drawOnCtxs_style:
  assumes "length d = 100" "xs \<noteq> []"
  shows "strokeStyle (foldl (\<lambda>c i. drawOnCtx w c d (e i) y) c xs) = Solid (row_color d 1)"
  using assms(2)
proof (induction xs rule: rev_induct)
  case Nil
  then show ?case by simp
next
  case (snoc x xs)
  show ?case by (simp add: drawOnCtx_eq Let_def last_style_100 [OF assms(1)])
qed

lemma drawOnCtxs_size [simp]:
  "canvas_width (foldl (\<lambda>c i. drawOnCtx w c d (e i) y) c xs) = canvas_width c"
  "canvas_height (foldl (\<lambda>c i. drawOnCtx w c d (e i) y) c xs) = canvas_height c"
  by (induction xs arbitrary: c) simp_all

lemma strand_canvas_size [simp]:
  "canvas_width (strand_canvas data env c k) = canvas_width c"
  "canvas_height (strand_canvas data env c k) = canvas_height c"
  by (simp_all add: strand_canvas_def)

lemma strand_steps_textures:
  assumes "length (a_textures s) = strand_count" "n \<le> strand_count" "k < strand_count"
  shows "a_textures (foldl (strand_step cover gd gmd env) s [0..<n]) ! k =
     (if k < n then (subimage cover (strand_canvas gd env (a_ctx s) k) (fst (a_textures s ! k)),
                     subimage cover (strand_canvas gmd env (a_maskCtx s) k) (snd (a_textures s ! k)))
      else a_textures s ! k)"
  using assms(2,3)
proof (induction n arbitrary: k)
  case 0
  then show ?case by simp
next
  case (Suc n)
  let ?sn = "foldl (strand_step cover gd gmd env) s [0..<n]"
  have len: "length (a_textures ?sn) = strand_count"
    using assms(1) by (induction n) (simp_all add: strand_step_sel)
  have n: "n < length (a_textures ?sn)" using Suc.prems len by simp
  have tn: "a_textures ?sn ! n = a_textures s ! n" using Suc.IH [of n] Suc.prems by simp
  note upd = strand_step_textures [OF n, of cover gd gmd env]
  show ?case
  proof (cases "k = n")
    case True
    then show ?thesis
      using upd n strand_steps_ctx [of cover gd gmd env s "[0..<n]"] tn by (simp add: strand_canvas_def)
  next
    case False
    then show ?thesis using upd Suc.IH [of k] Suc.prems by simp
  qed
qed

lemma layer_pixel_subimage:
  assumes "tex_w t = canvas_width c" "tex_h t = canvas_height c" "tex_w t' = canvas_width m" "tex_h t' = canvas_height m"
    and "i < canvas_width c" "j < canvas_height c" "i < canvas_width m" "j < canvas_height m"
  shows "layer_pixel (subimage cover c t) (subimage cover m t') i j = layer_pixel (upload cover c) (upload cover m) i j"
  using assms by (simp add: layer_pixel_def texel_vec_def subimage_def upload_def)

lemma frame_pixels:
  assumes fit: "textures_fit s" "canvases_agree s" and d: "depth_cleared (a_fb s)"
    and px: "px < fb_w (a_fb s)" "py < fb_h (a_fb s)"
  shows "fb_color (a_fb (frame cover gd gmd env s)) px py =
           composite_strands opaque_black
             (map (\<lambda>k. layer_pixel (upload cover (strand_canvas gd env (a_ctx s) k))
                                   (upload cover (strand_canvas gmd env (a_maskCtx s) k))
                                   (mirror_index (canvas_width (a_ctx s)) (fb_w (a_fb s)) px)
                                   (mirror_index (canvas_height (a_ctx s)) (fb_h (a_fb s)) py))
                  [0..<strand_count])"
proof -
  let ?I = "mirror_index (canvas_width (a_ctx s)) (fb_w (a_fb s)) px"
    and ?J = "mirror_index (canvas_height (a_ctx s)) (fb_h (a_fb s)) py"
  let ?s0 = "s\<lparr>a_fb := clear_color opaque_black (a_fb s)\<rparr>"
  let ?T = "a_textures (frame cover gd gmd env s)"
  have len: "length (a_textures s) = strand_count" using fit by (simp add: textures_fit_def)
  have F: "length ?T = strand_count"
    using frame_props [OF fit d, of cover gd gmd env] by (simp add: textures_fit_def)
  have T: "?T = map (\<lambda>k. ?T ! k) [0..<strand_count]"
    using map_nth [of ?T] F by simp
  have Tk: "?T ! k = (subimage cover (strand_canvas gd env (a_ctx s) k) (fst (a_textures s ! k)),
                      subimage cover (strand_canvas gmd env (a_maskCtx s) k) (snd (a_textures s ! k)))"
    if "k < strand_count" for k
    using strand_steps_textures [of ?s0 strand_count k cover gd gmd env] len that by (simp add: frame_def)
  have L: "layer_at ?I ?J acc (?T ! k) =
             over (layer_pixel (upload cover (strand_canvas gd env (a_ctx s) k))
                               (upload cover (strand_canvas gmd env (a_maskCtx s) k)) ?I ?J) acc"
    if "k < strand_count" for k acc
  proof -
    note t = fit_nth [OF fit that]
    have "?I < canvas_width (a_ctx s)" "?J < canvas_height (a_ctx s)" using t mirror_index_lt by auto
    then show ?thesis using t fit(2) Tk [OF that]
      by (simp add: layer_at_def canvases_agree_def layer_pixel_subimage)
  qed
  have "fb_color (a_fb (frame cover gd gmd env s)) px py = foldl (layer_at ?I ?J) opaque_black ?T"
    using frame_props [OF fit d, of cover gd gmd env] px by simp
  also have "\<dots> = foldl (layer_at ?I ?J) opaque_black (map (\<lambda>k. ?T ! k) [0..<strand_count])"
    using T by simp
  also have "\<dots> = composite_strands opaque_black
             (map (\<lambda>k. layer_pixel (upload cover (strand_canvas gd env (a_ctx s) k))
                                   (upload cover (strand_canvas gmd env (a_maskCtx s) k)) ?I ?J) [0..<strand_count])"
    unfolding composite_strands_def foldl_map by (rule foldl_cong) (simp_all add: L)
  finally show ?thesis .
qed

lemma initial_fb_sel [simp]:
  "fb_w (initial_fb W H) = W" "fb_h (initial_fb W H) = H" "fb_depth (initial_fb W H) px py = 1"
  by (simp_all add: initial_fb_def)

lemma createREGL_fb_sel [simp]:
  "fb_w (createREGL_fb dpr cw ch) = nat \<lfloor>regl_pixel_ratio dpr * cw\<rfloor>"
  "fb_h (createREGL_fb dpr cw ch) = nat \<lfloor>regl_pixel_ratio dpr * ch\<rfloor>"
  "fb_depth (createREGL_fb dpr cw ch) px py = 1"
  by (simp_all add: createREGL_fb_def initial_fb_def)

lemma reach_inv:
  "reach cover gd gmd s \<Longrightarrow> textures_fit s \<and> canvases_agree s \<and> depth_cleared (a_fb s)"
proof (induction rule: reach.induct)
  case (reach_init W H dpr cw ch s)
  then show ?case using setup_gl_props [OF reach_init(3)]
    by (simp add: canvases_agree_def depth_cleared_def)
next
  case (reach_frame s env)
  then show ?case using frame_props [of s] by simp
next
  case (reach_resize s dpr cw ch)
  then show ?case using frame_start [of s] by (simp add: depth_cleared_def)
qed

lemma drawOnCtx_scale [simp]: "ctm_scale (drawOnCtx w c data e cy) = ctm_scale c"
  by (simp add: drawOnCtx_eq Let_def)

lemma drawOnCtxs_start:
  assumes "xs \<noteq> []"
  shows "ctm_scale (foldl (\<lambda>c i. drawOnCtx w c d (e i) y) c xs) = ctm_scale c \<and>
         canvas_width (foldl (\<lambda>c i. drawOnCtx w c d (e i) y) c xs) = canvas_width c \<and>
         map sp_start (cur_path (foldl (\<lambda>c i. drawOnCtx w c d (e i) y) c xs)) = [(ctm_scale c * (w / 2), ctm_scale c * y)]"
  using assms
proof (induction xs rule: rev_induct)
  case Nil
  then show ?case by simp
next
  case (snoc x xs)
  have "ctm_scale (foldl (\<lambda>c i. drawOnCtx w c d (e i) y) c xs) = ctm_scale c \<and>
        canvas_width (foldl (\<lambda>c i. drawOnCtx w c d (e i) y) c xs) = canvas_width c"
    by (induction xs arbitrary: c) simp_all
  then show ?case by (simp add: drawOnCtx_eq Let_def rosette_path_def)
qed

lemma reach_scale: "reach cover gd gmd s \<Longrightarrow> ctm_scale (a_ctx s) = 1"
proof (induction rule: reach.induct)
  case (reach_init W H dpr cw ch s)
  then show ?case by (auto simp: setup_gl_def makeCtx_def fresh_ctx_def Let_def set_lineJoin_def set_lineCap_def)
next
  case (reach_frame s env)
  have ne: "[0..<strand_count] \<noteq> []" by (simp add: strand_count_def)
  show ?case using frame_ctx [of cover gd gmd env s] drawOnCtxs_start [OF ne] reach_frame by simp
next
  case (reach_resize s dpr cw ch)
  then show ?case by simp
qed

lemma setup_gl_sel [simp]:
  "a_fb (projr (setup_gl cover True W H fb0)) = fb0"
  "canvas_width (a_ctx (projr (setup_gl cover True W H fb0))) = W"
  "canvas_height (a_ctx (projr (setup_gl cover True W H fb0))) = H"
  by (simp_all add: setup_gl_def makeCtx_def Let_def fresh_ctx_def set_lineJoin_def set_lineCap_def)

lemma reach_setup_1x1:
  "reach no_cover gd gmd (projr (setup_gl no_cover True 1 1 (createREGL_fb 1 1 1)))"
  by (rule reach_init [where W = 1 and H = 1 and dpr = 1 and cw = 1 and ch = 1])
     (simp_all add: setup_gl_def makeCtx_def Let_def)

text \<open>C17: The frame refines the compositing contract of the spec: in every reachable state, for
  any device pixel ratio and after any resize of regl's buffer, a frame leaves at each pixel of
  the buffer exactly composite_strands, the source-over composite in strand index order 0, 1, 2 on
  opaque black (over(L2, over(L1, over(L0, black)))), where layer k is read from the colour and
  mask canvases as strand k's redraw left them (drawOnCtx with phase now_k/1000 + k, uploaded by
  subimage), at the texel the quad samples there (mirror_index).\<close>

theorem frame_composites_in_order:
  assumes "reach cover gd gmd s" "px < fb_w (a_fb s)" "py < fb_h (a_fb s)"
  shows "fb_color (a_fb (frame cover gd gmd env s)) px py =
           composite_strands opaque_black
             (map (\<lambda>k. layer_pixel (upload cover (strand_canvas gd env (a_ctx s) k))
                                   (upload cover (strand_canvas gmd env (a_maskCtx s) k))
                                   (mirror_index (canvas_width (a_ctx s)) (fb_w (a_fb s)) px)
                                   (mirror_index (canvas_height (a_ctx s)) (fb_h (a_fb s)) py))
                  [0..<strand_count])"
  using reach_inv [OF assms(1)] frame_pixels assms(2,3) by blast

theorem frame_composites_in_order_witness:
  "fb_color (a_fb (frame no_cover [] [] \<lparr>fe_width = 1, fe_height = 1, fe_now = (\<lambda>i. 0)\<rparr>
      (projr (setup_gl no_cover True 1 1 (createREGL_fb 1 1 1))))) 0 0 =
   composite_strands opaque_black
     (map (\<lambda>k. layer_pixel
                 (upload no_cover (strand_canvas [] \<lparr>fe_width = 1, fe_height = 1, fe_now = (\<lambda>i. 0)\<rparr>
                    (a_ctx (projr (setup_gl no_cover True 1 1 (createREGL_fb 1 1 1)))) k))
                 (upload no_cover (strand_canvas [] \<lparr>fe_width = 1, fe_height = 1, fe_now = (\<lambda>i. 0)\<rparr>
                    (a_maskCtx (projr (setup_gl no_cover True 1 1 (createREGL_fb 1 1 1)))) k))
                 (mirror_index 1 1 0) (mirror_index 1 1 0))
       [0..<strand_count])"
  using frame_composites_in_order [OF reach_setup_1x1 [of "[]" "[]"], of 0 0 "\<lparr>fe_width = 1, fe_height = 1, fe_now = (\<lambda>i. 0)\<rparr>"]
  by (simp add: regl_pixel_ratio_def)

text \<open>C18: The depth buffer is 1 at every viewport pixel in every reachable state, so at the start
  of every frame (the frame clears only colour) and, by the clear after each strand, before every
  strand: no strand is ever depth-discarded.\<close>

theorem reach_depth_cleared:
  "reach cover gd gmd s \<Longrightarrow> \<forall>px < fb_w (a_fb s). \<forall>py < fb_h (a_fb s). fb_depth (a_fb s) px py = 1"
  using reach_inv [of cover gd gmd s] by (simp add: depth_cleared_def)

theorem reach_depth_cleared_witness:
  "fb_depth (a_fb (projr (setup_gl no_cover True 1 1 (createREGL_fb 1 1 1)))) 0 0 = 1"
  using reach_depth_cleared [OF reach_setup_1x1 [of "[]" "[]"]] by simp

text \<open>C19: Both canvases keep round line joins and caps (lines 116-120) in every reachable state:
  drawOnCtx never changes them.\<close>

theorem reach_round_joins:
  "reach cover gd gmd s \<Longrightarrow>
     lineJoin (a_ctx s) = JoinRound \<and> lineCap (a_ctx s) = CapRound \<and>
     lineJoin (a_maskCtx s) = JoinRound \<and> lineCap (a_maskCtx s) = CapRound"
proof (induction rule: reach.induct)
  case (reach_init W H dpr cw ch s)
  then show ?case using setup_gl_props [OF reach_init(3)] by simp
next
  case (reach_resize s dpr cw ch)
  then show ?case by simp
next
  case (reach_frame s env)
  then show ?case
    using frame_ctx [of cover gd gmd env s]
      drawOnCtxs_keep [of "real (fe_width env)" gd "\<lambda>i. fe_now env i / 1000 + real i" "real (fe_height env) / 2"]
      drawOnCtxs_keep [of "real (fe_width env)" gmd "\<lambda>i. fe_now env i / 1000 + real i" "real (fe_height env) / 2"]
    by simp
qed

theorem reach_round_joins_witness:
  "lineJoin (a_ctx (projr (setup_gl no_cover True 1 1 (createREGL_fb 1 1 1)))) = JoinRound"
  using reach_round_joins [OF reach_setup_1x1 [of "[]" "[]"]] by simp

text \<open>C20: With 100-byte tables, in every reachable state the stroke style of each canvas is either
  the initial black or the colour of row 1 of its table; after any frame it is row 1's colour, which
  the next call's widest pass (whose own assignment is ignored) then uses.\<close>

theorem reach_stroke_style:
  assumes "reach cover gd gmd s" "length gd = 100" "length gmd = 100"
  shows "(strokeStyle (a_ctx s) = Solid black \<or> strokeStyle (a_ctx s) = Solid (row_color gd 1)) \<and>
         (strokeStyle (a_maskCtx s) = Solid black \<or> strokeStyle (a_maskCtx s) = Solid (row_color gmd 1))"
  using assms(1)
proof (induction rule: reach.induct)
  case (reach_init W H dpr cw ch s)
  then show ?case using setup_gl_props [OF reach_init(3)] by simp
next
  case (reach_resize s dpr cw ch)
  then show ?case by simp
next
  case (reach_frame s env)
  have ne: "[0..<strand_count] \<noteq> []" by (simp add: strand_count_def)
  show ?case using frame_ctx [of cover gd gmd env s] drawOnCtxs_style [OF assms(2) ne] drawOnCtxs_style [OF assms(3) ne]
    by simp
qed

theorem reach_stroke_style_witness:
  "(strokeStyle (a_ctx (frame no_cover (column_bytes 25 ((column_gradient 25)\<lparr>g_stops := color_stops\<rparr>))
       (column_bytes 25 ((column_gradient 25)\<lparr>g_stops := mask_stops\<rparr>)) \<lparr>fe_width = 1, fe_height = 1, fe_now = (\<lambda>i. 0)\<rparr>
       (projr (setup_gl no_cover True 1 1 (createREGL_fb 1 1 1))))) = Solid black \<or>
    strokeStyle (a_ctx (frame no_cover (column_bytes 25 ((column_gradient 25)\<lparr>g_stops := color_stops\<rparr>))
       (column_bytes 25 ((column_gradient 25)\<lparr>g_stops := mask_stops\<rparr>)) \<lparr>fe_width = 1, fe_height = 1, fe_now = (\<lambda>i. 0)\<rparr>
       (projr (setup_gl no_cover True 1 1 (createREGL_fb 1 1 1))))) =
      Solid (row_color (column_bytes 25 ((column_gradient 25)\<lparr>g_stops := color_stops\<rparr>)) 1))"
  using reach_stroke_style [OF reach_frame [OF reach_setup_1x1
      [of "column_bytes 25 ((column_gradient 25)\<lparr>g_stops := color_stops\<rparr>)"
          "column_bytes 25 ((column_gradient 25)\<lparr>g_stops := mask_stops\<rparr>)"],
      of "\<lparr>fe_width = 1, fe_height = 1, fe_now = (\<lambda>i. 0)\<rparr>"]]
  by simp

text \<open>C21: Without a 2D context the script stops at its first table with SurfaceUnavailable, and the
  canvas setup fails the same way.\<close>

theorem boot_surface_unavailable:
  "boot cover False W H fb0 = Inl SurfaceUnavailable \<and> setup_gl cover False W H fb0 = Inl SurfaceUnavailable"
  by (simp add: boot_def setup_gl_def gradData_def getGradientData_eq makeCtx_def)

text \<open>C22: A frame redraws each canvas three times, for strands 0, 1, 2 in that order, with phase
  now_i / 1000 + i, where now_i is the clock read at strand i, and the centre (innerWidth / 2,
  innerHeight / 2) of the current window.\<close>

theorem frame_phases:
  "a_ctx (frame cover gd gmd env s) =
     (let w = real (fe_width env); cy = real (fe_height env) / 2 in
      drawOnCtx w (drawOnCtx w (drawOnCtx w (a_ctx s) gd (fe_now env 0 / 1000) cy) gd (fe_now env 1 / 1000 + 1) cy)
        gd (fe_now env 2 / 1000 + 2) cy) \<and>
   a_maskCtx (frame cover gd gmd env s) =
     (let w = real (fe_width env); cy = real (fe_height env) / 2 in
      drawOnCtx w (drawOnCtx w (drawOnCtx w (a_maskCtx s) gmd (fe_now env 0 / 1000) cy) gmd (fe_now env 1 / 1000 + 1) cy)
        gmd (fe_now env 2 / 1000 + 2) cy)"
  using frame_ctx [of cover gd gmd env s] by (simp add: strand_count_def eval_nat_numeral Let_def)

text \<open>C29: Every reachable state is well formed: there are exactly count texture pairs, every
  texture holds 4-byte RGBA texels and has the size of the canvases, and the two canvases have
  the same positive size.\<close>

theorem reach_well_formed:
  assumes "reach cover gd gmd s"
  shows "length (a_textures s) = strand_count \<and>
         (\<forall>tm \<in> set (a_textures s). tex_ok (fst tm) \<and> tex_ok (snd tm) \<and>
            tex_w (fst tm) = canvas_width (a_ctx s) \<and> tex_h (fst tm) = canvas_height (a_ctx s) \<and>
            tex_w (snd tm) = canvas_width (a_ctx s) \<and> tex_h (snd tm) = canvas_height (a_ctx s)) \<and>
         canvas_width (a_maskCtx s) = canvas_width (a_ctx s) \<and> canvas_height (a_maskCtx s) = canvas_height (a_ctx s) \<and>
         0 < canvas_width (a_ctx s) \<and> 0 < canvas_height (a_ctx s)"
  using reach_inv [OF assms] by (auto simp: textures_fit_def canvases_agree_def)

theorem reach_well_formed_witness:
  "length (a_textures (projr (setup_gl no_cover True 1 1 (createREGL_fb 1 1 1)))) = strand_count \<and> canvas_width (a_maskCtx (projr (setup_gl no_cover True 1 1 (createREGL_fb 1 1 1)))) = 1"
  using reach_well_formed [OF reach_setup_1x1 [of "[]" "[]"]] by simp

text \<open>C30: The rosette is centred on the current window, not on the canvas: in every reachable
  state a frame starts the path at (innerWidth / 2, innerHeight / 2) of the window it reads, while
  the canvas keeps the size it was created with, so after the window is resized the centre is no
  longer half the surface's width (spec 4.2 step 2).\<close>

theorem frame_centre_follows_window:
  assumes "reach cover gd gmd s"
  shows "canvas_width (a_ctx (frame cover gd gmd env s)) = canvas_width (a_ctx s) \<and>
         map sp_start (cur_path (a_ctx (frame cover gd gmd env s))) = [(real (fe_width env) / 2, real (fe_height env) / 2)]"
proof -
  have ne: "[0..<strand_count] \<noteq> []" by (simp add: strand_count_def)
  show ?thesis
    using frame_ctx [of cover gd gmd env s] reach_scale [OF assms]
      drawOnCtxs_start [OF ne, of "real (fe_width env)" gd "\<lambda>i. fe_now env i / 1000 + real i" "real (fe_height env) / 2" "a_ctx s"]
    by simp
qed

theorem frame_centre_follows_window_witness:
  "canvas_width (a_ctx (frame no_cover [] [] \<lparr>fe_width = 4, fe_height = 2, fe_now = (\<lambda>i. 0)\<rparr> (projr (setup_gl no_cover True 1 1 (createREGL_fb 1 1 1))))) = 1 \<and>
   map sp_start (cur_path (a_ctx (frame no_cover [] [] \<lparr>fe_width = 4, fe_height = 2, fe_now = (\<lambda>i. 0)\<rparr> (projr (setup_gl no_cover True 1 1 (createREGL_fb 1 1 1))))))
     = [(2, 1)]"
  using frame_centre_follows_window [OF reach_setup_1x1 [of "[]" "[]"], of "\<lparr>fe_width = 4, fe_height = 2, fe_now = (\<lambda>i. 0)\<rparr>"]
  by simp

end
