(* ===== verification/EventLoop.thy ===== *)
theory EventLoop
  imports FrameDriver
begin

text \<open>
  EventLoop: the browser's side of the program's run. After the setup, the page receives a
  sequence of events: an animation frame, on which regl calls the callback registered with
  \<open>regl.frame\<close> (line 174), or a resize of the container, on which regl re-creates its drawing
  buffer with the size of lines 1-4. The events are the datatype \<open>gl_event\<close>, one step of the
  page is \<open>gl_step\<close>; a finite run is \<open>run_events\<close> and a run along an infinite schedule
  \<open>nat \<Rightarrow> gl_event\<close> is \<open>run_schedule\<close>. Every state of a run from a reachable state is
  reachable (\<open>reach_run_events\<close>), so FrameDriver's invariants hold along it; along every
  schedule with frames the stroke style settles, and along every schedule with infinitely many
  frames the buffer shows freshly drawn strands infinitely often.
\<close>

subsection \<open>Definitions\<close>

datatype gl_event = Animation_frame frame_env | Resize real real real

fun is_frame :: "gl_event \<Rightarrow> bool" where
  "is_frame (Animation_frame env) = True"
| "is_frame (Resize dpr cw ch) = False"

text \<open>Line 174, \<open>regl.frame(callback)\<close>: an animation frame runs the callback; a resize replaces
  regl's drawing buffer by a fresh one of the new size (lines 1-4).\<close>

definition gl_step :: "coverage \<Rightarrow> byte list \<Rightarrow> byte list \<Rightarrow> gl_app \<Rightarrow> gl_event \<Rightarrow> gl_app" where
  "gl_step cover gd gmd s ev =
     (case ev of Animation_frame env \<Rightarrow> frame cover gd gmd env s
               | Resize dpr cw ch \<Rightarrow> s\<lparr>a_fb := createREGL_fb dpr cw ch\<rparr>)"

definition run_events :: "coverage \<Rightarrow> byte list \<Rightarrow> byte list \<Rightarrow> gl_app \<Rightarrow> gl_event list \<Rightarrow> gl_app" where
  "run_events cover gd gmd s evs = foldl (gl_step cover gd gmd) s evs"

definition run_schedule :: "coverage \<Rightarrow> byte list \<Rightarrow> byte list \<Rightarrow> gl_app \<Rightarrow> (nat \<Rightarrow> gl_event) \<Rightarrow> nat \<Rightarrow> gl_app" where
  "run_schedule cover gd gmd s sched n = run_events cover gd gmd s (map sched [0..<n])"

text \<open>The buffer of \<open>s'\<close> shows the frame drawn with inputs \<open>env\<close> from state \<open>s\<close>: every
  pixel holds the source-over composite, in strand order on opaque black, of the layers uploaded
  from the canvases as each strand's redraw left them, at the texel the quad samples.\<close>

definition shows_frame :: "coverage \<Rightarrow> byte list \<Rightarrow> byte list \<Rightarrow> frame_env \<Rightarrow> gl_app \<Rightarrow> gl_app \<Rightarrow> bool" where
  "shows_frame cover gd gmd env s s' \<longleftrightarrow>
     (\<forall>px < fb_w (a_fb s'). \<forall>py < fb_h (a_fb s').
        fb_color (a_fb s') px py =
          composite_strands opaque_black
            (map (\<lambda>k. layer_pixel (upload cover (strand_canvas gd env (a_ctx s) k))
                                  (upload cover (strand_canvas gmd env (a_maskCtx s) k))
                                  (mirror_index (canvas_width (a_ctx s)) (fb_w (a_fb s')) px)
                                  (mirror_index (canvas_height (a_ctx s)) (fb_h (a_fb s')) py))
                 [0..<strand_count]))"

text \<open>Both canvases hold the stroke style of row 1 of their tables.\<close>

definition style_settled :: "byte list \<Rightarrow> byte list \<Rightarrow> gl_app \<Rightarrow> bool" where
  "style_settled gd gmd s \<longleftrightarrow>
     strokeStyle (a_ctx s) = Solid (row_color gd 1) \<and> strokeStyle (a_maskCtx s) = Solid (row_color gmd 1)"

subsection \<open>Lemmas\<close>

lemma gl_step_simps [simp]:
  "gl_step cover gd gmd s (Animation_frame env) = frame cover gd gmd env s"
  "gl_step cover gd gmd s (Resize dpr cw ch) = s\<lparr>a_fb := createREGL_fb dpr cw ch\<rparr>"
  by (simp_all add: gl_step_def)

lemma run_events_simps [simp]:
  "run_events cover gd gmd s [] = s"
  "run_events cover gd gmd s (evs @ [ev]) = gl_step cover gd gmd (run_events cover gd gmd s evs) ev"
  by (simp_all add: run_events_def)

lemma run_schedule_Suc [simp]:
  "run_schedule cover gd gmd s sched (Suc n) = gl_step cover gd gmd (run_schedule cover gd gmd s sched n) (sched n)"
  by (simp add: run_schedule_def)

lemma reach_gl_step: "reach cover gd gmd s \<Longrightarrow> reach cover gd gmd (gl_step cover gd gmd s ev)"
  by (cases ev) (auto intro: reach.intros)

lemma reach_run_events: "reach cover gd gmd s \<Longrightarrow> reach cover gd gmd (run_events cover gd gmd s evs)"
  by (induction evs rule: rev_induct) (simp_all add: reach_gl_step)

lemma frame_settles:
  assumes "length gd = 100" "length gmd = 100"
  shows "style_settled gd gmd (frame cover gd gmd env s)"
proof -
  have ne: "[0..<strand_count] \<noteq> []" by (simp add: strand_count_def)
  show ?thesis using frame_ctx [of cover gd gmd env s] drawOnCtxs_style [OF assms(1) ne] drawOnCtxs_style [OF assms(2) ne]
    by (simp add: style_settled_def)
qed

lemma gl_step_settled:
  assumes "length gd = 100" "length gmd = 100" "style_settled gd gmd s \<or> is_frame ev"
  shows "style_settled gd gmd (gl_step cover gd gmd s ev)"
  using assms frame_settles [OF assms(1,2)] by (cases ev) (auto simp: style_settled_def)

lemma run_schedule_settled:
  assumes "length gd = 100" "length gmd = 100" "is_frame (sched k)"
  shows "style_settled gd gmd (run_schedule cover gd gmd s sched (Suc k + d))"
proof (induction d)
  case 0
  then show ?case using gl_step_settled [OF assms(1,2)] assms(3) by simp
next
  case (Suc d)
  then show ?case using gl_step_settled [OF assms(1,2)] by (simp del: add_Suc)
qed

lemma frame_shows_frame:
  assumes "reach cover gd gmd s"
  shows "shows_frame cover gd gmd env s (frame cover gd gmd env s)"
proof -
  have inv: "textures_fit s" "canvases_agree s" "depth_cleared (a_fb s)" using reach_inv [OF assms] by auto
  have "fb_w (a_fb (frame cover gd gmd env s)) = fb_w (a_fb s)" "fb_h (a_fb (frame cover gd gmd env s)) = fb_h (a_fb s)"
    using frame_props [OF inv, of cover gd gmd env] by auto
  then show ?thesis using frame_pixels [OF inv] by (simp add: shows_frame_def)
qed

lemma frame_event_shows_frame:
  assumes "reach cover gd gmd s" "sched k = Animation_frame env"
  shows "shows_frame cover gd gmd env (run_schedule cover gd gmd s sched k) (run_schedule cover gd gmd s sched (Suc k))"
proof -
  have "reach cover gd gmd (run_schedule cover gd gmd s sched k)"
    unfolding run_schedule_def by (rule reach_run_events [OF assms(1)])
  then show ?thesis using frame_shows_frame assms(2) by simp
qed

lemma is_frame_iff: "is_frame ev \<longleftrightarrow> (\<exists>env. ev = Animation_frame env)"
  by (cases ev) simp_all

subsection \<open>Liveness along a schedule\<close>

text \<open>C31: Along any schedule of events in which an animation frame occurs at all, the stroke
  style of both canvases eventually settles on row 1 of their tables and keeps it for ever
  (eventually always): from the event after the first frame on, every state of the run has it,
  whatever resizes and frames follow.\<close>

theorem schedule_style_settles:
  assumes "length gd = 100" "length gmd = 100" "\<exists>k. is_frame (sched k)"
  shows "\<exists>N. \<forall>n \<ge> N. style_settled gd gmd (run_schedule cover gd gmd s sched n)"
proof -
  obtain k where k: "is_frame (sched k)" using assms(3) by blast
  have "style_settled gd gmd (run_schedule cover gd gmd s sched n)" if "Suc k \<le> n" for n
    using run_schedule_settled [where sched = sched and k = k, OF assms(1,2) k, of cover s "n - Suc k"] that by simp
  then show ?thesis by blast
qed

theorem schedule_style_settles_witness:
  "\<exists>N. \<forall>n \<ge> N. style_settled (replicate 100 0) (replicate 100 0)
     (run_schedule no_cover (replicate 100 0) (replicate 100 0) (projr (setup_gl no_cover True 1 1 (createREGL_fb 1 1 1)))
        (\<lambda>n. if n = 0 then Resize 2 1 1 else Animation_frame \<lparr>fe_width = 1, fe_height = 1, fe_now = (\<lambda>i. 0)\<rparr>) n)"
proof -
  have "is_frame ((\<lambda>n. if n = 0 then Resize 2 1 1 else Animation_frame \<lparr>fe_width = 1, fe_height = 1, fe_now = (\<lambda>i. 0)\<rparr>) (1::nat))"
    by simp
  then show ?thesis
    using schedule_style_settles [of "replicate 100 0" "replicate 100 0"
      "\<lambda>n. if n = 0 then Resize 2 1 1 else Animation_frame \<lparr>fe_width = 1, fe_height = 1, fe_now = (\<lambda>i. 0)\<rparr>"]
    by (metis length_replicate)
qed

text \<open>C32: From any reachable state, along any schedule with infinitely many animation frames
  (requestAnimationFrame keeps firing), the page shows freshly drawn strands infinitely often: for
  every point of the run there is a later frame event after which every pixel of the buffer holds
  the source-over composite, on opaque black and in strand order, of the layers uploaded from the
  canvases as that frame's three redraws left them (a resize in between leaves a fresh transparent
  buffer, which the next frame repaints).\<close>

theorem fair_schedule_shows_strands:
  assumes "reach cover gd gmd s" "\<forall>m. \<exists>k \<ge> m. is_frame (sched k)"
  shows "\<forall>m. \<exists>n \<ge> m. \<exists>env. sched n = Animation_frame env \<and>
           shows_frame cover gd gmd env (run_schedule cover gd gmd s sched n) (run_schedule cover gd gmd s sched (Suc n))"
  using assms(2) frame_event_shows_frame [OF assms(1)] unfolding is_frame_iff by metis

theorem fair_schedule_shows_strands_witness:
  "\<forall>m. \<exists>n \<ge> m. \<exists>env. (\<lambda>n. if even n then Animation_frame \<lparr>fe_width = 1, fe_height = 1, fe_now = real\<rparr> else Resize 2 1 1) n =
       Animation_frame env \<and>
     shows_frame no_cover [] [] env
       (run_schedule no_cover [] [] (projr (setup_gl no_cover True 1 1 (createREGL_fb 1 1 1)))
          (\<lambda>n. if even n then Animation_frame \<lparr>fe_width = 1, fe_height = 1, fe_now = real\<rparr> else Resize 2 1 1) n)
       (run_schedule no_cover [] [] (projr (setup_gl no_cover True 1 1 (createREGL_fb 1 1 1)))
          (\<lambda>n. if even n then Animation_frame \<lparr>fe_width = 1, fe_height = 1, fe_now = real\<rparr> else Resize 2 1 1) (Suc n))"
proof -
  have "\<forall>m::nat. \<exists>k \<ge> m. is_frame ((\<lambda>n. if even n then Animation_frame \<lparr>fe_width = 1, fe_height = 1, fe_now = real\<rparr> else Resize 2 1 1) k)"
  proof
    fix m :: nat
    show "\<exists>k \<ge> m. is_frame ((\<lambda>n. if even n then Animation_frame \<lparr>fe_width = 1, fe_height = 1, fe_now = real\<rparr> else Resize 2 1 1) k)"
      by (rule exI [of _ "2 * m"]) simp
  qed
  then show ?thesis
    by (rule fair_schedule_shows_strands [OF reach_setup_1x1 [of "[]" "[]"],
          where sched = "\<lambda>n. if even n then Animation_frame \<lparr>fe_width = 1, fe_height = 1, fe_now = real\<rparr> else Resize 2 1 1"])
qed

end
