(* ===== verification/Spec2Isabelle.thy ===== *)
theory Spec2Isabelle
  imports EventLoop
begin

text \<open>
  \<^bold>\<open>A verification development of the glowing-strands renderer (src/script.js).\<close>

  \<^bold>\<open>The program.\<close> script.js builds two 25-row lookup tables once (GradientTableBuilder:
  \<open>getGradientData\<close>, \<open>colorStops\<close>, \<open>gradData\<close>, \<open>gradMaskData\<close>, lines 9-50), then on every
  animation frame draws three strands (FrameDriver: lines 111-120, 164-201). For each strand it
  redraws two 2D canvases with \<open>drawOnCtx\<close> (CurveLayerRenderer, lines 122-162): a rosette of
  five cubic B\'ezier segments whose shape follows the phase, stroked 25 times with widths
  50 down to 2, each pass coloured by a table row. It then uploads both canvases into the
  strand's textures and draws a full-screen quad with the regl command \<open>drawLine\<close>
  (LayerCompositor, lines 52-109): RGB from the colour canvas, alpha from the red channel of
  the mask canvas, blended source-over, with a depth clear after each strand.

  \<^bold>\<open>Theories.\<close>
  \<^item> \<open>Prelude\<close>: bytes (\<open>8 word\<close>), the browser exceptions as the datatype \<open>js_error\<close> and the
    error monad \<open>js_bind\<close> on \<open>js_error + 'a\<close>, JavaScript's \<open>undefined\<close> for an out-of-range
    typed-array read (\<open>js_get\<close>), the decimal text of numbers, RGBA colours, rounding to a byte.
  \<^item> \<open>CssColor\<close>: the colour text \<open>drawOnCtx\<close> builds from a table row (\<open>stroke_style_text\<close>,
    lines 156-158) and a parser for the CSS colour syntax the script produces
    (\<open>parse_css_color\<close>: named colours, \<open>rgb()/rgba()\<close>, \<open>hsl()\<close>), with the round trip
    text to colour and the rejection of \<open>rgba(undefined, ...)\<close>.
  \<^item> \<open>Canvas2D\<close>: the CanvasRenderingContext2D the script calls, modelled from the HTML
    specification: the state as the record \<open>ctx\<close> with a display list of drawing commands,
    one function per call (\<open>clearRect\<close>, \<open>beginPath\<close>, \<open>moveTo\<close>, \<open>bezierCurveTo\<close>, the
    \<open>lineWidth\<close>/\<open>strokeStyle\<close>/\<open>lineJoin\<close>/\<open>lineCap\<close> setters that ignore invalid values,
    \<open>stroke\<close>, \<open>fillRect\<close>, radial gradients with \<open>addColorStop\<close> and its exceptions,
    \<open>getImageData\<close>), and \<open>makeCtx\<close> (lines 9-23) on top. Pixels are computed exactly for
    rectangles and gradients; which pixels a stroke covers is the parameter \<open>coverage\<close>.
  \<^item> \<open>Gradient\<close>: GradientTableBuilder. \<open>getGradientData\<close> as the composition of the canvas
    calls, failing on every branch the code can fail on; lemmas give the table row by row
    (\<open>column_bytes\<close>, the offset each row samples), its length, the mask table's grey rows,
    and the concrete rows of both tables used below.
  \<^item> \<open>CurveLayer\<close>: CurveLayerRenderer. \<open>drawOnCtx\<close> with its two loops (\<open>bezier_step\<close> folded
    over \<open>[0..<5]\<close>, \<open>stroke_passes\<close> recursing on \<open>l = 25, ..., 1\<close>), and the \<open>l\<close>-loop
    also as written, \<open>stroke_loop\<close>, a \<open>partial_function (option)\<close> with the decrement
    \<open>step\<close> of line 126 as a parameter; \<open>drawOnCtx_eq\<close> gives
    its whole effect on the context, and the claims give the strokes it issues for the
    100-byte tables and for longer ones, their widths, and its frame conditions; the distances
    of the path's points from its start (\<open>pt_dist\<close>) give its geometry.
  \<^item> \<open>Compositor\<close>: LayerCompositor. The GL pipeline of \<open>drawLine\<close>: vertex shader, the six
    positions as two triangles (\<open>triangles_of\<close>), barycentric interpolation (\<open>interp\<close>),
    fragment shader, nearest sampling with clamp (\<open>texture2D\<close>), depth test \<open>less\<close> at depth
    0.5, the blend state of lines 97-105; framebuffer clears. Colours are exact reals. The
    texel a window pixel samples (\<open>mirror_index\<close>) is computed for any canvas and buffer
    sizes.
  \<^item> \<open>FrameDriver\<close>: FrameDriver. \<open>createREGL_fb\<close> (lines 1-4: regl's drawing buffer, the
    container size times \<open>min(2, devicePixelRatio)\<close>), \<open>setup_gl\<close>, \<open>make_textures\<close>,
    \<open>strand_step\<close>, \<open>frame\<close> (a \<open>foldl\<close> over strands 0, 1, 2) on the record \<open>gl_app\<close>;
    \<open>boot\<close> runs the tables then the setup; the inductive \<open>reach\<close> gives the states of any
    run of setup, frames and resizes of regl's buffer, with invariants proved by rule induction.
  \<^item> \<open>EventLoop\<close>: the page's events. An animation frame (regl runs the callback of
    \<open>regl.frame\<close>, line 174) or a container resize (regl re-creates its buffer, lines 1-4) is
    a value of the datatype \<open>gl_event\<close>; \<open>gl_step\<close> is one step of the page, \<open>run_events\<close> a
    finite run and \<open>run_schedule\<close> a run along an infinite schedule \<open>nat \<Rightarrow> gl_event\<close>.
    Every state of a run from a reachable state is reachable, so FrameDriver's invariants hold
    along runs, and the liveness of the animation is stated over schedules.
  \<^item> This theory: the theorems that span the components, from boot to the frames and from
    boot along the browser's schedule of events.

  \<^bold>\<open>What the lemmas show.\<close> Table rows and length (C1-C6); the strokes of \<open>drawOnCtx\<close>
  (C7-C12); the composite \<open>drawLine\<close> writes on a cleared buffer, mirrored left to right, its
  depth behaviour, its alpha and the coverage of the quad (C13-C16); the frame's composite in
  strand order as a refinement of the spec's compositing contract \<open>composite_strands\<close>, each
  layer read from the canvases as that strand's redraw left them (\<open>strand_canvas\<close>, C17); the
  invariants of reachable states, the start-up error and the phases (C18-C22); the style every
  frame leaves, from boot (C23); the outer edge of the strand (C24) and the round trip of a row
  through its colour text (C25); the termination of the \<open>l\<close>-loop exactly when its decrement
  is positive and its equivalence with \<open>stroke_passes\<close> for \<open>step = 1\<close> (C26-C27); the
  magnified sampling on high-density screens (C28), the well-formedness of reachable states
  (C29) and the centre of the rosette (C30); the liveness of the animation: along any schedule
  with a frame the stroke style settles on row 1 for ever (C31), and along any schedule with
  infinitely many frames, infinitely often a frame leaves the buffer showing the strands it has
  just drawn (C32), both from the start of the script (C33); the distances of the curve's points
  from its start, the first control points drifting outward with the phase (C34), and that no
  two phases draw the same path (C35). A resize leaves a fresh transparent buffer, so the
  display is not an invariant of the runs; the fairness hypothesis (infinitely many frames) is
  what requestAnimationFrame provides while the page is visible.

  \<^bold>\<open>Findings.\<close> Pass \<open>l = 25\<close> reads bytes 100-102 of a 100-byte table (off by one), so
  the widest stroke keeps a stale style: \<open>drawOnCtx\<close> depends on the previous call (spec
  property 4) and the outer edge of a strand never shows a table colour (spec property 5). The
  table samples only offsets in \<open>(0, 1/2]\<close> of the gradient. The quad mirrors the layer
  horizontally. The blend lowers the framebuffer's alpha below 1 where strands are translucent.
  The rosette is centred on the current window, not on the canvas, which keeps its startup size.
  The first control point of each segment moves away from the centre by one unit per second of
  the page's life, so the animation never repeats and its bulges leave a typical screen after
  about half an hour.

  \<^bold>\<open>Bounds and fuel.\<close> Every loop of the program is bounded by a constant (5 segments,
  25 passes, 3 strands, the stops of the list), so the definitions used by the renderer are
  structural recursion or a \<open>foldl\<close>; the one loop whose end depends on a value, the
  \<open>l\<close>-loop with its decrement \<open>step\<close>, is the \<open>partial_function (option)\<close>
  \<open>stroke_loop\<close>, proved to return exactly when \<open>0 < step\<close> or \<open>l \<le> 0\<close> (no fuel is
  needed). The frame loop, which runs until the page closes, is the relation \<open>reach\<close>, and
  the runs of \<open>gl_step\<close> over finite prefixes of an infinite schedule stay inside it.

  \<^bold>\<open>Not modelled.\<close> The failures of regl are not modelled: \<open>createREGL\<close> throwing when
  WebGL is unavailable (line 1) and a shader failing to compile (line 52); \<open>boot\<close> takes the
  buffer regl created as its argument. Nor is the browser clearing the drawing buffer after it
  is presented (WebGL's default \<open>preserveDrawingBuffer: false\<close>): every frame clears and
  repaints the whole buffer itself, and the lemmas speak of the buffer as the frame leaves it.
  Line 5 (\<open>mat4\<close> from glMatrix) and line 7 (\<open>const c\<close>) bind values
  the script never uses; of \<open>createREGL\<close> only the drawing buffer it creates is modelled (the
  container is assumed to report its size in CSS pixels; a resize of the buffer may take any
  ratio, and the sampling lemmas hold for all of them). The browser's stroke rasteriser is the
  parameter \<open>coverage\<close>: which pixels a stroke of width \<open>w\<close> covers, and with what
  anti-aliasing, is left to the implementation by the HTML specification, so the Canvas 2D
  component is modelled up to that parameter, and the lemmas hold for every rasteriser (those
  about one pixel assume only which strokes cover it). The browser's CSS colour parser is
  modelled for the syntax the script produces (named colours, \<open>rgba()\<close>, \<open>hsl()\<close>); no
  other colour text reaches the canvases. The clock readings of a frame are any reals (the
  lemmas do not need \<open>performance.now()\<close> to be monotone). JavaScript numbers are exact reals
  (no IEEE rounding of the curve's \<open>sin\<close>/\<open>cos\<close>); the GL colour buffer is not quantised
  to 8 bits; the radial gradient is modelled for the geometries whose offset equation is linear, where the start circle touches
  the end circle from inside (the script's \<open>createRadialGradient(0, 0, 0, 0, h, h)\<close>).
\<close>

lemma boot_props:
  assumes "boot cover True W H fb0 = Inr (gd, gmd, s)"
  shows "gd = column_bytes 25 ((column_gradient 25)\<lparr>g_stops := color_stops\<rparr>) \<and>
         gmd = column_bytes 25 ((column_gradient 25)\<lparr>g_stops := mask_stops\<rparr>) \<and>
         setup_gl cover True W H fb0 = Inr s"
  using assms by (auto simp: boot_def gradData_color gradMaskData_mask js_bind_Inr_iff)

text \<open>C23: From the start of the script to any frame: in a window of positive size, whatever
  the device pixel ratio, when a 2D context is available, boot yields the colour table and the
  mask table (100 bytes each) and a reachable state, and in every state reachable with these
  tables (any run of frames and resizes) a frame leaves the colour canvas's stroke style at
  rgba(255, 22, 0, 1), row 1 of the colour table: the style the widest stroke of the next redraw
  inherits.\<close>

theorem boot_then_frames:
  assumes "0 < W" "0 < H" "boot cover True W H (createREGL_fb dpr cw ch) = Inr (gd, gmd, s)"
  shows "gd = column_bytes 25 ((column_gradient 25)\<lparr>g_stops := color_stops\<rparr>) \<and>
         gmd = column_bytes 25 ((column_gradient 25)\<lparr>g_stops := mask_stops\<rparr>) \<and>
         reach cover gd gmd s \<and>
         (\<forall>s'. reach cover gd gmd s' \<longrightarrow> strokeStyle (a_ctx (frame cover gd gmd env s')) = Solid (rgba 255 22 0 1))"
proof -
  have gd: "gd = column_bytes 25 ((column_gradient 25)\<lparr>g_stops := color_stops\<rparr>)"
    and gmd: "gmd = column_bytes 25 ((column_gradient 25)\<lparr>g_stops := mask_stops\<rparr>)"
    and st: "setup_gl cover True W H (createREGL_fb dpr cw ch) = Inr s"
    using boot_props [OF assms(3)] by auto
  have ne: "[0..<strand_count] \<noteq> []" by (simp add: strand_count_def)
  have "strokeStyle (a_ctx (frame cover gd gmd env s')) = Solid (row_color gd 1)" for s'
    using frame_ctx [of cover gd gmd env s'] drawOnCtxs_style [OF _ ne, of gd] gd by simp
  then show ?thesis using gd gmd reach_init [OF assms(1,2) st] by simp
qed

theorem boot_then_frames_witness:
  "boot no_cover True 1 1 (createREGL_fb 1 1 1) = Inr (column_bytes 25 ((column_gradient 25)\<lparr>g_stops := color_stops\<rparr>), column_bytes 25 ((column_gradient 25)\<lparr>g_stops := mask_stops\<rparr>), projr (setup_gl no_cover True 1 1 (createREGL_fb 1 1 1))) \<and>
   strokeStyle (a_ctx (frame no_cover (column_bytes 25 ((column_gradient 25)\<lparr>g_stops := color_stops\<rparr>)) (column_bytes 25 ((column_gradient 25)\<lparr>g_stops := mask_stops\<rparr>)) \<lparr>fe_width = 1, fe_height = 1, fe_now = (\<lambda>i. 0)\<rparr>
     (frame no_cover (column_bytes 25 ((column_gradient 25)\<lparr>g_stops := color_stops\<rparr>)) (column_bytes 25 ((column_gradient 25)\<lparr>g_stops := mask_stops\<rparr>)) \<lparr>fe_width = 1, fe_height = 1, fe_now = (\<lambda>i. 0)\<rparr> (projr (setup_gl no_cover True 1 1 (createREGL_fb 1 1 1)))))) = Solid (rgba 255 22 0 1)"
proof -
  have b: "boot no_cover True 1 1 (createREGL_fb 1 1 1) = Inr (column_bytes 25 ((column_gradient 25)\<lparr>g_stops := color_stops\<rparr>), column_bytes 25 ((column_gradient 25)\<lparr>g_stops := mask_stops\<rparr>), projr (setup_gl no_cover True 1 1 (createREGL_fb 1 1 1)))"
    by (simp add: boot_def gradData_color gradMaskData_mask setup_gl_def makeCtx_def Let_def)
  have r: "reach no_cover (column_bytes 25 ((column_gradient 25)\<lparr>g_stops := color_stops\<rparr>)) (column_bytes 25 ((column_gradient 25)\<lparr>g_stops := mask_stops\<rparr>)) (frame no_cover (column_bytes 25 ((column_gradient 25)\<lparr>g_stops := color_stops\<rparr>)) (column_bytes 25 ((column_gradient 25)\<lparr>g_stops := mask_stops\<rparr>)) \<lparr>fe_width = 1, fe_height = 1, fe_now = (\<lambda>i. 0)\<rparr> (projr (setup_gl no_cover True 1 1 (createREGL_fb 1 1 1))))"
    by (rule reach_frame [OF reach_setup_1x1])
  show ?thesis using boot_then_frames [OF _ _ b, of "\<lparr>fe_width = 1, fe_height = 1, fe_now = (\<lambda>i. 0)\<rparr>"] b r by simp
qed



end
